theory Spec2Isabelle
  imports Main "HOL-Library.Sublist" "HOL-Library.Multiset"
begin

section \<open>Decoded YAML values and the Python operations the validator applies to them\<close>

text \<open>
  The script \<^verbatim>\<open>scripts/validate-aap-config.py\<close> works on whatever
  \<^verbatim>\<open>yaml.safe_load\<close> returns. The model covers null, booleans, integers, strings,
  sequences and mappings with string keys (in document order, keys distinct). Floats,
  timestamps, binary scalars, YAML sets and mappings with non-string keys are outside the
  model. A \<open>string\<close> is a list of bytes; it stands for a Python \<^verbatim>\<open>str\<close> of ASCII
  characters, so that one \<open>char\<close> is one character of the source.
\<close>

datatype yaml =
    YNone
  | YBool bool
  | YInt int
  | YStr string
  | YList "yaml list"
  | YDict "(string \<times> yaml) list"

text \<open>The exceptions that the modelled operations can raise.\<close>

datatype py_error = TypeError | AttributeError | KeyError | IsADirectoryError

definition and_then :: "'e + 'a \<Rightarrow> ('a \<Rightarrow> 'e + 'b) \<Rightarrow> 'e + 'b" where
  "and_then r f = (case r of Inl e \<Rightarrow> Inl e | Inr v \<Rightarrow> f v)"

text \<open>A \<^verbatim>\<open>for x in xs:\<close> loop over a state; an exception in the body leaves the loop.\<close>

primrec for_each :: "('a \<Rightarrow> 's \<Rightarrow> 'e + 's) \<Rightarrow> 'a list \<Rightarrow> 's \<Rightarrow> 'e + 's" where
  "for_each f [] s = Inr s"
| "for_each f (x # xs) s = (case f x s of Inl e \<Rightarrow> Inl e | Inr s' \<Rightarrow> for_each f xs s')"

text \<open>Truth value of an object (\<^verbatim>\<open>if content\<close>, \<^verbatim>\<open>if not orgs\<close>).\<close>

fun py_truthy :: "yaml \<Rightarrow> bool" where
  "py_truthy YNone = False"
| "py_truthy (YBool b) = b"
| "py_truthy (YInt i) = (i \<noteq> 0)"
| "py_truthy (YStr s) = (s \<noteq> [])"
| "py_truthy (YList xs) = (xs \<noteq> [])"
| "py_truthy (YDict kvs) = (kvs \<noteq> [])"

text \<open>Iteration: a list yields its elements, a dict its keys, a str its characters.\<close>

fun py_iter :: "yaml \<Rightarrow> py_error + yaml list" where
  "py_iter (YList xs) = Inr xs"
| "py_iter (YDict kvs) = Inr (map (\<lambda>kv. YStr (fst kv)) kvs)"
| "py_iter (YStr s) = Inr (map (\<lambda>c. YStr [c]) s)"
| "py_iter _ = Inl TypeError"

text \<open>\<^verbatim>\<open>d.get(k, default)\<close> and \<^verbatim>\<open>k in d\<close> on a dict.\<close>

definition dict_get :: "(string \<times> yaml) list \<Rightarrow> string \<Rightarrow> yaml \<Rightarrow> yaml" where
  "dict_get d k dflt = (case map_of d k of None \<Rightarrow> dflt | Some v \<Rightarrow> v)"

definition dict_has :: "(string \<times> yaml) list \<Rightarrow> string \<Rightarrow> bool" where
  "dict_has d k = (map_of d k \<noteq> None)"

text \<open>\<^verbatim>\<open>obj.get(k, default)\<close>: only a dict has the method.\<close>

fun py_get :: "yaml \<Rightarrow> string \<Rightarrow> yaml \<Rightarrow> py_error + yaml" where
  "py_get (YDict d) k dflt = Inr (dict_get d k dflt)"
| "py_get _ k dflt = Inl AttributeError"

text \<open>\<^verbatim>\<open>k in obj\<close> for a str \<open>k\<close>: substring of a str, element of a list, key of a dict.\<close>

fun py_contains :: "string \<Rightarrow> yaml \<Rightarrow> py_error + bool" where
  "py_contains k (YStr t) = Inr (sublist k t)"
| "py_contains k (YList xs) = Inr (YStr k \<in> set xs)"
| "py_contains k (YDict d) = Inr (dict_has d k)"
| "py_contains k _ = Inl TypeError"

text \<open>\<^verbatim>\<open>obj[k]\<close> for a str \<open>k\<close>.\<close>

fun py_index :: "yaml \<Rightarrow> string \<Rightarrow> py_error + yaml" where
  "py_index (YDict d) k = (case map_of d k of None \<Rightarrow> Inl KeyError | Some v \<Rightarrow> Inr v)"
| "py_index _ k = Inl TypeError"

subsection \<open>\<^verbatim>\<open>str\<close> and \<^verbatim>\<open>repr\<close>\<close>

definition digit_char :: "nat \<Rightarrow> char" where
  "digit_char n = ''0123456789abcdef'' ! n"

fun str_nat :: "nat \<Rightarrow> string" where
  "str_nat n = (if n < 10 then [digit_char n] else str_nat (n div 10) @ [digit_char (n mod 10)])"

declare str_nat.simps [simp del]

definition str_int :: "int \<Rightarrow> string" where
  "str_int i = (if i < 0 then CHR ''-'' # str_nat (nat (- i)) else str_nat (nat i))"

text \<open>
  \<^verbatim>\<open>repr\<close> of a str: double quotes when the text has a single quote and no double
  quote, single quotes otherwise; the quote and the backslash are escaped, tab, newline and
  carriage return are written \<^verbatim>\<open>\t \n \r\<close>, other control characters as
  \<^verbatim>\<open>\xNN\<close>.
\<close>

definition repr_char :: "char \<Rightarrow> char \<Rightarrow> string" where
  "repr_char q c =
     (if c = q \<or> c = CHR 0x5C then [CHR 0x5C, c]
      else if c = CHR 0x09 then [CHR 0x5C, CHR ''t'']
      else if c = CHR 0x0A then [CHR 0x5C, CHR ''n'']
      else if c = CHR 0x0D then [CHR 0x5C, CHR ''r'']
      else if (of_char c :: nat) < 32 \<or> (of_char c :: nat) = 127
        then [CHR 0x5C, CHR ''x'', digit_char (of_char c div 16), digit_char (of_char c mod 16)]
      else [c])"

definition repr_str :: "string \<Rightarrow> string" where
  "repr_str s =
     (let q = (if CHR 0x27 \<in> set s \<and> CHR 0x22 \<notin> set s then CHR 0x22 else CHR 0x27)
      in q # concat (map (repr_char q) s) @ [q])"

fun py_repr :: "yaml \<Rightarrow> string"
  and repr_elems :: "yaml list \<Rightarrow> string"
  and repr_items :: "(string \<times> yaml) list \<Rightarrow> string" where
  "py_repr YNone = ''None''"
| "py_repr (YBool b) = (if b then ''True'' else ''False'')"
| "py_repr (YInt i) = str_int i"
| "py_repr (YStr s) = repr_str s"
| "py_repr (YList xs) = ''['' @ repr_elems xs @ '']''"
| "py_repr (YDict kvs) = ''{'' @ repr_items kvs @ ''}''"
| "repr_elems [] = []"
| "repr_elems [x] = py_repr x"
| "repr_elems (x # y # ys) = py_repr x @ '', '' @ repr_elems (y # ys)"
| "repr_items [] = []"
| "repr_items [(k, v)] = repr_str k @ '': '' @ py_repr v"
| "repr_items ((k, v) # kv # kvs) = repr_str k @ '': '' @ py_repr v @ '', '' @ repr_items (kv # kvs)"

text \<open>\<^verbatim>\<open>str(v)\<close>, also what an f-string puts in place of \<^verbatim>\<open>{v}\<close>.\<close>

fun py_str :: "yaml \<Rightarrow> string" where
  "py_str (YStr s) = s"
| "py_str v = py_repr v"

definition quoted :: "string \<Rightarrow> string" where
  "quoted s = CHR 0x27 # s @ [CHR 0x27]"

subsection \<open>Python sets of names\<close>

text \<open>
  A \<^verbatim>\<open>set\<close> is kept as the list of its members in the order they were first added.
  Lists and dicts are unhashable: adding one raises \<^verbatim>\<open>TypeError\<close>. Members are
  compared as Python compares them: \<^verbatim>\<open>True == 1\<close> and \<^verbatim>\<open>False == 0\<close>, every
  other pair of modelled scalars is equal only when identical.
\<close>

fun hashable :: "yaml \<Rightarrow> bool" where
  "hashable (YList xs) = False"
| "hashable (YDict kvs) = False"
| "hashable _ = True"

fun py_key :: "yaml \<Rightarrow> yaml" where
  "py_key (YBool b) = YInt (if b then 1 else 0)"
| "py_key v = v"

definition set_member :: "yaml \<Rightarrow> yaml list \<Rightarrow> bool" where
  "set_member v s = (py_key v \<in> py_key ` set s)"

definition set_add :: "yaml \<Rightarrow> yaml list \<Rightarrow> py_error + yaml list" where
  "set_add v s =
     (if \<not> hashable v then Inl TypeError
      else Inr (if set_member v s then s else s @ [v]))"

text \<open>\<^verbatim>\<open>a - b\<close>: the members of \<open>a\<close> that are not in \<open>b\<close>.\<close>

definition set_diff :: "yaml list \<Rightarrow> yaml list \<Rightarrow> yaml list" where
  "set_diff a b = filter (\<lambda>x. \<not> set_member x b) a"

section \<open>The validator object\<close>

record validator =
  base_path :: string
  environment :: "string option"
  errors :: "string list"
  warnings :: "string list"
  info :: "string list"
  defined_credentials :: "yaml list"
  defined_projects :: "yaml list"
  defined_inventories :: "yaml list"
  defined_ees :: "yaml list"
  defined_organizations :: "yaml list"
  defined_teams :: "yaml list"
  referenced_credentials :: "yaml list"
  referenced_projects :: "yaml list"
  referenced_inventories :: "yaml list"
  referenced_ees :: "yaml list"

text \<open>\<^verbatim>\<open>AAPConfigValidator.__init__\<close>\<close>

definition init :: "string \<Rightarrow> string option \<Rightarrow> validator" where
  "init bp env =
     \<lparr> base_path = bp, environment = env,
       errors = [], warnings = [], info = [],
       defined_credentials = [], defined_projects = [], defined_inventories = [],
       defined_ees = [], defined_organizations = [], defined_teams = [],
       referenced_credentials = [], referenced_projects = [],
       referenced_inventories = [], referenced_ees = [] \<rparr>"

text \<open>\<^verbatim>\<open>self.errors.append(m)\<close>, \<^verbatim>\<open>self.warnings.append(m)\<close>, \<^verbatim>\<open>self.info.append(m)\<close>\<close>

definition add_error :: "string \<Rightarrow> validator \<Rightarrow> validator" where
  "add_error m s = s\<lparr>errors := errors s @ [m]\<rparr>"

definition add_warning :: "string \<Rightarrow> validator \<Rightarrow> validator" where
  "add_warning m s = s\<lparr>warnings := warnings s @ [m]\<rparr>"

definition add_info :: "string \<Rightarrow> validator \<Rightarrow> validator" where
  "add_info m s = s\<lparr>info := info s @ [m]\<rparr>"

text \<open>A statement guarded by a condition: \<^verbatim>\<open>if c: stmt\<close>.\<close>

definition guarded :: "bool \<Rightarrow> ('s \<Rightarrow> 's) \<Rightarrow> 's \<Rightarrow> 's" where
  "guarded c f s = (if c then f s else s)"

section \<open>Entity validators\<close>

text \<open>
  Each validator is the loop of the source over the records under its key; the loop body is
  a function of its own (\<open>organization_step\<close> for \<^verbatim>\<open>validate_organizations\<close>, and so
  on). A record that is not a dict has no \<^verbatim>\<open>get\<close>: the body raises
  \<^verbatim>\<open>AttributeError\<close>. Text printed to the terminal is not part of the model.
\<close>

fun organization_step :: "yaml \<Rightarrow> validator \<Rightarrow> py_error + validator" where
  "organization_step (YDict org) s =
     (let name = dict_get org ''name'' (YStr ''unnamed'') in
      and_then (set_add name (defined_organizations s)) (\<lambda>d.
      let s1 = s\<lparr>defined_organizations := d\<rparr>;
          s2 = guarded (\<not> dict_has org ''name'')
                 (add_error ''Organization missing 'name' field'') s1;
          s3 = guarded (\<not> dict_has org ''description'')
                 (add_warning (''Organization '' @ quoted (py_str name) @ '' missing description'')) s2
      in Inr s3))"
| "organization_step _ s = Inl AttributeError"

definition validate_organizations :: "yaml \<Rightarrow> validator \<Rightarrow> py_error + validator" where
  "validate_organizations config s =
     and_then (py_get config ''controller_organizations'' (YList [])) (\<lambda>orgs.
     if \<not> py_truthy orgs then Inr (add_warning ''No organizations defined'' s)
     else
       and_then (py_iter orgs) (\<lambda>recs.
       and_then (for_each organization_step recs s) (\<lambda>s'.
       Inr (add_info (''Found '' @ str_nat (length recs) @ '' organization(s)'') s'))))"

fun team_step :: "yaml \<Rightarrow> validator \<Rightarrow> py_error + validator" where
  "team_step (YDict team) s =
     (let name = dict_get team ''name'' (YStr ''unnamed'') in
      and_then (set_add name (defined_teams s)) (\<lambda>d.
      let s1 = s\<lparr>defined_teams := d\<rparr>;
          s2 = guarded (\<not> dict_has team ''name'')
                 (add_error ''Team missing 'name' field'') s1;
          s3 = guarded (\<not> dict_has team ''organization'')
                 (add_error (''Team '' @ quoted (py_str name) @ '' missing organization reference'')) s2;
          s4 = guarded (\<not> dict_has team ''description'')
                 (add_warning (''Team '' @ quoted (py_str name) @ '' missing description'')) s3
      in Inr s4))"
| "team_step _ s = Inl AttributeError"

definition validate_teams :: "yaml \<Rightarrow> validator \<Rightarrow> py_error + validator" where
  "validate_teams config s =
     and_then (py_get config ''controller_teams'' (YList [])) (\<lambda>teams.
     if \<not> py_truthy teams
     then Inr (add_warning ''No teams defined - consider RBAC best practices'' s)
     else
       and_then (py_iter teams) (\<lambda>recs.
       and_then (for_each team_step recs s) (\<lambda>s'.
       Inr (add_info (''Found '' @ str_nat (length recs) @ '' team(s)'') s'))))"

definition sensitive_fields :: "string list" where
  "sensitive_fields = [''password'', ''secret'', ''token'', ''private_key'']"

definition unencrypted_msg :: "yaml \<Rightarrow> string \<Rightarrow> string" where
  "unencrypted_msg name field =
     ''Credential '' @ quoted (py_str name) @ '' has unencrypted '' @ quoted field
       @ '' - use ansible-vault or lookup''"

text \<open>The body of \<^verbatim>\<open>for field in sensitive_fields\<close>.\<close>

definition check_sensitive_field :: "yaml \<Rightarrow> yaml \<Rightarrow> string \<Rightarrow> validator \<Rightarrow> py_error + validator" where
  "check_sensitive_field name inputs field s =
     and_then (py_contains field inputs) (\<lambda>present.
     if present then
       and_then (py_index inputs field) (\<lambda>v.
       let val = py_str v in
       if \<not> prefix ''{{ '' val \<and> \<not> prefix ''!vault'' val
       then Inr (add_error (unencrypted_msg name field) s)
       else Inr s)
     else Inr s)"

fun credential_step :: "yaml \<Rightarrow> validator \<Rightarrow> py_error + validator" where
  "credential_step (YDict cred) s =
     (let name = dict_get cred ''name'' (YStr ''unnamed'') in
      and_then (set_add name (defined_credentials s)) (\<lambda>d.
      let s1 = s\<lparr>defined_credentials := d\<rparr>;
          s2 = guarded (\<not> dict_has cred ''name'')
                 (add_error ''Credential missing 'name' field'') s1;
          s3 = guarded (\<not> dict_has cred ''credential_type'')
                 (add_error (''Credential '' @ quoted (py_str name) @ '' missing credential_type'')) s2;
          s4 = guarded (\<not> dict_has cred ''organization'')
                 (add_error (''Credential '' @ quoted (py_str name) @ '' missing organization'')) s3;
          inputs = dict_get cred ''inputs'' (YDict [])
      in for_each (check_sensitive_field name inputs) sensitive_fields s4))"
| "credential_step _ s = Inl AttributeError"

definition validate_credentials :: "yaml \<Rightarrow> validator \<Rightarrow> py_error + validator" where
  "validate_credentials config s =
     and_then (py_get config ''controller_credentials'' (YList [])) (\<lambda>credentials.
     and_then (py_iter credentials) (\<lambda>recs.
     and_then (for_each credential_step recs s) (\<lambda>s'.
     Inr (add_info (''Found '' @ str_nat (length recs) @ '' credential(s)'') s'))))"

definition digest_msg :: "yaml \<Rightarrow> string" where
  "digest_msg name =
     ''Execution Environment '' @ quoted (py_str name)
       @ '' should use digest-based image reference in production''"

definition latest_msg :: "yaml \<Rightarrow> string" where
  "latest_msg name =
     ''Execution Environment '' @ quoted (py_str name)
       @ '' uses 'latest' tag - use specific version''"

text \<open>The check of \<^verbatim>\<open>image\<close> in the body of \<^verbatim>\<open>for ee in ees\<close>.\<close>

definition check_image :: "(string \<times> yaml) list \<Rightarrow> yaml \<Rightarrow> validator \<Rightarrow> py_error + validator" where
  "check_image ee name s =
     (if \<not> dict_has ee ''image''
      then Inr (add_error (''Execution Environment '' @ quoted (py_str name) @ '' missing image'') s)
      else
        and_then (py_index (YDict ee) ''image'') (\<lambda>image.
        and_then (py_contains ''@sha256:'' image) (\<lambda>has_digest.
        let s1 = guarded (\<not> has_digest \<and> environment s = Some ''prod'')
                   (add_warning (digest_msg name)) s
        in
        and_then (py_contains '':latest'' image) (\<lambda>has_latest.
        Inr (guarded has_latest (add_error (latest_msg name)) s1)))))"

fun execution_environment_step :: "yaml \<Rightarrow> validator \<Rightarrow> py_error + validator" where
  "execution_environment_step (YDict ee) s =
     (let name = dict_get ee ''name'' (YStr ''unnamed'') in
      and_then (set_add name (defined_ees s)) (\<lambda>d.
      let s1 = s\<lparr>defined_ees := d\<rparr>;
          s2 = guarded (\<not> dict_has ee ''name'')
                 (add_error ''Execution Environment missing 'name' field'') s1
      in check_image ee name s2))"
| "execution_environment_step _ s = Inl AttributeError"

definition validate_execution_environments :: "yaml \<Rightarrow> validator \<Rightarrow> py_error + validator" where
  "validate_execution_environments config s =
     and_then (py_get config ''controller_execution_environments'' (YList [])) (\<lambda>ees.
     and_then (py_iter ees) (\<lambda>recs.
     and_then (for_each execution_environment_step recs s) (\<lambda>s'.
     Inr (add_info (''Found '' @ str_nat (length recs) @ '' execution environment(s)'') s'))))"

text \<open>The last two checks of the body of \<^verbatim>\<open>for project in projects\<close>.\<close>

definition reference_project_credential :: "(string \<times> yaml) list \<Rightarrow> validator \<Rightarrow> py_error + validator" where
  "reference_project_credential project s =
     (if dict_has project ''credential''
      then and_then (py_index (YDict project) ''credential'') (\<lambda>c.
           and_then (set_add c (referenced_credentials s)) (\<lambda>r.
           Inr (s\<lparr>referenced_credentials := r\<rparr>)))
      else Inr s)"

definition reference_default_environment :: "(string \<times> yaml) list \<Rightarrow> validator \<Rightarrow> py_error + validator" where
  "reference_default_environment project s =
     (if dict_has project ''default_environment''
      then and_then (py_index (YDict project) ''default_environment'') (\<lambda>e.
           and_then (set_add e (referenced_ees s)) (\<lambda>r.
           Inr (s\<lparr>referenced_ees := r\<rparr>)))
      else Inr s)"

fun project_step :: "yaml \<Rightarrow> validator \<Rightarrow> py_error + validator" where
  "project_step (YDict project) s =
     (let name = dict_get project ''name'' (YStr ''unnamed'') in
      and_then (set_add name (defined_projects s)) (\<lambda>d.
      let s1 = s\<lparr>defined_projects := d\<rparr>;
          s2 = guarded (\<not> dict_has project ''name'')
                 (add_error ''Project missing 'name' field'') s1;
          s3 = (if \<not> dict_has project ''scm_type''
                then add_error (''Project '' @ quoted (py_str name) @ '' missing scm_type'') s2
                else guarded (dict_get project ''scm_type'' YNone \<noteq> YStr ''git'')
                       (add_warning (''Project '' @ quoted (py_str name)
                          @ '' not using Git SCM (Constitutional Article I: GitOps First)'')) s2);
          s4 = guarded (\<not> dict_has project ''scm_url'')
                 (add_error (''Project '' @ quoted (py_str name) @ '' missing scm_url'')) s3;
          s5 = guarded (\<not> dict_has project ''scm_branch'')
                 (add_warning (''Project '' @ quoted (py_str name)
                    @ '' not specifying branch - will use repository default'')) s4
      in
      and_then (reference_project_credential project s5) (\<lambda>s6.
      reference_default_environment project s6)))"
| "project_step _ s = Inl AttributeError"

definition validate_projects :: "yaml \<Rightarrow> validator \<Rightarrow> py_error + validator" where
  "validate_projects config s =
     and_then (py_get config ''controller_projects'' (YList [])) (\<lambda>projects.
     and_then (py_iter projects) (\<lambda>recs.
     and_then (for_each project_step recs s) (\<lambda>s'.
     Inr (add_info (''Found '' @ str_nat (length recs) @ '' project(s)'') s'))))"

fun inventory_step :: "yaml \<Rightarrow> validator \<Rightarrow> py_error + validator" where
  "inventory_step (YDict inventory) s =
     (let name = dict_get inventory ''name'' (YStr ''unnamed'') in
      and_then (set_add name (defined_inventories s)) (\<lambda>d.
      let s1 = s\<lparr>defined_inventories := d\<rparr>;
          s2 = guarded (\<not> dict_has inventory ''name'')
                 (add_error ''Inventory missing 'name' field'') s1;
          s3 = guarded (\<not> dict_has inventory ''organization'')
                 (add_error (''Inventory '' @ quoted (py_str name) @ '' missing organization'')) s2
      in Inr s3))"
| "inventory_step _ s = Inl AttributeError"

definition validate_inventories :: "yaml \<Rightarrow> validator \<Rightarrow> py_error + validator" where
  "validate_inventories config s =
     and_then (py_get config ''controller_inventories'' (YList [])) (\<lambda>inventories.
     and_then (py_iter inventories) (\<lambda>recs.
     and_then (for_each inventory_step recs s) (\<lambda>s'.
     Inr (add_info (''Found '' @ str_nat (length recs) @ '' inventor(y|ies)'') s'))))"

text \<open>The body of \<^verbatim>\<open>for cred in template['credentials']\<close>.\<close>

fun template_credential_step :: "yaml \<Rightarrow> validator \<Rightarrow> py_error + validator" where
  "template_credential_step (YStr c) s =
     and_then (set_add (YStr c) (referenced_credentials s)) (\<lambda>r.
     Inr (s\<lparr>referenced_credentials := r\<rparr>))"
| "template_credential_step (YDict c) s =
     (if dict_has c ''name''
      then and_then (py_index (YDict c) ''name'') (\<lambda>n.
           and_then (set_add n (referenced_credentials s)) (\<lambda>r.
           Inr (s\<lparr>referenced_credentials := r\<rparr>)))
      else Inr s)"
| "template_credential_step _ s = Inr s"

definition missing_project_msg :: "yaml \<Rightarrow> string" where
  "missing_project_msg name = ''Job Template '' @ quoted (py_str name) @ '' missing project''"

definition missing_inventory_msg :: "yaml \<Rightarrow> string" where
  "missing_inventory_msg name = ''Job Template '' @ quoted (py_str name) @ '' missing inventory''"

text \<open>
  The body of \<^verbatim>\<open>for template in templates\<close> is split at its blank lines: the checks of
  \<^verbatim>\<open>project\<close>, of \<^verbatim>\<open>inventory\<close>, of \<^verbatim>\<open>credentials\<close> and of
  \<^verbatim>\<open>execution_environment\<close>, and the checks made only for \<^verbatim>\<open>prod\<close>.
\<close>

definition reference_project :: "(string \<times> yaml) list \<Rightarrow> yaml \<Rightarrow> validator \<Rightarrow> py_error + validator" where
  "reference_project template name s =
     (if dict_has template ''project''
      then and_then (py_index (YDict template) ''project'') (\<lambda>p.
           and_then (set_add p (referenced_projects s)) (\<lambda>r.
           Inr (s\<lparr>referenced_projects := r\<rparr>)))
      else Inr (add_error (missing_project_msg name) s))"

definition reference_inventory :: "(string \<times> yaml) list \<Rightarrow> yaml \<Rightarrow> validator \<Rightarrow> py_error + validator" where
  "reference_inventory template name s =
     (if dict_has template ''inventory''
      then and_then (py_index (YDict template) ''inventory'') (\<lambda>i.
           and_then (set_add i (referenced_inventories s)) (\<lambda>r.
           Inr (s\<lparr>referenced_inventories := r\<rparr>)))
      else Inr (add_error (missing_inventory_msg name) s))"

definition reference_credentials :: "(string \<times> yaml) list \<Rightarrow> validator \<Rightarrow> py_error + validator" where
  "reference_credentials template s =
     (if dict_has template ''credentials''
      then and_then (py_index (YDict template) ''credentials'') (\<lambda>cs.
           and_then (py_iter cs) (\<lambda>creds.
           for_each template_credential_step creds s))
      else Inr s)"

definition reference_execution_environment :: "(string \<times> yaml) list \<Rightarrow> validator \<Rightarrow> py_error + validator" where
  "reference_execution_environment template s =
     (if dict_has template ''execution_environment''
      then and_then (py_index (YDict template) ''execution_environment'') (\<lambda>e.
           and_then (set_add e (referenced_ees s)) (\<lambda>r.
           Inr (s\<lparr>referenced_ees := r\<rparr>)))
      else Inr s)"

definition production_checks :: "(string \<times> yaml) list \<Rightarrow> yaml \<Rightarrow> validator \<Rightarrow> validator" where
  "production_checks template name s =
     (if environment s = Some ''prod''
      then
        (let s1 = guarded (py_truthy (dict_get template ''ask_variables_on_launch'' (YBool False)))
                    (add_warning (''Job Template '' @ quoted (py_str name)
                       @ '' allows variable prompts in production - consider pre-defining variables'')) s;
             s2 = guarded (\<not> py_truthy (dict_get template ''use_fact_cache'' (YBool False)))
                    (add_warning (''Job Template '' @ quoted (py_str name)
                       @ '' not using fact cache - consider enabling for performance'')) s1
         in s2)
      else s)"

fun job_template_step :: "yaml \<Rightarrow> validator \<Rightarrow> py_error + validator" where
  "job_template_step (YDict template) s =
     (let name = dict_get template ''name'' (YStr ''unnamed'');
          s1 = guarded (\<not> dict_has template ''name'')
                 (add_error ''Job Template missing 'name' field'') s
      in
      and_then (reference_project template name s1) (\<lambda>s2.
      and_then (reference_inventory template name s2) (\<lambda>s3.
      let s4 = guarded (\<not> dict_has template ''playbook'')
                 (add_error (''Job Template '' @ quoted (py_str name) @ '' missing playbook'')) s3
      in
      and_then (reference_credentials template s4) (\<lambda>s5.
      and_then (reference_execution_environment template s5) (\<lambda>s6.
      Inr (production_checks template name s6))))))"
| "job_template_step _ s = Inl AttributeError"

definition validate_job_templates :: "yaml \<Rightarrow> validator \<Rightarrow> py_error + validator" where
  "validate_job_templates config s =
     and_then (py_get config ''controller_templates'' (YList [])) (\<lambda>templates.
     and_then (py_iter templates) (\<lambda>recs.
     and_then (for_each job_template_step recs s) (\<lambda>s'.
     Inr (add_info (''Found '' @ str_nat (length recs) @ '' job template(s)'') s'))))"

fun workflow_step :: "yaml \<Rightarrow> validator \<Rightarrow> py_error + validator" where
  "workflow_step (YDict workflow) s =
     (let name = dict_get workflow ''name'' (YStr ''unnamed'');
          s1 = guarded (\<not> dict_has workflow ''name'')
                 (add_error ''Workflow Template missing 'name' field'') s;
          s2 = guarded (\<not> dict_has workflow ''simplified_workflow_nodes''
                         \<and> \<not> dict_has workflow ''workflow_nodes'')
                 (add_warning (''Workflow Template '' @ quoted (py_str name)
                    @ '' has no workflow nodes defined'')) s1
      in Inr s2)"
| "workflow_step _ s = Inl AttributeError"

definition validate_workflow_templates :: "yaml \<Rightarrow> validator \<Rightarrow> py_error + validator" where
  "validate_workflow_templates config s =
     and_then (py_get config ''controller_workflows'' (YList [])) (\<lambda>workflows.
     and_then (py_iter workflows) (\<lambda>recs.
     and_then (for_each workflow_step recs s) (\<lambda>s'.
     Inr (add_info (''Found '' @ str_nat (length recs) @ '' workflow template(s)'') s'))))"

fun schedule_step :: "yaml \<Rightarrow> validator \<Rightarrow> py_error + validator" where
  "schedule_step (YDict schedule) s =
     (let name = dict_get schedule ''name'' (YStr ''unnamed'');
          s1 = guarded (\<not> dict_has schedule ''name'')
                 (add_error ''Schedule missing 'name' field'') s;
          s2 = guarded (\<not> dict_has schedule ''rrule'')
                 (add_error (''Schedule '' @ quoted (py_str name) @ '' missing rrule'')) s1;
          s3 = guarded (\<not> dict_has schedule ''unified_job_template'')
                 (add_error (''Schedule '' @ quoted (py_str name)
                    @ '' missing unified_job_template'')) s2;
          s4 = guarded (py_truthy (dict_get schedule ''enabled'' (YBool True))
                         \<and> environment s3 = Some ''prod'')
                 (add_info (''Schedule '' @ quoted (py_str name) @ '' is enabled in production'')) s3
      in Inr s4)"
| "schedule_step _ s = Inl AttributeError"

definition validate_schedules :: "yaml \<Rightarrow> validator \<Rightarrow> py_error + validator" where
  "validate_schedules config s =
     and_then (py_get config ''controller_schedules'' (YList [])) (\<lambda>schedules.
     and_then (py_iter schedules) (\<lambda>recs.
     and_then (for_each schedule_step recs s) (\<lambda>s'.
     Inr (add_info (''Found '' @ str_nat (length recs) @ '' schedule(s)'') s'))))"

section \<open>Reference reconciliation\<close>

text \<open>
  The order in which CPython iterates over a set is determined by the hashes of its members
  and is not fixed by the language. It is a parameter \<open>iter\<close> of the model: \<open>iter xs\<close> is
  the order in which the members \<open>xs\<close> of a set come out of a \<^verbatim>\<open>for\<close> loop.
\<close>

definition dangling_msg :: "string \<Rightarrow> yaml \<Rightarrow> string" where
  "dangling_msg kind n =
     ''Referenced '' @ kind @ '' '' @ quoted (py_str n)
       @ '' is not defined (may be in different environment)''"

definition warn_undefined :: "(yaml list \<Rightarrow> yaml list) \<Rightarrow> string \<Rightarrow> yaml list \<Rightarrow> validator \<Rightarrow> validator" where
  "warn_undefined iter kind dangling s =
     (if dangling \<noteq> []
      then s\<lparr>warnings := warnings s @ map (dangling_msg kind) (iter dangling)\<rparr>
      else s)"

definition validate_references :: "(yaml list \<Rightarrow> yaml list) \<Rightarrow> validator \<Rightarrow> validator" where
  "validate_references iter s =
     (let s1 = warn_undefined iter ''credential''
                 (set_diff (referenced_credentials s) (defined_credentials s)) s;
          s2 = warn_undefined iter ''project''
                 (set_diff (referenced_projects s1) (defined_projects s1)) s1;
          s3 = warn_undefined iter ''inventory''
                 (set_diff (referenced_inventories s2) (defined_inventories s2)) s2;
          s4 = warn_undefined iter ''execution environment''
                 (set_diff (referenced_ees s3) (defined_ees s3)) s3
      in s4)"

section \<open>Files, one environment, the whole run\<close>

text \<open>
  The file system as the script sees it: a path is absent, a directory, a file that
  \<^verbatim>\<open>yaml.safe_load\<close> rejects (with the text of the \<^verbatim>\<open>YAMLError\<close>), or a file that
  decodes to a value. Paths are the strings \<^verbatim>\<open>pathlib\<close> prints.
\<close>

datatype node = Directory | Malformed string | Document yaml

type_synonym filesystem = "string \<Rightarrow> node option"

text \<open>\<^verbatim>\<open>p / c\<close> for a relative component \<open>c\<close>.\<close>

definition path_div :: "string \<Rightarrow> string \<Rightarrow> string" where
  "path_div p c =
     (if p = ''.'' then c
      else if p = ''/'' \<or> p = ''//'' then p @ c
      else p @ ''/'' @ c)"

definition load_yaml_file :: "filesystem \<Rightarrow> string \<Rightarrow> validator \<Rightarrow> py_error + (yaml \<times> validator)" where
  "load_yaml_file fs file_path s =
     (case fs file_path of
        None \<Rightarrow> Inr (YDict [], add_warning (''File not found: '' @ file_path) s)
      | Some Directory \<Rightarrow> Inl IsADirectoryError
      | Some (Malformed e) \<Rightarrow>
          Inr (YDict [], add_error (''YAML parsing error in '' @ file_path @ '': '' @ e) s)
      | Some (Document content) \<Rightarrow>
          Inr (if py_truthy content then content else YDict [], s))"

definition get_group_vars_path :: "validator \<Rightarrow> string option \<Rightarrow> string" where
  "get_group_vars_path s env =
     (case env of
        Some e \<Rightarrow>
          (if e \<noteq> []
           then path_div (path_div (path_div (base_path s) ''inventory'') ''group_vars'') (''aap_'' @ e)
           else path_div (path_div (base_path s) ''inventory'') ''group_vars'')
      | None \<Rightarrow> path_div (path_div (base_path s) ''inventory'') ''group_vars'')"

definition config_files :: "(string \<times> (yaml \<Rightarrow> validator \<Rightarrow> py_error + validator)) list" where
  "config_files =
     [(''organizations.yml'', validate_organizations),
      (''teams.yml'', validate_teams),
      (''credentials.yml'', validate_credentials),
      (''execution_environments.yml'', validate_execution_environments),
      (''projects.yml'', validate_projects),
      (''inventories.yml'', validate_inventories),
      (''job_templates.yml'', validate_job_templates),
      (''workflow_templates.yml'', validate_workflow_templates),
      (''schedules.yml'', validate_schedules)]"

text \<open>The body of \<^verbatim>\<open>for filename, validator in config_files.items()\<close>.\<close>

definition validate_file ::
  "filesystem \<Rightarrow> string \<Rightarrow> string \<times> (yaml \<Rightarrow> validator \<Rightarrow> py_error + validator)
     \<Rightarrow> validator \<Rightarrow> py_error + validator" where
  "validate_file fs group_vars_path entry s =
     (let file_path = path_div group_vars_path (fst entry) in
      if fs file_path \<noteq> None
      then and_then (load_yaml_file fs file_path s) (\<lambda>(config, s1).
           if py_truthy config then snd entry config s1 else Inr s1)
      else Inr s)"

definition validate_environment ::
  "(yaml list \<Rightarrow> yaml list) \<Rightarrow> filesystem \<Rightarrow> string \<Rightarrow> validator \<Rightarrow> py_error + (bool \<times> validator)" where
  "validate_environment iter fs env s =
     (let group_vars_path = get_group_vars_path s (Some env) in
      if fs group_vars_path = None
      then Inr (False, add_error (''Environment path not found: '' @ group_vars_path) s)
      else
        and_then (for_each (validate_file fs group_vars_path) config_files s) (\<lambda>s1.
        Inr (True, validate_references iter s1)))"

text \<open>\<^verbatim>\<open>print_results\<close>: the value returned; the printed lines are not modelled.\<close>

definition print_results :: "validator \<Rightarrow> bool" where
  "print_results s = (if errors s \<noteq> [] then False else True)"

text \<open>
  \<^verbatim>\<open>main\<close> after argument parsing. \<open>run_environments\<close> is the loop
  \<^verbatim>\<open>for env in environments\<close>: it gives the validator objects whose results were printed,
  in order, and either the exception that ended the process or \<open>all_passed\<close>.
\<close>

definition environments_to_validate :: "bool \<Rightarrow> string \<Rightarrow> string list" where
  "environments_to_validate all_environments env =
     (if all_environments \<or> env = ''all'' then [''dev'', ''qa'', ''prod''] else [env])"

fun run_environments ::
  "(yaml list \<Rightarrow> yaml list) \<Rightarrow> filesystem \<Rightarrow> string \<Rightarrow> string list \<Rightarrow> bool
     \<Rightarrow> validator list \<times> (py_error + bool)" where
  "run_environments iter fs bp [] all_passed = ([], Inr all_passed)"
| "run_environments iter fs bp (env # envs) all_passed =
     (let v = init bp (Some env) in
      case validate_environment iter fs env v of
        Inl e \<Rightarrow> ([], Inl e)
      | Inr (ok, v') \<Rightarrow>
          (let passed = print_results v';
               (printed, out) = run_environments iter fs bp envs (all_passed \<and> passed)
           in (v' # printed, out)))"

text \<open>The exit status of the process; an uncaught exception ends it with status 1.\<close>

definition main :: "(yaml list \<Rightarrow> yaml list) \<Rightarrow> filesystem \<Rightarrow> string \<Rightarrow> bool \<Rightarrow> string \<Rightarrow> nat" where
  "main iter fs bp all_environments env =
     (case snd (run_environments iter fs bp (environments_to_validate all_environments env) True) of
        Inl e \<Rightarrow> 1
      | Inr all_passed \<Rightarrow> (if all_passed then 0 else 1))"

section \<open>Notions used in the statements\<close>

text \<open>
  \<open>extends s s'\<close>: the state \<open>s'\<close> has the base path and the environment of \<open>s\<close>, and
  every list of findings and every set of names of \<open>s\<close> is an initial part of the one in
  \<open>s'\<close>. A set is kept in the order of insertion, so this says that members were only
  added.
\<close>

definition extends :: "validator \<Rightarrow> validator \<Rightarrow> bool" where
  "extends s s' =
     (base_path s' = base_path s \<and> environment s' = environment s
      \<and> prefix (errors s) (errors s') \<and> prefix (warnings s) (warnings s')
      \<and> prefix (info s) (info s')
      \<and> prefix (defined_credentials s) (defined_credentials s')
      \<and> prefix (defined_projects s) (defined_projects s')
      \<and> prefix (defined_inventories s) (defined_inventories s')
      \<and> prefix (defined_ees s) (defined_ees s')
      \<and> prefix (defined_organizations s) (defined_organizations s')
      \<and> prefix (defined_teams s) (defined_teams s')
      \<and> prefix (referenced_credentials s) (referenced_credentials s')
      \<and> prefix (referenced_projects s) (referenced_projects s')
      \<and> prefix (referenced_inventories s) (referenced_inventories s')
      \<and> prefix (referenced_ees s) (referenced_ees s'))"

text \<open>An operation that returns leaves a state that extends the one it started from.\<close>

definition result_extends :: "validator \<Rightarrow> py_error + validator \<Rightarrow> bool" where
  "result_extends s r = (case r of Inl e \<Rightarrow> True | Inr s' \<Rightarrow> extends s s')"

text \<open>The warnings of one kind that \<open>warn_undefined\<close> appends.\<close>

definition dangling_warnings :: "(yaml list \<Rightarrow> yaml list) \<Rightarrow> string \<Rightarrow> yaml list \<Rightarrow> string list" where
  "dangling_warnings iter kind dangling =
     (if dangling \<noteq> [] then map (dangling_msg kind) (iter dangling) else [])"

text \<open>One environment validated on its own by a validator that was just constructed.\<close>

definition environment_report ::
  "(yaml list \<Rightarrow> yaml list) \<Rightarrow> filesystem \<Rightarrow> string \<Rightarrow> string \<Rightarrow> py_error + validator" where
  "environment_report iter fs bp env =
     map_sum id snd (validate_environment iter fs env (init bp (Some env)))"

section \<open>A small configuration used to exercise the model\<close>

definition example_credential :: "(string \<times> yaml) list" where
  "example_credential =
     [(''name'', YStr ''db''),
      (''inputs'', YDict [(''password'', YStr ''hunter2''), (''token'', YStr ''{{ vault_token }}'')])]"

definition example_template :: "(string \<times> yaml) list" where
  "example_template =
     [(''name'', YStr ''deploy''), (''project'', YStr ''app''), (''playbook'', YStr ''site.yml'')]"

definition example_fs :: filesystem where
  "example_fs p =
     (if p = ''/repo/inventory/group_vars/aap_prod'' then Some Directory
      else if p = ''/repo/inventory/group_vars/aap_prod/credentials.yml''
        then Some (Document (YDict [(''controller_credentials'', YList [YDict example_credential])]))
      else if p = ''/repo/inventory/group_vars/aap_prod/job_templates.yml''
        then Some (Document (YDict [(''controller_templates'', YList [YDict example_template])]))
      else if p = ''/repo/inventory/group_vars/aap_prod/organizations.yml''
        then Some (Document (YDict [(''controller_organizations'', YList [])]))
      else if p = ''/repo/inventory/group_vars/aap_prod/teams.yml''
        then Some (Document YNone)
      else if p = ''/repo/inventory/group_vars/aap_prod/inventories.yml''
        then Some (Document (YDict [(''controller_inventories'', YList [])]))
      else None)"

definition example_start :: validator where
  "example_start = init ''/repo'' (Some ''prod'')"

definition example_report :: validator where
  "example_report =
     example_start\<lparr>
       errors := [''Credential 'db' missing credential_type'',
                  ''Credential 'db' missing organization'',
                  ''Credential 'db' has unencrypted 'password' - use ansible-vault or lookup'',
                  ''Job Template 'deploy' missing inventory''],
       warnings := [''No organizations defined'',
                    ''Job Template 'deploy' not using fact cache - consider enabling for performance'',
                    ''Referenced project 'app' is not defined (may be in different environment)''],
       info := [''Found 1 credential(s)'', ''Found 0 inventor(y|ies)'', ''Found 1 job template(s)''],
       defined_credentials := [YStr ''db''],
       referenced_projects := [YStr ''app'']\<rparr>"

definition example_ee :: "(string \<times> yaml) list" where
  "example_ee = [(''name'', YStr ''ee1''), (''image'', YStr ''quay.io/acme/ee:latest'')]"

definition example_unnamed_organization :: "(string \<times> yaml) list" where
  "example_unnamed_organization = [(''description'', YStr ''ops'')]"

definition example_unnamed_result :: validator where
  "example_unnamed_result =
     example_start\<lparr>
       errors := [''Organization missing 'name' field''],
       defined_organizations := [YStr ''unnamed'']\<rparr>"

text \<open>Single documents of the example, and the states in which their validators leave it.\<close>

definition example_credentials_document :: yaml where
  "example_credentials_document =
     YDict [(''controller_credentials'', YList [YDict example_credential])]"

definition example_credentials_result :: validator where
  "example_credentials_result =
     example_start\<lparr>
       errors := [''Credential 'db' missing credential_type'',
                  ''Credential 'db' missing organization'',
                  ''Credential 'db' has unencrypted 'password' - use ansible-vault or lookup''],
       info := [''Found 1 credential(s)''],
       defined_credentials := [YStr ''db'']\<rparr>"

definition example_ees_document :: yaml where
  "example_ees_document =
     YDict [(''controller_execution_environments'', YList [YDict example_ee])]"

definition example_ees_result :: validator where
  "example_ees_result =
     example_start\<lparr>
       errors := [''Execution Environment 'ee1' uses 'latest' tag - use specific version''],
       warnings := [''Execution Environment 'ee1' should use digest-based image reference in production''],
       info := [''Found 1 execution environment(s)''],
       defined_ees := [YStr ''ee1'']\<rparr>"

definition example_templates_document :: yaml where
  "example_templates_document =
     YDict [(''controller_templates'', YList [YDict example_template])]"

definition example_templates_result :: validator where
  "example_templates_result =
     example_start\<lparr>
       errors := [''Job Template 'deploy' missing inventory''],
       warnings := [''Job Template 'deploy' not using fact cache - consider enabling for performance''],
       info := [''Found 1 job template(s)''],
       referenced_projects := [YStr ''app'']\<rparr>"

text \<open>Two teams, neither with a name.\<close>

definition example_teams_document :: yaml where
  "example_teams_document = YDict [(''controller_teams'', YList [YDict [], YDict []])]"

definition example_teams_result :: validator where
  "example_teams_result =
     example_start\<lparr>
       errors := [''Team missing 'name' field'',
                  ''Team 'unnamed' missing organization reference'',
                  ''Team missing 'name' field'',
                  ''Team 'unnamed' missing organization reference''],
       warnings := [''Team 'unnamed' missing description'',
                    ''Team 'unnamed' missing description''],
       info := [''Found 2 team(s)''],
       defined_teams := [YStr ''unnamed'']\<rparr>"



section \<open>Documents of the expected shape\<close>

text \<open>
  The shapes on which no operation of a validator raises. Required fields may be missing. A
  value that goes into a set of names must be hashable; a credential's \<open>inputs\<close> is a
  mapping; an \<open>image\<close> and a template's \<open>credentials\<close> support \<^verbatim>\<open>in\<close> and iteration
  (a str, a sequence or a mapping).
\<close>

fun iterable :: "yaml \<Rightarrow> bool" where
  "iterable (YStr s) = True"
| "iterable (YList xs) = True"
| "iterable (YDict kvs) = True"
| "iterable _ = False"

definition hashable_field :: "(string \<times> yaml) list \<Rightarrow> string \<Rightarrow> bool" where
  "hashable_field d k = (case map_of d k of None \<Rightarrow> True | Some v \<Rightarrow> hashable v)"

fun shaped_named :: "yaml \<Rightarrow> bool" where
  "shaped_named (YDict d) = hashable (dict_get d ''name'' (YStr ''unnamed''))"
| "shaped_named _ = False"

fun shaped_credential :: "yaml \<Rightarrow> bool" where
  "shaped_credential (YDict d) =
     (hashable (dict_get d ''name'' (YStr ''unnamed''))
      \<and> (case dict_get d ''inputs'' (YDict []) of YDict i \<Rightarrow> True | _ \<Rightarrow> False))"
| "shaped_credential _ = False"

fun shaped_execution_environment :: "yaml \<Rightarrow> bool" where
  "shaped_execution_environment (YDict d) =
     (hashable (dict_get d ''name'' (YStr ''unnamed''))
      \<and> (case map_of d ''image'' of None \<Rightarrow> True | Some v \<Rightarrow> iterable v))"
| "shaped_execution_environment _ = False"

fun shaped_project :: "yaml \<Rightarrow> bool" where
  "shaped_project (YDict d) =
     (hashable (dict_get d ''name'' (YStr ''unnamed''))
      \<and> hashable_field d ''credential'' \<and> hashable_field d ''default_environment'')"
| "shaped_project _ = False"

fun shaped_template_credential :: "yaml \<Rightarrow> bool" where
  "shaped_template_credential (YDict c) = hashable_field c ''name''"
| "shaped_template_credential _ = True"

fun shaped_job_template :: "yaml \<Rightarrow> bool" where
  "shaped_job_template (YDict d) =
     (hashable_field d ''project'' \<and> hashable_field d ''inventory''
      \<and> hashable_field d ''execution_environment''
      \<and> (case map_of d ''credentials'' of
            None \<Rightarrow> True
          | Some cs \<Rightarrow>
              (case py_iter cs of
                 Inl e \<Rightarrow> False
               | Inr creds \<Rightarrow> list_all shaped_template_credential creds)))"
| "shaped_job_template _ = False"

fun shaped_mapping :: "yaml \<Rightarrow> bool" where
  "shaped_mapping (YDict d) = True"
| "shaped_mapping _ = False"

text \<open>A document: a mapping whose value under \<open>key\<close>, when present, iterates over shaped records.\<close>

fun shaped_document :: "string \<Rightarrow> (yaml \<Rightarrow> bool) \<Rightarrow> yaml \<Rightarrow> bool" where
  "shaped_document key shaped (YDict c) =
     (case py_iter (dict_get c key (YList [])) of
        Inl e \<Rightarrow> False
      | Inr recs \<Rightarrow> list_all shaped recs)"
| "shaped_document key shaped _ = False"

text \<open>A mapping whose value under \<open>key\<close> is null, empty, zero or false.\<close>

definition falsy_key :: "string \<Rightarrow> yaml \<Rightarrow> bool" where
  "falsy_key key config =
     (case config of YDict c \<Rightarrow> \<not> py_truthy (dict_get c key (YList [])) | _ \<Rightarrow> False)"

section \<open>What a record contributes\<close>

text \<open>
  The per-kind rules of the specification, written as functions of one record: the findings
  the record is to get and the names it defines and references. They are compared below with
  what the validators do to the state. \<open>additions\<close> holds, for each list of findings and
  each set of names of the validator, what is to be appended or added.
\<close>

record additions =
  new_errors :: "string list"
  new_warnings :: "string list"
  new_info :: "string list"
  new_defined_credentials :: "yaml list"
  new_defined_projects :: "yaml list"
  new_defined_inventories :: "yaml list"
  new_defined_ees :: "yaml list"
  new_defined_organizations :: "yaml list"
  new_defined_teams :: "yaml list"
  new_referenced_credentials :: "yaml list"
  new_referenced_projects :: "yaml list"
  new_referenced_inventories :: "yaml list"
  new_referenced_ees :: "yaml list"

definition no_additions :: additions where
  "no_additions =
     \<lparr> new_errors = [], new_warnings = [], new_info = [],
       new_defined_credentials = [], new_defined_projects = [], new_defined_inventories = [],
       new_defined_ees = [], new_defined_organizations = [], new_defined_teams = [],
       new_referenced_credentials = [], new_referenced_projects = [],
       new_referenced_inventories = [], new_referenced_ees = [] \<rparr>"

text \<open>The additions of \<open>x\<close> followed by those of \<open>y\<close>.\<close>

definition append_additions :: "additions \<Rightarrow> additions \<Rightarrow> additions" where
  "append_additions x y =
     \<lparr> new_errors = new_errors x @ new_errors y,
       new_warnings = new_warnings x @ new_warnings y,
       new_info = new_info x @ new_info y,
       new_defined_credentials = new_defined_credentials x @ new_defined_credentials y,
       new_defined_projects = new_defined_projects x @ new_defined_projects y,
       new_defined_inventories = new_defined_inventories x @ new_defined_inventories y,
       new_defined_ees = new_defined_ees x @ new_defined_ees y,
       new_defined_organizations = new_defined_organizations x @ new_defined_organizations y,
       new_defined_teams = new_defined_teams x @ new_defined_teams y,
       new_referenced_credentials = new_referenced_credentials x @ new_referenced_credentials y,
       new_referenced_projects = new_referenced_projects x @ new_referenced_projects y,
       new_referenced_inventories = new_referenced_inventories x @ new_referenced_inventories y,
       new_referenced_ees = new_referenced_ees x @ new_referenced_ees y \<rparr>"

definition concat_additions :: "additions list \<Rightarrow> additions" where
  "concat_additions xs = foldr append_additions xs no_additions"

text \<open>
  \<open>add_all vs s\<close>: the set \<open>s\<close> after the values \<open>vs\<close> were added one after the other.
  \<open>no_dups s\<close>: no two members of \<open>s\<close> are equal as Python compares them.
\<close>

definition add_all :: "yaml list \<Rightarrow> yaml list \<Rightarrow> yaml list" where
  "add_all vs s = foldl (\<lambda>acc v. if set_member v acc then acc else acc @ [v]) s vs"


text \<open>The state \<open>s\<close> with the findings of \<open>x\<close> appended and the names of \<open>x\<close> added.\<close>

definition apply_additions :: "additions \<Rightarrow> validator \<Rightarrow> validator" where
  "apply_additions x s =
     s\<lparr> errors := errors s @ new_errors x,
        warnings := warnings s @ new_warnings x,
        info := info s @ new_info x,
        defined_credentials := add_all (new_defined_credentials x) (defined_credentials s),
        defined_projects := add_all (new_defined_projects x) (defined_projects s),
        defined_inventories := add_all (new_defined_inventories x) (defined_inventories s),
        defined_ees := add_all (new_defined_ees x) (defined_ees s),
        defined_organizations := add_all (new_defined_organizations x) (defined_organizations s),
        defined_teams := add_all (new_defined_teams x) (defined_teams s),
        referenced_credentials := add_all (new_referenced_credentials x) (referenced_credentials s),
        referenced_projects := add_all (new_referenced_projects x) (referenced_projects s),
        referenced_inventories := add_all (new_referenced_inventories x) (referenced_inventories s),
        referenced_ees := add_all (new_referenced_ees x) (referenced_ees s) \<rparr>"

subsection \<open>Names and required fields\<close>

text \<open>The name under which a record is reported, and the value of a field when it is there.\<close>

definition record_name :: "(string \<times> yaml) list \<Rightarrow> yaml" where
  "record_name d = dict_get d ''name'' (YStr ''unnamed'')"

definition field_values :: "(string \<times> yaml) list \<Rightarrow> string \<Rightarrow> yaml list" where
  "field_values d k = (case map_of d k of None \<Rightarrow> [] | Some v \<Rightarrow> [v])"

text \<open>
  A table of required fields gives, for each field, the Error for a record that lacks it;
  \<open>required_errors\<close> are the errors of the fields that a record lacks, in the order of the
  table.
\<close>

definition required_errors :: "(string \<times> string) list \<Rightarrow> (string \<times> yaml) list \<Rightarrow> string list" where
  "required_errors table d =
     concat (map (\<lambda>e. if dict_has d (fst e) then [] else [snd e]) table)"

definition organization_required :: "yaml \<Rightarrow> (string \<times> string) list" where
  "organization_required n = [(''name'', ''Organization missing 'name' field'')]"

definition team_required :: "yaml \<Rightarrow> (string \<times> string) list" where
  "team_required n =
     [(''name'', ''Team missing 'name' field''),
      (''organization'', ''Team '' @ quoted (py_str n) @ '' missing organization reference'')]"

definition credential_required :: "yaml \<Rightarrow> (string \<times> string) list" where
  "credential_required n =
     [(''name'', ''Credential missing 'name' field''),
      (''credential_type'', ''Credential '' @ quoted (py_str n) @ '' missing credential_type''),
      (''organization'', ''Credential '' @ quoted (py_str n) @ '' missing organization'')]"

definition execution_environment_required :: "yaml \<Rightarrow> (string \<times> string) list" where
  "execution_environment_required n =
     [(''name'', ''Execution Environment missing 'name' field''),
      (''image'', ''Execution Environment '' @ quoted (py_str n) @ '' missing image'')]"

definition project_required :: "yaml \<Rightarrow> (string \<times> string) list" where
  "project_required n =
     [(''name'', ''Project missing 'name' field''),
      (''scm_type'', ''Project '' @ quoted (py_str n) @ '' missing scm_type''),
      (''scm_url'', ''Project '' @ quoted (py_str n) @ '' missing scm_url'')]"

definition inventory_required :: "yaml \<Rightarrow> (string \<times> string) list" where
  "inventory_required n =
     [(''name'', ''Inventory missing 'name' field''),
      (''organization'', ''Inventory '' @ quoted (py_str n) @ '' missing organization'')]"

definition job_template_required :: "yaml \<Rightarrow> (string \<times> string) list" where
  "job_template_required n =
     [(''name'', ''Job Template missing 'name' field''),
      (''project'', missing_project_msg n),
      (''inventory'', missing_inventory_msg n),
      (''playbook'', ''Job Template '' @ quoted (py_str n) @ '' missing playbook'')]"

definition workflow_required :: "yaml \<Rightarrow> (string \<times> string) list" where
  "workflow_required n = [(''name'', ''Workflow Template missing 'name' field'')]"

definition schedule_required :: "yaml \<Rightarrow> (string \<times> string) list" where
  "schedule_required n =
     [(''name'', ''Schedule missing 'name' field''),
      (''rrule'', ''Schedule '' @ quoted (py_str n) @ '' missing rrule''),
      (''unified_job_template'', ''Schedule '' @ quoted (py_str n) @ '' missing unified_job_template'')]"

subsection \<open>The nine kinds\<close>

definition organization_errors :: "(string \<times> yaml) list \<Rightarrow> string list" where
  "organization_errors d = required_errors (organization_required (record_name d)) d"

definition organization_warnings :: "(string \<times> yaml) list \<Rightarrow> string list" where
  "organization_warnings d =
     (if dict_has d ''description'' then []
      else [''Organization '' @ quoted (py_str (record_name d)) @ '' missing description''])"

definition organization_additions :: "string option \<Rightarrow> (string \<times> yaml) list \<Rightarrow> additions" where
  "organization_additions env d =
     no_additions\<lparr> new_errors := organization_errors d,
                   new_warnings := organization_warnings d,
                   new_defined_organizations := [record_name d] \<rparr>"

definition team_errors :: "(string \<times> yaml) list \<Rightarrow> string list" where
  "team_errors d = required_errors (team_required (record_name d)) d"

definition team_warnings :: "(string \<times> yaml) list \<Rightarrow> string list" where
  "team_warnings d =
     (if dict_has d ''description'' then []
      else [''Team '' @ quoted (py_str (record_name d)) @ '' missing description''])"

definition team_additions :: "string option \<Rightarrow> (string \<times> yaml) list \<Rightarrow> additions" where
  "team_additions env d =
     no_additions\<lparr> new_errors := team_errors d,
                   new_warnings := team_warnings d,
                   new_defined_teams := [record_name d] \<rparr>"

text \<open>
  A secret is plaintext when its text starts with neither marker. \<open>secret_errors\<close> is the
  finding of one sensitive field of a credential whose \<open>inputs\<close> is a mapping.
\<close>

definition plaintext :: "string \<Rightarrow> bool" where
  "plaintext val = (\<not> prefix ''{{ '' val \<and> \<not> prefix ''!vault'' val)"

definition secret_errors :: "yaml \<Rightarrow> yaml \<Rightarrow> string \<Rightarrow> string list" where
  "secret_errors n inputs field =
     (case inputs of
        YDict i \<Rightarrow>
          (case map_of i field of
             None \<Rightarrow> []
           | Some v \<Rightarrow> if plaintext (py_str v) then [unencrypted_msg n field] else [])
      | _ \<Rightarrow> [])"

definition credential_errors :: "(string \<times> yaml) list \<Rightarrow> string list" where
  "credential_errors d =
     required_errors (credential_required (record_name d)) d
     @ concat (map (secret_errors (record_name d) (dict_get d ''inputs'' (YDict [])))
         sensitive_fields)"

definition credential_additions :: "string option \<Rightarrow> (string \<times> yaml) list \<Rightarrow> additions" where
  "credential_additions env d =
     no_additions\<lparr> new_errors := credential_errors d,
                   new_defined_credentials := [record_name d] \<rparr>"

definition execution_environment_errors :: "(string \<times> yaml) list \<Rightarrow> string list" where
  "execution_environment_errors d =
     required_errors (execution_environment_required (record_name d)) d
     @ (case map_of d ''image'' of
          None \<Rightarrow> []
        | Some img \<Rightarrow>
            if py_contains '':latest'' img = Inr True then [latest_msg (record_name d)] else [])"

definition execution_environment_warnings :: "string option \<Rightarrow> (string \<times> yaml) list \<Rightarrow> string list" where
  "execution_environment_warnings env d =
     (case map_of d ''image'' of
        None \<Rightarrow> []
      | Some img \<Rightarrow>
          if py_contains ''@sha256:'' img = Inr False \<and> env = Some ''prod''
          then [digest_msg (record_name d)] else [])"

definition execution_environment_additions :: "string option \<Rightarrow> (string \<times> yaml) list \<Rightarrow> additions" where
  "execution_environment_additions env d =
     no_additions\<lparr> new_errors := execution_environment_errors d,
                   new_warnings := execution_environment_warnings env d,
                   new_defined_ees := [record_name d] \<rparr>"

definition project_errors :: "(string \<times> yaml) list \<Rightarrow> string list" where
  "project_errors d = required_errors (project_required (record_name d)) d"

definition project_warnings :: "(string \<times> yaml) list \<Rightarrow> string list" where
  "project_warnings d =
     (case map_of d ''scm_type'' of
        None \<Rightarrow> []
      | Some t \<Rightarrow>
          if t \<noteq> YStr ''git''
          then [''Project '' @ quoted (py_str (record_name d))
                  @ '' not using Git SCM (Constitutional Article I: GitOps First)'']
          else [])
     @ (if dict_has d ''scm_branch'' then []
        else [''Project '' @ quoted (py_str (record_name d))
                @ '' not specifying branch - will use repository default''])"

definition project_additions :: "string option \<Rightarrow> (string \<times> yaml) list \<Rightarrow> additions" where
  "project_additions env d =
     no_additions\<lparr> new_errors := project_errors d,
                   new_warnings := project_warnings d,
                   new_defined_projects := [record_name d],
                   new_referenced_credentials := field_values d ''credential'',
                   new_referenced_ees := field_values d ''default_environment'' \<rparr>"

definition inventory_errors :: "(string \<times> yaml) list \<Rightarrow> string list" where
  "inventory_errors d = required_errors (inventory_required (record_name d)) d"

definition inventory_additions :: "string option \<Rightarrow> (string \<times> yaml) list \<Rightarrow> additions" where
  "inventory_additions env d =
     no_additions\<lparr> new_errors := inventory_errors d,
                   new_defined_inventories := [record_name d] \<rparr>"

text \<open>
  An entry of a template's \<open>credentials\<close> references a credential when it is a str, or a
  mapping with a \<open>name\<close>.
\<close>

fun credential_reference :: "yaml \<Rightarrow> yaml list" where
  "credential_reference (YStr c) = [YStr c]"
| "credential_reference (YDict c) = field_values c ''name''"
| "credential_reference _ = []"

definition template_credentials :: "(string \<times> yaml) list \<Rightarrow> yaml list" where
  "template_credentials d =
     (case map_of d ''credentials'' of
        None \<Rightarrow> []
      | Some cs \<Rightarrow>
          (case py_iter cs of
             Inl e \<Rightarrow> []
           | Inr entries \<Rightarrow> concat (map credential_reference entries)))"

definition job_template_errors :: "(string \<times> yaml) list \<Rightarrow> string list" where
  "job_template_errors d = required_errors (job_template_required (record_name d)) d"

definition job_template_warnings :: "string option \<Rightarrow> (string \<times> yaml) list \<Rightarrow> string list" where
  "job_template_warnings env d =
     (if env = Some ''prod''
      then (if py_truthy (dict_get d ''ask_variables_on_launch'' (YBool False))
            then [''Job Template '' @ quoted (py_str (record_name d))
                    @ '' allows variable prompts in production - consider pre-defining variables'']
            else [])
         @ (if py_truthy (dict_get d ''use_fact_cache'' (YBool False)) then []
            else [''Job Template '' @ quoted (py_str (record_name d))
                    @ '' not using fact cache - consider enabling for performance''])
      else [])"

definition job_template_additions :: "string option \<Rightarrow> (string \<times> yaml) list \<Rightarrow> additions" where
  "job_template_additions env d =
     no_additions\<lparr> new_errors := job_template_errors d,
                   new_warnings := job_template_warnings env d,
                   new_referenced_credentials := template_credentials d,
                   new_referenced_projects := field_values d ''project'',
                   new_referenced_inventories := field_values d ''inventory'',
                   new_referenced_ees := field_values d ''execution_environment'' \<rparr>"

definition workflow_errors :: "(string \<times> yaml) list \<Rightarrow> string list" where
  "workflow_errors d = required_errors (workflow_required (record_name d)) d"

definition workflow_warnings :: "(string \<times> yaml) list \<Rightarrow> string list" where
  "workflow_warnings d =
     (if dict_has d ''simplified_workflow_nodes'' \<or> dict_has d ''workflow_nodes'' then []
      else [''Workflow Template '' @ quoted (py_str (record_name d))
              @ '' has no workflow nodes defined''])"

definition workflow_additions :: "string option \<Rightarrow> (string \<times> yaml) list \<Rightarrow> additions" where
  "workflow_additions env d =
     no_additions\<lparr> new_errors := workflow_errors d, new_warnings := workflow_warnings d \<rparr>"

definition schedule_errors :: "(string \<times> yaml) list \<Rightarrow> string list" where
  "schedule_errors d = required_errors (schedule_required (record_name d)) d"

definition schedule_info :: "string option \<Rightarrow> (string \<times> yaml) list \<Rightarrow> string list" where
  "schedule_info env d =
     (if py_truthy (dict_get d ''enabled'' (YBool True)) \<and> env = Some ''prod''
      then [''Schedule '' @ quoted (py_str (record_name d)) @ '' is enabled in production'']
      else [])"

definition schedule_additions :: "string option \<Rightarrow> (string \<times> yaml) list \<Rightarrow> additions" where
  "schedule_additions env d =
     no_additions\<lparr> new_errors := schedule_errors d, new_info := schedule_info env d \<rparr>"

subsection \<open>Documents, files, one environment\<close>

text \<open>
  A member of a sequence of records counts when it is a mapping. The records of a document
  contribute one after the other; the count of the records comes last, as an Info.
\<close>

definition on_record :: "((string \<times> yaml) list \<Rightarrow> 'a list) \<Rightarrow> yaml \<Rightarrow> 'a list" where
  "on_record f r = (case r of YDict d \<Rightarrow> f d | _ \<Rightarrow> [])"

definition record_additions :: "((string \<times> yaml) list \<Rightarrow> additions) \<Rightarrow> yaml \<Rightarrow> additions" where
  "record_additions f r = (case r of YDict d \<Rightarrow> f d | _ \<Rightarrow> no_additions)"

definition found_msg :: "nat \<Rightarrow> string \<Rightarrow> string" where
  "found_msg n what = ''Found '' @ str_nat n @ '' '' @ what"

definition records_additions ::
  "((string \<times> yaml) list \<Rightarrow> additions) \<Rightarrow> string \<Rightarrow> yaml list \<Rightarrow> additions" where
  "records_additions f what recs =
     append_additions (concat_additions (map (record_additions f) recs))
       (no_additions\<lparr>new_info := [found_msg (length recs) what]\<rparr>)"

text \<open>The value under the key of a document, and the records it holds.\<close>

definition key_value :: "yaml \<Rightarrow> string \<Rightarrow> yaml" where
  "key_value config key = (case config of YDict c \<Rightarrow> dict_get c key (YList []) | _ \<Rightarrow> YList [])"

definition records_of :: "yaml \<Rightarrow> string \<Rightarrow> yaml list" where
  "records_of config key = (case py_iter (key_value config key) of Inl e \<Rightarrow> [] | Inr recs \<Rightarrow> recs)"

text \<open>
  What each of the nine documents contributes. Organizations and teams with nothing under
  their key give one Warning instead of a count.
\<close>

definition organizations_document :: "string option \<Rightarrow> yaml \<Rightarrow> additions" where
  "organizations_document env config =
     (if py_truthy (key_value config ''controller_organizations'')
      then records_additions (organization_additions env) ''organization(s)''
             (records_of config ''controller_organizations'')
      else no_additions\<lparr>new_warnings := [''No organizations defined'']\<rparr>)"

definition teams_document :: "string option \<Rightarrow> yaml \<Rightarrow> additions" where
  "teams_document env config =
     (if py_truthy (key_value config ''controller_teams'')
      then records_additions (team_additions env) ''team(s)''
             (records_of config ''controller_teams'')
      else no_additions\<lparr>new_warnings := [''No teams defined - consider RBAC best practices'']\<rparr>)"

definition credentials_document :: "string option \<Rightarrow> yaml \<Rightarrow> additions" where
  "credentials_document env config =
     records_additions (credential_additions env) ''credential(s)''
       (records_of config ''controller_credentials'')"

definition execution_environments_document :: "string option \<Rightarrow> yaml \<Rightarrow> additions" where
  "execution_environments_document env config =
     records_additions (execution_environment_additions env) ''execution environment(s)''
       (records_of config ''controller_execution_environments'')"

definition projects_document :: "string option \<Rightarrow> yaml \<Rightarrow> additions" where
  "projects_document env config =
     records_additions (project_additions env) ''project(s)''
       (records_of config ''controller_projects'')"

definition inventories_document :: "string option \<Rightarrow> yaml \<Rightarrow> additions" where
  "inventories_document env config =
     records_additions (inventory_additions env) ''inventor(y|ies)''
       (records_of config ''controller_inventories'')"

definition job_templates_document :: "string option \<Rightarrow> yaml \<Rightarrow> additions" where
  "job_templates_document env config =
     records_additions (job_template_additions env) ''job template(s)''
       (records_of config ''controller_templates'')"

definition workflow_templates_document :: "string option \<Rightarrow> yaml \<Rightarrow> additions" where
  "workflow_templates_document env config =
     records_additions (workflow_additions env) ''workflow template(s)''
       (records_of config ''controller_workflows'')"

definition schedules_document :: "string option \<Rightarrow> yaml \<Rightarrow> additions" where
  "schedules_document env config =
     records_additions (schedule_additions env) ''schedule(s)''
       (records_of config ''controller_schedules'')"





text \<open>
  The names that a sequence of records defines, the values of a field in a sequence of
  records, and the credentials that a sequence of job templates references.
\<close>

definition defined_names :: "yaml list \<Rightarrow> yaml list" where
  "defined_names recs = concat (map (on_record (\<lambda>d. [record_name d])) recs)"

definition referenced_values :: "string \<Rightarrow> yaml list \<Rightarrow> yaml list" where
  "referenced_values k recs = concat (map (on_record (\<lambda>d. field_values d k)) recs)"

definition referenced_template_credentials :: "yaml list \<Rightarrow> yaml list" where
  "referenced_template_credentials recs = concat (map (on_record template_credentials) recs)"

section \<open>Auxiliary lemmas\<close>

subsection \<open>Every step extends the state\<close>

lemma extends_refl [simp]: "extends s s"
  by (simp add: extends_def)

lemma extends_trans: "extends a b \<Longrightarrow> extends b c \<Longrightarrow> extends a c"
  unfolding extends_def
  apply (elim conjE)
  apply (intro conjI)
                apply simp
               apply simp
              apply (erule (1) prefix_order.order_trans)+
  done

lemma and_then_Inr: "and_then r f = Inr y \<longleftrightarrow> (\<exists>v. r = Inr v \<and> f v = Inr y)"
  by (cases r) (simp_all add: and_then_def)

lemma for_each_rel:
  assumes step: "\<And>x a b. f x a = Inr b \<Longrightarrow> R a b"
    and refl: "\<And>a. R a a" and trans: "\<And>a b c. R a b \<Longrightarrow> R b c \<Longrightarrow> R a c"
  shows "for_each f xs s = Inr s' \<Longrightarrow> R s s'"
proof (induction xs arbitrary: s)
  case Nil
  then show ?case by (simp add: refl)
next
  case (Cons x xs)
  from Cons.prems obtain s1 where a: "f x s = Inr s1" and b: "for_each f xs s1 = Inr s'"
    by (auto split: sum.splits)
  show ?case using step [OF a] Cons.IH [OF b] by (rule trans)
qed

lemma set_add_prefix: "set_add v xs = Inr ys \<Longrightarrow> prefix xs ys"
  by (auto simp: set_add_def split: if_splits)

lemma extends_add_error: "extends s t \<Longrightarrow> extends s (add_error m t)"
  by (simp add: extends_def add_error_def)
lemma extends_add_warning: "extends s t \<Longrightarrow> extends s (add_warning m t)"
  by (simp add: extends_def add_warning_def)
lemma extends_add_info: "extends s t \<Longrightarrow> extends s (add_info m t)"
  by (simp add: extends_def add_info_def)
lemma extends_guarded: "extends s t \<Longrightarrow> (\<And>x. extends s x \<Longrightarrow> extends s (f x)) \<Longrightarrow> extends s (guarded c f t)"
  by (simp add: guarded_def)

lemma extends_defined_credentials:
  "extends s t \<Longrightarrow> set_add v (defined_credentials t) = Inr d \<Longrightarrow> extends s (t\<lparr>defined_credentials := d\<rparr>)"
  apply (drule set_add_prefix)
  apply (simp add: extends_def)
  apply (erule conjE)+
  apply (erule (1) prefix_order.order_trans)
  done

lemma extends_defined_projects:
  "extends s t \<Longrightarrow> set_add v (defined_projects t) = Inr d \<Longrightarrow> extends s (t\<lparr>defined_projects := d\<rparr>)"
  apply (drule set_add_prefix)
  apply (simp add: extends_def)
  apply (erule conjE)+
  apply (erule (1) prefix_order.order_trans)
  done

lemma extends_defined_inventories:
  "extends s t \<Longrightarrow> set_add v (defined_inventories t) = Inr d \<Longrightarrow> extends s (t\<lparr>defined_inventories := d\<rparr>)"
  apply (drule set_add_prefix)
  apply (simp add: extends_def)
  apply (erule conjE)+
  apply (erule (1) prefix_order.order_trans)
  done

lemma extends_defined_ees:
  "extends s t \<Longrightarrow> set_add v (defined_ees t) = Inr d \<Longrightarrow> extends s (t\<lparr>defined_ees := d\<rparr>)"
  apply (drule set_add_prefix)
  apply (simp add: extends_def)
  apply (erule conjE)+
  apply (erule (1) prefix_order.order_trans)
  done

lemma extends_defined_organizations:
  "extends s t \<Longrightarrow> set_add v (defined_organizations t) = Inr d \<Longrightarrow> extends s (t\<lparr>defined_organizations := d\<rparr>)"
  apply (drule set_add_prefix)
  apply (simp add: extends_def)
  apply (erule conjE)+
  apply (erule (1) prefix_order.order_trans)
  done

lemma extends_defined_teams:
  "extends s t \<Longrightarrow> set_add v (defined_teams t) = Inr d \<Longrightarrow> extends s (t\<lparr>defined_teams := d\<rparr>)"
  apply (drule set_add_prefix)
  apply (simp add: extends_def)
  apply (erule conjE)+
  apply (erule (1) prefix_order.order_trans)
  done

lemma extends_referenced_credentials:
  "extends s t \<Longrightarrow> set_add v (referenced_credentials t) = Inr d \<Longrightarrow> extends s (t\<lparr>referenced_credentials := d\<rparr>)"
  apply (drule set_add_prefix)
  apply (simp add: extends_def)
  apply (erule conjE)+
  apply (erule (1) prefix_order.order_trans)
  done

lemma extends_referenced_projects:
  "extends s t \<Longrightarrow> set_add v (referenced_projects t) = Inr d \<Longrightarrow> extends s (t\<lparr>referenced_projects := d\<rparr>)"
  apply (drule set_add_prefix)
  apply (simp add: extends_def)
  apply (erule conjE)+
  apply (erule (1) prefix_order.order_trans)
  done

lemma extends_referenced_inventories:
  "extends s t \<Longrightarrow> set_add v (referenced_inventories t) = Inr d \<Longrightarrow> extends s (t\<lparr>referenced_inventories := d\<rparr>)"
  apply (drule set_add_prefix)
  apply (simp add: extends_def)
  apply (erule conjE)+
  apply (erule (1) prefix_order.order_trans)
  done

lemma extends_referenced_ees:
  "extends s t \<Longrightarrow> set_add v (referenced_ees t) = Inr d \<Longrightarrow> extends s (t\<lparr>referenced_ees := d\<rparr>)"
  apply (drule set_add_prefix)
  apply (simp add: extends_def)
  apply (erule conjE)+
  apply (erule (1) prefix_order.order_trans)
  done

lemmas extends_intros = extends_add_error extends_add_warning extends_add_info extends_guarded
  extends_defined_credentials extends_defined_projects extends_defined_inventories extends_defined_ees extends_defined_organizations extends_defined_teams extends_referenced_credentials extends_referenced_projects extends_referenced_inventories extends_referenced_ees

lemma organization_step_extends: "organization_step r s = Inr s' \<Longrightarrow> extends s s'"
proof (cases r)
  case (YDict org)
  assume "organization_step r s = Inr s'"
  with YDict show ?thesis
    by (auto simp: and_then_Inr Let_def intro!: extends_intros)
qed simp_all

lemma team_step_extends: "team_step r s = Inr s' \<Longrightarrow> extends s s'"
proof (cases r)
  case (YDict org)
  assume "team_step r s = Inr s'"
  with YDict show ?thesis
    by (auto simp: and_then_Inr Let_def intro!: extends_intros)
qed simp_all

lemma inventory_step_extends: "inventory_step r s = Inr s' \<Longrightarrow> extends s s'"
proof (cases r)
  case (YDict org)
  assume "inventory_step r s = Inr s'"
  with YDict show ?thesis
    by (auto simp: and_then_Inr Let_def intro!: extends_intros)
qed simp_all

lemma workflow_step_extends: "workflow_step r s = Inr s' \<Longrightarrow> extends s s'"
proof (cases r)
  case (YDict org)
  assume "workflow_step r s = Inr s'"
  with YDict show ?thesis
    by (auto simp: and_then_Inr Let_def intro!: extends_intros)
qed simp_all

lemma schedule_step_extends: "schedule_step r s = Inr s' \<Longrightarrow> extends s s'"
proof (cases r)
  case (YDict org)
  assume "schedule_step r s = Inr s'"
  with YDict show ?thesis
    by (auto simp: and_then_Inr Let_def intro!: extends_intros)
qed simp_all

lemma extends_if: "extends s a \<Longrightarrow> extends s b \<Longrightarrow> extends s (if c then a else b)"
  by simp

lemma for_each_extends:
  assumes "for_each f xs t = Inr s'" and "\<And>x a b. f x a = Inr b \<Longrightarrow> extends a b"
    and "extends s t"
  shows "extends s s'"
proof -
  have "extends t s'"
    by (rule for_each_rel [where R = extends, OF _ extends_refl extends_trans assms(1)])
       (erule assms(2))
  with assms(3) show ?thesis by (rule extends_trans)
qed

lemma check_sensitive_field_extends: "check_sensitive_field n i f s = Inr s' \<Longrightarrow> extends s s'"
  by (auto simp: check_sensitive_field_def and_then_Inr Let_def split: if_splits intro!: extends_intros)

lemma credential_step_extends: "credential_step r s = Inr s' \<Longrightarrow> extends s s'"
  apply (cases r; simp only: credential_step.simps Let_def and_then_Inr sum.distinct)
  apply (erule exE, erule conjE)
  apply (erule for_each_extends)
   apply (erule check_sensitive_field_extends)
  apply (intro extends_intros extends_refl; assumption)
  done

lemma check_image_extends: "check_image ee n s = Inr s' \<Longrightarrow> extends s s'"
  by (auto simp: check_image_def and_then_Inr Let_def split: if_splits intro!: extends_intros)

lemma execution_environment_step_extends: "execution_environment_step r s = Inr s' \<Longrightarrow> extends s s'"
  apply (cases r; simp only: execution_environment_step.simps Let_def and_then_Inr sum.distinct)
  apply (elim exE conjE)
  apply (drule check_image_extends)
  apply (erule extends_trans [rotated])
  apply (intro extends_intros extends_refl; assumption)
  done

lemma reference_project_credential_extends:
  "reference_project_credential p s = Inr s' \<Longrightarrow> extends s s'"
  by (auto simp: reference_project_credential_def and_then_Inr split: if_splits
           intro!: extends_intros)

lemma reference_default_environment_extends:
  "reference_default_environment p s = Inr s' \<Longrightarrow> extends s s'"
  by (auto simp: reference_default_environment_def and_then_Inr split: if_splits
           intro!: extends_intros)

lemma project_step_extends: "project_step r s = Inr s' \<Longrightarrow> extends s s'"
  apply (cases r; simp only: project_step.simps Let_def sum.distinct)
  apply (simp only: and_then_Inr)
  apply (elim exE conjE)
  apply (drule reference_project_credential_extends)
  apply (drule reference_default_environment_extends)
  apply (erule extends_trans [rotated])
  apply (erule extends_trans [rotated])
  apply (intro extends_intros extends_if extends_refl; assumption)
  done

lemma template_credential_step_extends: "template_credential_step c s = Inr s' \<Longrightarrow> extends s s'"
  by (cases c) (auto simp: and_then_Inr split: if_splits intro!: extends_intros)

lemma reference_project_extends: "reference_project t n s = Inr s' \<Longrightarrow> extends s s'"
  by (auto simp: reference_project_def and_then_Inr split: if_splits intro!: extends_intros)

lemma reference_inventory_extends: "reference_inventory t n s = Inr s' \<Longrightarrow> extends s s'"
  by (auto simp: reference_inventory_def and_then_Inr split: if_splits intro!: extends_intros)

lemma reference_credentials_extends: "reference_credentials t s = Inr s' \<Longrightarrow> extends s s'"
  by (auto simp: reference_credentials_def and_then_Inr split: if_splits
           elim!: for_each_extends [OF _ template_credential_step_extends])

lemma reference_execution_environment_extends:
  "reference_execution_environment t s = Inr s' \<Longrightarrow> extends s s'"
  by (auto simp: reference_execution_environment_def and_then_Inr split: if_splits
           intro!: extends_intros)

lemma production_checks_extends: "extends s t \<Longrightarrow> extends s (production_checks tm n t)"
  by (auto simp: production_checks_def Let_def intro!: extends_intros)

lemma job_template_step_chain:
  assumes "job_template_step (YDict t) s = Inr s'"
  obtains s2 s3 s5 s6 where
    "reference_project t (dict_get t ''name'' (YStr ''unnamed''))
       (guarded (\<not> dict_has t ''name'') (add_error ''Job Template missing 'name' field'') s)
     = Inr s2"
    and "reference_inventory t (dict_get t ''name'' (YStr ''unnamed'')) s2 = Inr s3"
    and "reference_credentials t
       (guarded (\<not> dict_has t ''playbook'')
          (add_error (''Job Template '' @ quoted (py_str (dict_get t ''name'' (YStr ''unnamed'')))
             @ '' missing playbook'')) s3)
     = Inr s5"
    and "reference_execution_environment t s5 = Inr s6"
    and "s' = production_checks t (dict_get t ''name'' (YStr ''unnamed'')) s6"
  using assms by (simp only: job_template_step.simps Let_def and_then_Inr sum.inject) blast

lemma job_template_step_extends_head:
  assumes "job_template_step (YDict t) s = Inr s'"
  shows "extends (guarded (\<not> dict_has t ''name'')
      (add_error ''Job Template missing 'name' field'') s) s'"
proof -
  from assms obtain s2 s3 s5 s6 where
    c1: "reference_project t (dict_get t ''name'' (YStr ''unnamed''))
       (guarded (\<not> dict_has t ''name'') (add_error ''Job Template missing 'name' field'') s)
     = Inr s2"
    and c2: "reference_inventory t (dict_get t ''name'' (YStr ''unnamed'')) s2 = Inr s3"
    and c3: "reference_credentials t
       (guarded (\<not> dict_has t ''playbook'')
          (add_error (''Job Template '' @ quoted (py_str (dict_get t ''name'' (YStr ''unnamed'')))
             @ '' missing playbook'')) s3)
     = Inr s5"
    and c4: "reference_execution_environment t s5 = Inr s6"
    and c5: "s' = production_checks t (dict_get t ''name'' (YStr ''unnamed'')) s6"
    by (rule job_template_step_chain)
  have e3: "extends s2 s3"
    using c2 by (rule reference_inventory_extends)
  have "extends s2 (guarded (\<not> dict_has t ''playbook'')
          (add_error (''Job Template '' @ quoted (py_str (dict_get t ''name'' (YStr ''unnamed'')))
             @ '' missing playbook'')) s3)"
    by (intro extends_intros e3)
  then have "extends s2 s5"
    using reference_credentials_extends [OF c3] by (rule extends_trans)
  then have "extends s2 s6"
    using reference_execution_environment_extends [OF c4] by (rule extends_trans)
  then have "extends s2 s'" unfolding c5 by (rule production_checks_extends)
  with reference_project_extends [OF c1] show ?thesis by (rule extends_trans)
qed

lemma job_template_step_extends: "job_template_step r s = Inr s' \<Longrightarrow> extends s s'"
proof (cases r)
  case (YDict t)
  assume "job_template_step r s = Inr s'"
  with YDict have "job_template_step (YDict t) s = Inr s'" by simp
  then have "extends (guarded (\<not> dict_has t ''name'')
      (add_error ''Job Template missing 'name' field'') s) s'"
    by (rule job_template_step_extends_head)
  moreover have "extends s (guarded (\<not> dict_has t ''name'')
      (add_error ''Job Template missing 'name' field'') s)"
    by (intro extends_intros extends_refl)
  ultimately show ?thesis by (rule extends_trans [rotated])
qed simp_all

lemma for_each_rel_mem:
  assumes refl: "\<And>a. R a a" and trans: "\<And>a b c. R a b \<Longrightarrow> R b c \<Longrightarrow> R a c"
  shows "for_each f xs s = Inr s' \<Longrightarrow> (\<And>x a b. x \<in> set xs \<Longrightarrow> f x a = Inr b \<Longrightarrow> R a b) \<Longrightarrow> R s s'"
proof (induction xs arbitrary: s)
  case Nil
  then show ?case by (simp add: refl)
next
  case (Cons x xs)
  from Cons.prems(1) obtain s1 where a: "f x s = Inr s1" and b: "for_each f xs s1 = Inr s'"
    by (auto split: sum.splits)
  have "R s s1" using Cons.prems(2) [of x s s1] a by simp
  moreover have "R s1 s'"
  proof (rule Cons.IH [OF b])
    fix y a b assume "y \<in> set xs" "f y a = Inr b"
    then show "R a b" using Cons.prems(2) [of y a b] by simp
  qed
  ultimately show ?case by (rule trans)
qed

lemma validate_organizations_extends: "validate_organizations config s = Inr s' \<Longrightarrow> extends s s'"
  by (auto simp: validate_organizations_def and_then_Inr split: if_splits intro!: extends_intros
           elim!: for_each_extends [OF _ organization_step_extends])

lemma validate_teams_extends: "validate_teams config s = Inr s' \<Longrightarrow> extends s s'"
  by (auto simp: validate_teams_def and_then_Inr split: if_splits intro!: extends_intros
           elim!: for_each_extends [OF _ team_step_extends])

lemma validate_credentials_extends: "validate_credentials config s = Inr s' \<Longrightarrow> extends s s'"
  by (auto simp: validate_credentials_def and_then_Inr split: if_splits intro!: extends_intros
           elim!: for_each_extends [OF _ credential_step_extends])

lemma validate_execution_environments_extends: "validate_execution_environments config s = Inr s' \<Longrightarrow> extends s s'"
  by (auto simp: validate_execution_environments_def and_then_Inr split: if_splits intro!: extends_intros
           elim!: for_each_extends [OF _ execution_environment_step_extends])

lemma validate_projects_extends: "validate_projects config s = Inr s' \<Longrightarrow> extends s s'"
  by (auto simp: validate_projects_def and_then_Inr split: if_splits intro!: extends_intros
           elim!: for_each_extends [OF _ project_step_extends])

lemma validate_inventories_extends: "validate_inventories config s = Inr s' \<Longrightarrow> extends s s'"
  by (auto simp: validate_inventories_def and_then_Inr split: if_splits intro!: extends_intros
           elim!: for_each_extends [OF _ inventory_step_extends])

lemma validate_job_templates_extends: "validate_job_templates config s = Inr s' \<Longrightarrow> extends s s'"
  by (auto simp: validate_job_templates_def and_then_Inr split: if_splits intro!: extends_intros
           elim!: for_each_extends [OF _ job_template_step_extends])

lemma validate_workflow_templates_extends: "validate_workflow_templates config s = Inr s' \<Longrightarrow> extends s s'"
  by (auto simp: validate_workflow_templates_def and_then_Inr split: if_splits intro!: extends_intros
           elim!: for_each_extends [OF _ workflow_step_extends])

lemma validate_schedules_extends: "validate_schedules config s = Inr s' \<Longrightarrow> extends s s'"
  by (auto simp: validate_schedules_def and_then_Inr split: if_splits intro!: extends_intros
           elim!: for_each_extends [OF _ schedule_step_extends])

lemma extends_warn_undefined: "extends s t \<Longrightarrow> extends s (warn_undefined iter k d t)"
  by (simp add: warn_undefined_def extends_def)

lemma validate_references_extends: "extends s (validate_references iter s)"
  unfolding validate_references_def Let_def
  by (intro extends_warn_undefined extends_refl)

lemma load_yaml_file_extends: "load_yaml_file fs p s = Inr (c, s') \<Longrightarrow> extends s s'"
  by (auto simp: load_yaml_file_def split: option.splits node.splits intro!: extends_intros)

lemma validate_file_extends:
  assumes "validate_file fs p e s = Inr s'" and "e \<in> set config_files"
  shows "extends s s'"
proof (cases "fs (path_div p (fst e)) \<noteq> None")
  case False
  with assms(1) show ?thesis by (simp add: validate_file_def)
next
  case True
  with assms(1) obtain c s1 where l: "load_yaml_file fs (path_div p (fst e)) s = Inr (c, s1)"
    and r: "(if py_truthy c then snd e c s1 else Inr s1) = Inr s'"
    by (auto simp: validate_file_def Let_def and_then_Inr)
  have e1: "extends s s1" using l by (rule load_yaml_file_extends)
  have "extends s1 s'"
  proof (cases "py_truthy c")
    case False
    with r show ?thesis by simp
  next
    case True
    with r have v: "snd e c s1 = Inr s'" by simp
    from assms(2) have "snd e \<in> snd ` set config_files" by (rule imageI)
    then show ?thesis using v
      by (auto simp: config_files_def
            dest: validate_organizations_extends validate_teams_extends validate_credentials_extends
              validate_execution_environments_extends validate_projects_extends
              validate_inventories_extends validate_job_templates_extends
              validate_workflow_templates_extends validate_schedules_extends)
  qed
  with e1 show ?thesis by (rule extends_trans)
qed

lemma for_each_extends_mem:
  assumes "for_each f xs s = Inr s'"
    and "\<And>x a b. x \<in> set xs \<Longrightarrow> f x a = Inr b \<Longrightarrow> extends a b"
  shows "extends s s'"
proof (rule for_each_rel_mem [where R = extends, OF _ _ assms(1)])
  show "\<And>a. extends a a" by simp
  show "\<And>a b c. extends a b \<Longrightarrow> extends b c \<Longrightarrow> extends a c" by (rule extends_trans)
  show "\<And>x a b. x \<in> set xs \<Longrightarrow> f x a = Inr b \<Longrightarrow> extends a b" by (rule assms(2))
qed

lemma validate_environment_extends:
  assumes "validate_environment iter fs env s = Inr (ok, s')"
  shows "extends s s'"
proof (cases "fs (get_group_vars_path s (Some env)) = None")
  case True
  with assms show ?thesis
    by (auto simp: validate_environment_def Let_def intro!: extends_intros)
next
  case False
  with assms obtain s1 where f: "for_each (validate_file fs (get_group_vars_path s (Some env))) config_files s = Inr s1"
    and e: "s' = validate_references iter s1"
    by (auto simp: validate_environment_def Let_def and_then_Inr)
  have "extends s s1"
    using f by (rule for_each_extends_mem) (rule validate_file_extends)
  then show ?thesis unfolding e using validate_references_extends by (rule extends_trans)
qed

lemma result_extendsI: "(\<And>s'. r = Inr s' \<Longrightarrow> extends s s') \<Longrightarrow> result_extends s r"
  by (cases r) (simp_all add: result_extends_def)

subsection \<open>Single operations\<close>

lemma check_sensitive_field_dict:
  "check_sensitive_field n (YDict inp) f s =
     Inr (guarded (case map_of inp f of None \<Rightarrow> False
                   | Some v \<Rightarrow> \<not> prefix ''{{ '' (py_str v) \<and> \<not> prefix ''!vault'' (py_str v))
            (add_error (unencrypted_msg n f)) s)"
  by (simp add: check_sensitive_field_def and_then_def dict_has_def guarded_def Let_def
           split: option.splits)

lemma unencrypted_msg_inj: "(unencrypted_msg n f = unencrypted_msg n g) = (f = g)"
  by (simp add: unencrypted_msg_def quoted_def)

lemma count_list_if_single:
  "count_list (if c then [m] else []) x = (if c \<and> m = x then 1 else 0)"
  by simp

lemma set_add_hashable: "hashable v \<Longrightarrow> set_add v xs = Inr (if set_member v xs then xs else xs @ [v])"
  by (simp add: set_add_def)

lemma dict_get_absent: "\<not> dict_has r k \<Longrightarrow> dict_get r k d = d"
  by (simp add: dict_get_def dict_has_def)

subsection \<open>Files that are missing, empty, or hold no record\<close>

lemma validate_file_present:
  "fs (path_div p fn) = Some (Document cfg) \<Longrightarrow> py_truthy cfg
     \<Longrightarrow> validate_file fs p (fn, v) s = v cfg s"
  by (simp add: validate_file_def load_yaml_file_def and_then_def)

lemma validate_file_skipped:
  "fs (path_div p fn) = None \<or> (\<exists>cfg. fs (path_div p fn) = Some (Document cfg) \<and> \<not> py_truthy cfg)
     \<Longrightarrow> validate_file fs p (fn, v) s = Inr s"
  by (auto simp: validate_file_def load_yaml_file_def and_then_def)

lemma py_iter_empty_falsy: "py_iter v = Inr [] \<Longrightarrow> \<not> py_truthy v"
  by (cases v) auto

lemma str_nat_0: "str_nat 0 = ''0''"
  by (simp add: str_nat.simps digit_char_def)

lemma zero_organizations:
  "py_iter (dict_get c ''controller_organizations'' (YList [])) = Inr []
     \<Longrightarrow> validate_organizations (YDict c) s = Inr (add_warning ''No organizations defined'' s)"
  by (simp add: validate_organizations_def and_then_def py_iter_empty_falsy)

lemma zero_teams:
  "py_iter (dict_get c ''controller_teams'' (YList [])) = Inr []
     \<Longrightarrow> validate_teams (YDict c) s
         = Inr (add_warning ''No teams defined - consider RBAC best practices'' s)"
  by (simp add: validate_teams_def and_then_def py_iter_empty_falsy)

lemma zero_credentials:
  "py_iter (dict_get c ''controller_credentials'' (YList [])) = Inr []
     \<Longrightarrow> validate_credentials (YDict c) s = Inr (add_info ''Found 0 credential(s)'' s)"
  by (simp add: validate_credentials_def and_then_def str_nat_0)

lemma zero_execution_environments:
  "py_iter (dict_get c ''controller_execution_environments'' (YList [])) = Inr []
     \<Longrightarrow> validate_execution_environments (YDict c) s
         = Inr (add_info ''Found 0 execution environment(s)'' s)"
  by (simp add: validate_execution_environments_def and_then_def str_nat_0)

lemma zero_projects:
  "py_iter (dict_get c ''controller_projects'' (YList [])) = Inr []
     \<Longrightarrow> validate_projects (YDict c) s = Inr (add_info ''Found 0 project(s)'' s)"
  by (simp add: validate_projects_def and_then_def str_nat_0)

lemma zero_inventories:
  "py_iter (dict_get c ''controller_inventories'' (YList [])) = Inr []
     \<Longrightarrow> validate_inventories (YDict c) s = Inr (add_info ''Found 0 inventor(y|ies)'' s)"
  by (simp add: validate_inventories_def and_then_def str_nat_0)

lemma zero_job_templates:
  "py_iter (dict_get c ''controller_templates'' (YList [])) = Inr []
     \<Longrightarrow> validate_job_templates (YDict c) s = Inr (add_info ''Found 0 job template(s)'' s)"
  by (simp add: validate_job_templates_def and_then_def str_nat_0)

lemma zero_workflow_templates:
  "py_iter (dict_get c ''controller_workflows'' (YList [])) = Inr []
     \<Longrightarrow> validate_workflow_templates (YDict c) s
         = Inr (add_info ''Found 0 workflow template(s)'' s)"
  by (simp add: validate_workflow_templates_def and_then_def str_nat_0)

lemma zero_schedules:
  "py_iter (dict_get c ''controller_schedules'' (YList [])) = Inr []
     \<Longrightarrow> validate_schedules (YDict c) s = Inr (add_info ''Found 0 schedule(s)'' s)"
  by (simp add: validate_schedules_def and_then_def str_nat_0)

subsection \<open>Shaped documents are processed to the end\<close>

lemma for_each_total:
  "(\<And>x s. x \<in> set xs \<Longrightarrow> \<exists>s'. f x s = Inr s') \<Longrightarrow> \<exists>s'. for_each f xs s = Inr s'"
proof (induction xs arbitrary: s)
  case Nil
  then show ?case by simp
next
  case (Cons x xs)
  from Cons.prems [of x s] obtain s1 where s1: "f x s = Inr s1" by auto
  from Cons.IH [of s1] Cons.prems obtain s' where "for_each f xs s1 = Inr s'" by auto
  with s1 show ?case by simp
qed

lemma organization_step_total: "shaped_named r \<Longrightarrow> \<exists>s'. organization_step r s = Inr s'"
  by (cases r) (simp_all add: Let_def and_then_def set_add_def)

lemma team_step_total: "shaped_named r \<Longrightarrow> \<exists>s'. team_step r s = Inr s'"
  by (cases r) (simp_all add: Let_def and_then_def set_add_def)

lemma inventory_step_total: "shaped_named r \<Longrightarrow> \<exists>s'. inventory_step r s = Inr s'"
  by (cases r) (simp_all add: Let_def and_then_def set_add_def)

lemma workflow_step_total: "shaped_mapping r \<Longrightarrow> \<exists>s'. workflow_step r s = Inr s'"
  by (cases r) (simp_all add: Let_def)

lemma schedule_step_total: "shaped_mapping r \<Longrightarrow> \<exists>s'. schedule_step r s = Inr s'"
  by (cases r) (simp_all add: Let_def)

lemma credential_step_total:
  assumes "shaped_credential r"
  shows "\<exists>s'. credential_step r s = Inr s'"
proof (cases r)
  case (YDict d)
  with assms obtain i where i: "dict_get d ''inputs'' (YDict []) = YDict i"
    and h: "hashable (dict_get d ''name'' (YStr ''unnamed''))"
    by (auto split: yaml.splits)
  have "\<And>t. \<exists>s'. for_each (check_sensitive_field (dict_get d ''name'' (YStr ''unnamed'')) (YDict i))
      sensitive_fields t = Inr s'"
    by (rule for_each_total) (simp add: check_sensitive_field_dict)
  then show ?thesis
    using YDict by (simp add: Let_def and_then_def set_add_hashable [OF h] i)
qed (use assms in simp_all)

lemma py_contains_total: "iterable v \<Longrightarrow> \<exists>b. py_contains k v = Inr b"
  by (cases v) simp_all

lemma check_image_total:
  assumes "case map_of d ''image'' of None \<Rightarrow> True | Some v \<Rightarrow> iterable v"
  shows "\<exists>s'. check_image d n s = Inr s'"
proof (cases "map_of d ''image''")
  case None
  then show ?thesis by (simp add: check_image_def dict_has_def)
next
  case (Some v)
  with assms have "iterable v" by simp
  then obtain b1 b2 where "py_contains ''@sha256:'' v = Inr b1" "py_contains '':latest'' v = Inr b2"
    using py_contains_total by blast
  with Some show ?thesis
    by (simp add: check_image_def dict_has_def and_then_def Let_def)
qed

lemma execution_environment_step_total:
  assumes "shaped_execution_environment r"
  shows "\<exists>s'. execution_environment_step r s = Inr s'"
proof (cases r)
  case (YDict d)
  with assms have h: "hashable (dict_get d ''name'' (YStr ''unnamed''))"
    and i: "case map_of d ''image'' of None \<Rightarrow> True | Some v \<Rightarrow> iterable v"
    by simp_all
  show ?thesis
    using YDict check_image_total [OF i]
    by (simp add: Let_def and_then_def set_add_hashable [OF h])
qed (use assms in simp_all)

lemma hashable_field_add:
  assumes "hashable_field d k" and "dict_has d k"
  shows "\<exists>v r. py_index (YDict d) k = Inr v \<and> set_add v xs = Inr r"
  using assms by (auto simp: hashable_field_def dict_has_def set_add_def)

lemma reference_project_credential_total:
  assumes "hashable_field d ''credential''"
  shows "\<exists>s'. reference_project_credential d s = Inr s'"
proof (cases "dict_has d ''credential''")
  case False
  then show ?thesis by (simp add: reference_project_credential_def)
next
  case True
  from hashable_field_add [OF assms True, of "referenced_credentials s"] obtain v r
    where "py_index (YDict d) ''credential'' = Inr v" and "set_add v (referenced_credentials s) = Inr r"
    by blast
  with True show ?thesis by (simp add: reference_project_credential_def and_then_def)
qed

lemma reference_default_environment_total:
  assumes "hashable_field d ''default_environment''"
  shows "\<exists>s'. reference_default_environment d s = Inr s'"
proof (cases "dict_has d ''default_environment''")
  case False
  then show ?thesis by (simp add: reference_default_environment_def)
next
  case True
  from hashable_field_add [OF assms True, of "referenced_ees s"] obtain v r
    where "py_index (YDict d) ''default_environment'' = Inr v" and "set_add v (referenced_ees s) = Inr r"
    by blast
  with True show ?thesis by (simp add: reference_default_environment_def and_then_def)
qed

lemma reference_project_total:
  assumes "hashable_field d ''project''"
  shows "\<exists>s'. reference_project d n s = Inr s'"
proof (cases "dict_has d ''project''")
  case False
  then show ?thesis by (simp add: reference_project_def)
next
  case True
  from hashable_field_add [OF assms True, of "referenced_projects s"] obtain v r
    where "py_index (YDict d) ''project'' = Inr v" and "set_add v (referenced_projects s) = Inr r"
    by blast
  with True show ?thesis by (simp add: reference_project_def and_then_def)
qed

lemma reference_inventory_total:
  assumes "hashable_field d ''inventory''"
  shows "\<exists>s'. reference_inventory d n s = Inr s'"
proof (cases "dict_has d ''inventory''")
  case False
  then show ?thesis by (simp add: reference_inventory_def)
next
  case True
  from hashable_field_add [OF assms True, of "referenced_inventories s"] obtain v r
    where "py_index (YDict d) ''inventory'' = Inr v" and "set_add v (referenced_inventories s) = Inr r"
    by blast
  with True show ?thesis by (simp add: reference_inventory_def and_then_def)
qed

lemma reference_execution_environment_total:
  assumes "hashable_field d ''execution_environment''"
  shows "\<exists>s'. reference_execution_environment d s = Inr s'"
proof (cases "dict_has d ''execution_environment''")
  case False
  then show ?thesis by (simp add: reference_execution_environment_def)
next
  case True
  from hashable_field_add [OF assms True, of "referenced_ees s"] obtain v r
    where "py_index (YDict d) ''execution_environment'' = Inr v" and "set_add v (referenced_ees s) = Inr r"
    by blast
  with True show ?thesis by (simp add: reference_execution_environment_def and_then_def)
qed

lemma template_credential_step_total:
  assumes "shaped_template_credential c"
  shows "\<exists>s'. template_credential_step c s = Inr s'"
proof (cases c)
  case (YStr x)
  then show ?thesis by (simp add: and_then_def set_add_def)
next
  case (YDict d)
  show ?thesis
  proof (cases "dict_has d ''name''")
    case False
    with YDict show ?thesis by simp
  next
    case True
    from assms YDict have "hashable_field d ''name''" by simp
    from hashable_field_add [OF this True, of "referenced_credentials s"] obtain v r
      where "py_index (YDict d) ''name'' = Inr v" and "set_add v (referenced_credentials s) = Inr r"
      by blast
    with True YDict show ?thesis by (simp add: and_then_def)
  qed
qed simp_all

lemma reference_credentials_total:
  assumes "case map_of d ''credentials'' of
            None \<Rightarrow> True
          | Some cs \<Rightarrow>
              (case py_iter cs of
                 Inl e \<Rightarrow> False
               | Inr creds \<Rightarrow> list_all shaped_template_credential creds)"
  shows "\<exists>s'. reference_credentials d s = Inr s'"
proof (cases "map_of d ''credentials''")
  case None
  then show ?thesis by (simp add: reference_credentials_def dict_has_def)
next
  case (Some cs)
  with assms obtain creds where c: "py_iter cs = Inr creds"
    and l: "list_all shaped_template_credential creds"
    by (auto split: sum.splits)
  have "\<exists>s'. for_each template_credential_step creds s = Inr s'"
    by (rule for_each_total) (use l in \<open>simp add: list_all_iff template_credential_step_total\<close>)
  with Some c show ?thesis
    by (simp add: reference_credentials_def dict_has_def and_then_def)
qed

lemma project_step_total:
  assumes "shaped_project r"
  shows "\<exists>s'. project_step r s = Inr s'"
proof (cases r)
  case (YDict d)
  with assms have h: "hashable (dict_get d ''name'' (YStr ''unnamed''))"
    and c: "hashable_field d ''credential''" and e: "hashable_field d ''default_environment''"
    by simp_all
  have "\<And>t. \<exists>s'. and_then (reference_project_credential d t)
      (\<lambda>s6. reference_default_environment d s6) = Inr s'"
    using reference_project_credential_total [OF c] reference_default_environment_total [OF e]
    by (simp add: and_then_Inr) blast
  then show ?thesis
    using YDict by (simp add: Let_def and_then_def set_add_hashable [OF h])
qed (use assms in simp_all)

lemma job_template_step_total:
  assumes "shaped_job_template r"
  shows "\<exists>s'. job_template_step r s = Inr s'"
proof (cases r)
  case (YDict d)
  with assms have p: "hashable_field d ''project''" and i: "hashable_field d ''inventory''"
    and e: "hashable_field d ''execution_environment''"
    and c: "case map_of d ''credentials'' of
            None \<Rightarrow> True
          | Some cs \<Rightarrow>
              (case py_iter cs of
                 Inl e \<Rightarrow> False
               | Inr creds \<Rightarrow> list_all shaped_template_credential creds)"
    by simp_all
  let ?n = "dict_get d ''name'' (YStr ''unnamed'')"
  obtain s2 where s2: "reference_project d ?n
      (guarded (\<not> dict_has d ''name'') (add_error ''Job Template missing 'name' field'') s) = Inr s2"
    using reference_project_total [OF p] by blast
  obtain s3 where s3: "reference_inventory d ?n s2 = Inr s3"
    using reference_inventory_total [OF i] by blast
  obtain s5 where s5: "reference_credentials d
      (guarded (\<not> dict_has d ''playbook'')
         (add_error (''Job Template '' @ quoted (py_str ?n) @ '' missing playbook'')) s3) = Inr s5"
    using reference_credentials_total [OF c] by blast
  obtain s6 where s6: "reference_execution_environment d s5 = Inr s6"
    using reference_execution_environment_total [OF e] by blast
  have "job_template_step (YDict d) s = Inr (production_checks d ?n s6)"
    by (simp only: job_template_step.simps Let_def and_then_def s2 s3 s5 s6 sum.case)
  with YDict show ?thesis by simp
qed (use assms in simp_all)

lemma validate_organizations_total:
  assumes "shaped_document ''controller_organizations'' shaped_named config"
  shows "\<exists>s'. validate_organizations config s = Inr s'"
proof (cases config)
  case (YDict c)
  with assms obtain recs where r: "py_iter (dict_get c ''controller_organizations'' (YList [])) = Inr recs"
    and l: "list_all shaped_named recs"
    by (auto split: sum.splits)
  have "\<exists>s'. for_each organization_step recs s = Inr s'"
    by (rule for_each_total) (use l in \<open>simp add: list_all_iff organization_step_total\<close>)
  with YDict r show ?thesis
    by (auto simp: validate_organizations_def and_then_def)
qed (use assms in simp_all)

lemma validate_teams_total:
  assumes "shaped_document ''controller_teams'' shaped_named config"
  shows "\<exists>s'. validate_teams config s = Inr s'"
proof (cases config)
  case (YDict c)
  with assms obtain recs where r: "py_iter (dict_get c ''controller_teams'' (YList [])) = Inr recs"
    and l: "list_all shaped_named recs"
    by (auto split: sum.splits)
  have "\<exists>s'. for_each team_step recs s = Inr s'"
    by (rule for_each_total) (use l in \<open>simp add: list_all_iff team_step_total\<close>)
  with YDict r show ?thesis
    by (auto simp: validate_teams_def and_then_def)
qed (use assms in simp_all)

lemma validate_credentials_total:
  assumes "shaped_document ''controller_credentials'' shaped_credential config"
  shows "\<exists>s'. validate_credentials config s = Inr s'"
proof (cases config)
  case (YDict c)
  with assms obtain recs where r: "py_iter (dict_get c ''controller_credentials'' (YList [])) = Inr recs"
    and l: "list_all shaped_credential recs"
    by (auto split: sum.splits)
  have "\<exists>s'. for_each credential_step recs s = Inr s'"
    by (rule for_each_total) (use l in \<open>simp add: list_all_iff credential_step_total\<close>)
  with YDict r show ?thesis
    by (auto simp: validate_credentials_def and_then_def)
qed (use assms in simp_all)

lemma validate_execution_environments_total:
  assumes "shaped_document ''controller_execution_environments'' shaped_execution_environment config"
  shows "\<exists>s'. validate_execution_environments config s = Inr s'"
proof (cases config)
  case (YDict c)
  with assms obtain recs where r: "py_iter (dict_get c ''controller_execution_environments'' (YList [])) = Inr recs"
    and l: "list_all shaped_execution_environment recs"
    by (auto split: sum.splits)
  have "\<exists>s'. for_each execution_environment_step recs s = Inr s'"
    by (rule for_each_total) (use l in \<open>simp add: list_all_iff execution_environment_step_total\<close>)
  with YDict r show ?thesis
    by (auto simp: validate_execution_environments_def and_then_def)
qed (use assms in simp_all)

lemma validate_projects_total:
  assumes "shaped_document ''controller_projects'' shaped_project config"
  shows "\<exists>s'. validate_projects config s = Inr s'"
proof (cases config)
  case (YDict c)
  with assms obtain recs where r: "py_iter (dict_get c ''controller_projects'' (YList [])) = Inr recs"
    and l: "list_all shaped_project recs"
    by (auto split: sum.splits)
  have "\<exists>s'. for_each project_step recs s = Inr s'"
    by (rule for_each_total) (use l in \<open>simp add: list_all_iff project_step_total\<close>)
  with YDict r show ?thesis
    by (auto simp: validate_projects_def and_then_def)
qed (use assms in simp_all)

lemma validate_inventories_total:
  assumes "shaped_document ''controller_inventories'' shaped_named config"
  shows "\<exists>s'. validate_inventories config s = Inr s'"
proof (cases config)
  case (YDict c)
  with assms obtain recs where r: "py_iter (dict_get c ''controller_inventories'' (YList [])) = Inr recs"
    and l: "list_all shaped_named recs"
    by (auto split: sum.splits)
  have "\<exists>s'. for_each inventory_step recs s = Inr s'"
    by (rule for_each_total) (use l in \<open>simp add: list_all_iff inventory_step_total\<close>)
  with YDict r show ?thesis
    by (auto simp: validate_inventories_def and_then_def)
qed (use assms in simp_all)

lemma validate_job_templates_total:
  assumes "shaped_document ''controller_templates'' shaped_job_template config"
  shows "\<exists>s'. validate_job_templates config s = Inr s'"
proof (cases config)
  case (YDict c)
  with assms obtain recs where r: "py_iter (dict_get c ''controller_templates'' (YList [])) = Inr recs"
    and l: "list_all shaped_job_template recs"
    by (auto split: sum.splits)
  have "\<exists>s'. for_each job_template_step recs s = Inr s'"
    by (rule for_each_total) (use l in \<open>simp add: list_all_iff job_template_step_total\<close>)
  with YDict r show ?thesis
    by (auto simp: validate_job_templates_def and_then_def)
qed (use assms in simp_all)

lemma validate_workflow_templates_total:
  assumes "shaped_document ''controller_workflows'' shaped_mapping config"
  shows "\<exists>s'. validate_workflow_templates config s = Inr s'"
proof (cases config)
  case (YDict c)
  with assms obtain recs where r: "py_iter (dict_get c ''controller_workflows'' (YList [])) = Inr recs"
    and l: "list_all shaped_mapping recs"
    by (auto split: sum.splits)
  have "\<exists>s'. for_each workflow_step recs s = Inr s'"
    by (rule for_each_total) (use l in \<open>simp add: list_all_iff workflow_step_total\<close>)
  with YDict r show ?thesis
    by (auto simp: validate_workflow_templates_def and_then_def)
qed (use assms in simp_all)

lemma validate_schedules_total:
  assumes "shaped_document ''controller_schedules'' shaped_mapping config"
  shows "\<exists>s'. validate_schedules config s = Inr s'"
proof (cases config)
  case (YDict c)
  with assms obtain recs where r: "py_iter (dict_get c ''controller_schedules'' (YList [])) = Inr recs"
    and l: "list_all shaped_mapping recs"
    by (auto split: sum.splits)
  have "\<exists>s'. for_each schedule_step recs s = Inr s'"
    by (rule for_each_total) (use l in \<open>simp add: list_all_iff schedule_step_total\<close>)
  with YDict r show ?thesis
    by (auto simp: validate_schedules_def and_then_def)
qed (use assms in simp_all)

subsection \<open>The example configuration, evaluated\<close>

lemma example_environment_run:
  "validate_environment rev example_fs ''prod'' example_start = Inr (True, example_report)"
  by code_simp

subsection \<open>Reconciliation and whole runs\<close>

lemma warn_undefined_fields:
  "warnings (warn_undefined iter k d t) = warnings t @ dangling_warnings iter k d"
  "errors (warn_undefined iter k d t) = errors t"
  "info (warn_undefined iter k d t) = info t"
  "base_path (warn_undefined iter k d t) = base_path t"
  "environment (warn_undefined iter k d t) = environment t"
  "defined_credentials (warn_undefined iter k d t) = defined_credentials t"
  "defined_projects (warn_undefined iter k d t) = defined_projects t"
  "defined_inventories (warn_undefined iter k d t) = defined_inventories t"
  "defined_ees (warn_undefined iter k d t) = defined_ees t"
  "defined_organizations (warn_undefined iter k d t) = defined_organizations t"
  "defined_teams (warn_undefined iter k d t) = defined_teams t"
  "referenced_credentials (warn_undefined iter k d t) = referenced_credentials t"
  "referenced_projects (warn_undefined iter k d t) = referenced_projects t"
  "referenced_inventories (warn_undefined iter k d t) = referenced_inventories t"
  "referenced_ees (warn_undefined iter k d t) = referenced_ees t"
  by (simp_all add: warn_undefined_def dangling_warnings_def)

lemma validate_references_fields:
  "warnings (validate_references iter s) = warnings s
     @ dangling_warnings iter ''credential''
         (set_diff (referenced_credentials s) (defined_credentials s))
     @ dangling_warnings iter ''project''
         (set_diff (referenced_projects s) (defined_projects s))
     @ dangling_warnings iter ''inventory''
         (set_diff (referenced_inventories s) (defined_inventories s))
     @ dangling_warnings iter ''execution environment''
         (set_diff (referenced_ees s) (defined_ees s))"
  "errors (validate_references iter s) = errors s"
  "info (validate_references iter s) = info s"
  by (simp_all add: validate_references_def Let_def warn_undefined_fields)

lemma mset_dangling_warnings:
  assumes "\<And>xs. mset (iter xs) = mset xs"
  shows "mset (dangling_warnings iter k d) = image_mset (dangling_msg k) (mset d)"
proof (cases "d = []")
  case True
  then show ?thesis by (simp add: dangling_warnings_def)
next
  case False
  have "mset (map (dangling_msg k) (iter d)) = image_mset (dangling_msg k) (mset (iter d))"
    by simp
  with False show ?thesis by (simp add: dangling_warnings_def assms)
qed


lemma run_environments_reports:
  "run_environments iter fs bp envs ap = (printed, Inr r)
     \<Longrightarrow> map Inr printed = map (environment_report iter fs bp) envs"
proof (induction envs arbitrary: ap printed)
  case Nil
  then show ?case by simp
next
  case (Cons env envs)
  from Cons.prems obtain ok v rest where
    v: "validate_environment iter fs env (init bp (Some env)) = Inr (ok, v)"
    and rest: "run_environments iter fs bp envs (ap \<and> print_results v) = (rest, Inr r)"
    and p: "printed = v # rest"
    by (auto simp: Let_def split: sum.splits prod.splits)
  from Cons.IH [OF rest] v p show ?case
    by (simp add: environment_report_def)
qed

lemma environment_report_order:
  assumes "\<And>xs. mset (iter xs) = mset xs" and "\<And>xs. mset (iter' xs) = mset xs"
    and "environment_report iter fs bp env = Inr v"
  shows "\<exists>v'. environment_report iter' fs bp env = Inr v' \<and> errors v' = errors v
     \<and> info v' = info v \<and> mset (warnings v') = mset (warnings v)"
proof (cases "fs (get_group_vars_path (init bp (Some env)) (Some env)) = None")
  case True
  with assms(3) show ?thesis
    by (simp add: environment_report_def validate_environment_def Let_def)
next
  case False
  with assms(3) obtain s1 where
    f: "for_each (validate_file fs (get_group_vars_path (init bp (Some env)) (Some env)))
          config_files (init bp (Some env)) = Inr s1"
    and v: "v = validate_references iter s1"
    by (cases "for_each (validate_file fs (get_group_vars_path (init bp (Some env)) (Some env)))
          config_files (init bp (Some env))")
       (auto simp: environment_report_def validate_environment_def Let_def and_then_def)
  from False f have "environment_report iter' fs bp env = Inr (validate_references iter' s1)"
    by (simp add: environment_report_def validate_environment_def Let_def and_then_def
          del: not_None_eq)
  moreover have "mset (warnings (validate_references iter' s1))
      = mset (warnings (validate_references iter s1))"
    by (simp add: validate_references_fields mset_dangling_warnings [OF assms(1)]
          mset_dangling_warnings [OF assms(2)])
  ultimately show ?thesis
    unfolding v by (simp add: validate_references_fields)
qed

section \<open>The validators against the rules\<close>

subsection \<open>Additions\<close>

lemma add_all_Nil [simp]: "add_all [] s = s"
  by (simp add: add_all_def)

lemma add_all_append: "add_all (vs @ ws) s = add_all ws (add_all vs s)"
  by (simp add: add_all_def)

lemma set_add_Inr: "set_add v s = Inr r \<longleftrightarrow> hashable v \<and> r = add_all [v] s"
  by (auto simp: set_add_def add_all_def)

lemma apply_no_additions [simp]: "apply_additions no_additions s = s"
  by (simp add: apply_additions_def no_additions_def)

lemma apply_append_additions:
  "apply_additions (append_additions x y) s = apply_additions y (apply_additions x s)"
  by (simp add: apply_additions_def append_additions_def add_all_append)

lemma environment_apply_additions [simp]: "environment (apply_additions x s) = environment s"
  by (simp add: apply_additions_def)

lemma for_each_Cons_Inr:
  "for_each f (x # xs) s = Inr s' \<longleftrightarrow> (\<exists>t. f x s = Inr t \<and> for_each f xs t = Inr s')"
  by (simp split: sum.splits)

lemma concat_additions_Cons:
  "concat_additions (x # xs) = append_additions x (concat_additions xs)"
  by (simp add: concat_additions_def)

lemma for_each_additions:
  assumes step: "\<And>r a b. f r a = Inr b \<Longrightarrow> b = apply_additions (X (environment a) r) a"
  shows "for_each f recs s = Inr s'
     \<Longrightarrow> s' = apply_additions (concat_additions (map (X (environment s)) recs)) s"
proof (induction recs arbitrary: s)
  case Nil
  then show ?case by (simp add: concat_additions_def)
next
  case (Cons r recs)
  from Cons.prems obtain t where t: "f r s = Inr t" and rest: "for_each f recs t = Inr s'"
    by (auto simp del: for_each.simps simp: for_each_Cons_Inr)
  from step [OF t] have t': "t = apply_additions (X (environment s) r) s" .
  then have e: "environment t = environment s" by simp
  from Cons.IH [OF rest] e t' show ?case
    by (simp add: concat_additions_Cons apply_append_additions)
qed

lemma guarded_add_error_eq:
  "guarded c (add_error m) t = t\<lparr>errors := errors t @ (if c then [m] else [])\<rparr>"
  by (simp add: guarded_def add_error_def)

lemma guarded_add_warning_eq:
  "guarded c (add_warning m) t = t\<lparr>warnings := warnings t @ (if c then [m] else [])\<rparr>"
  by (simp add: guarded_def add_warning_def)

lemma guarded_add_info_eq:
  "guarded c (add_info m) t = t\<lparr>info := info t @ (if c then [m] else [])\<rparr>"
  by (simp add: guarded_def add_info_def)

lemmas additions_defs = apply_additions_def no_additions_def required_errors_def record_name_def

subsection \<open>One record\<close>

lemma organization_step_additions:
  "organization_step r a = Inr b
     \<Longrightarrow> \<exists>d. r = YDict d \<and> b = apply_additions (organization_additions (environment a) d) a"
  by (cases r)
     (auto simp: Let_def and_then_Inr set_add_Inr guarded_add_error_eq guarded_add_warning_eq
        additions_defs organization_additions_def
        organization_errors_def organization_warnings_def organization_required_def)

lemma team_step_additions:
  "team_step r a = Inr b
     \<Longrightarrow> \<exists>d. r = YDict d \<and> b = apply_additions (team_additions (environment a) d) a"
  by (cases r)
     (auto simp: Let_def and_then_Inr set_add_Inr guarded_add_error_eq guarded_add_warning_eq
        additions_defs team_additions_def team_errors_def team_warnings_def team_required_def)

lemma inventory_step_additions:
  "inventory_step r a = Inr b
     \<Longrightarrow> \<exists>d. r = YDict d \<and> b = apply_additions (inventory_additions (environment a) d) a"
  by (cases r)
     (auto simp: Let_def and_then_Inr set_add_Inr guarded_add_error_eq
        additions_defs inventory_additions_def inventory_errors_def inventory_required_def)

lemma workflow_step_additions:
  "workflow_step r a = Inr b
     \<Longrightarrow> \<exists>d. r = YDict d \<and> b = apply_additions (workflow_additions (environment a) d) a"
  by (cases r)
     (auto simp: Let_def guarded_add_error_eq guarded_add_warning_eq
        additions_defs workflow_additions_def workflow_errors_def workflow_warnings_def
        workflow_required_def)

lemma schedule_step_additions:
  "schedule_step r a = Inr b
     \<Longrightarrow> \<exists>d. r = YDict d \<and> b = apply_additions (schedule_additions (environment a) d) a"
  by (cases r)
     (auto simp: Let_def guarded_add_error_eq guarded_add_info_eq
        additions_defs schedule_additions_def schedule_errors_def schedule_info_def
        schedule_required_def)

lemma check_sensitive_field_additions:
  assumes "check_sensitive_field n inputs f a = Inr b"
  shows "b = a\<lparr>errors := errors a @ secret_errors n inputs f\<rparr>"
proof (cases inputs)
  case (YDict i)
  with assms show ?thesis
    by (cases "map_of i f")
       (simp_all add: check_sensitive_field_dict guarded_add_error_eq secret_errors_def
          plaintext_def)
next
  case (YStr t)
  with assms show ?thesis
    by (cases "sublist f t") (simp_all add: check_sensitive_field_def and_then_def secret_errors_def)
next
  case (YList xs)
  with assms show ?thesis
    by (cases "YStr f \<in> set xs")
       (simp_all add: check_sensitive_field_def and_then_def secret_errors_def)
qed (use assms in \<open>simp_all add: check_sensitive_field_def and_then_def\<close>)

lemma sensitive_fields_additions:
  "for_each (check_sensitive_field n inputs) fs a = Inr b
     \<Longrightarrow> b = a\<lparr>errors := errors a @ concat (map (secret_errors n inputs) fs)\<rparr>"
proof (induction fs arbitrary: a)
  case Nil
  then show ?case by simp
next
  case (Cons f fs)
  from Cons.prems obtain t where t: "check_sensitive_field n inputs f a = Inr t"
    and rest: "for_each (check_sensitive_field n inputs) fs t = Inr b"
    by (auto simp del: for_each.simps simp: for_each_Cons_Inr)
  from Cons.IH [OF rest] check_sensitive_field_additions [OF t] show ?case by simp
qed

lemma credential_step_additions:
  assumes "credential_step r a = Inr b"
  shows "\<exists>d. r = YDict d \<and> b = apply_additions (credential_additions (environment a) d) a"
proof (cases r)
  case (YDict d)
  with assms have "credential_step (YDict d) a = Inr b" by simp
  then obtain dd where dd: "set_add (dict_get d ''name'' (YStr ''unnamed'')) (defined_credentials a) = Inr dd"
    and f: "for_each (check_sensitive_field (dict_get d ''name'' (YStr ''unnamed''))
                (dict_get d ''inputs'' (YDict []))) sensitive_fields
          (guarded (\<not> dict_has d ''organization'')
             (add_error (''Credential '' @ quoted (py_str (dict_get d ''name'' (YStr ''unnamed'')))
                @ '' missing organization''))
          (guarded (\<not> dict_has d ''credential_type'')
             (add_error (''Credential '' @ quoted (py_str (dict_get d ''name'' (YStr ''unnamed'')))
                @ '' missing credential_type''))
          (guarded (\<not> dict_has d ''name'') (add_error ''Credential missing 'name' field'')
             (a\<lparr>defined_credentials := dd\<rparr>)))) = Inr b"
    by (simp only: credential_step.simps Let_def and_then_Inr) blast
  from dd have dd': "dd = add_all [record_name d] (defined_credentials a)"
    by (simp add: set_add_Inr record_name_def)
  have "b = apply_additions (credential_additions (environment a) d) a"
    unfolding sensitive_fields_additions [OF f] dd'
    by (simp add: guarded_add_error_eq additions_defs credential_additions_def
          credential_errors_def credential_required_def)
  with YDict show ?thesis by simp
qed (use assms in simp_all)

lemma check_image_additions:
  assumes "check_image d (record_name d) a = Inr b"
  shows "b = a\<lparr>errors := errors a
                   @ (if dict_has d ''image'' then []
                      else [''Execution Environment '' @ quoted (py_str (record_name d))
                              @ '' missing image''])
                   @ (case map_of d ''image'' of
                        None \<Rightarrow> []
                      | Some img \<Rightarrow>
                          if py_contains '':latest'' img = Inr True
                          then [latest_msg (record_name d)] else []),
                 warnings := warnings a @ execution_environment_warnings (environment a) d\<rparr>"
proof (cases "map_of d ''image''")
  case None
  with assms have b: "b = add_error (''Execution Environment '' @ quoted (py_str (record_name d))
      @ '' missing image'') a"
    by (simp add: check_image_def dict_has_def)
  show ?thesis
    unfolding b
    by (simp add: add_error_def dict_has_def execution_environment_warnings_def None)
next
  case (Some img)
  with assms obtain hd hl where hd: "py_contains ''@sha256:'' img = Inr hd"
    and hl: "py_contains '':latest'' img = Inr hl"
    and b: "b = guarded hl (add_error (latest_msg (record_name d)))
              (guarded (\<not> hd \<and> environment a = Some ''prod'')
                 (add_warning (digest_msg (record_name d))) a)"
    by (auto simp: check_image_def dict_has_def and_then_Inr Let_def)
  show ?thesis
    unfolding b
    by (simp add: guarded_add_error_eq guarded_add_warning_eq dict_has_def
          execution_environment_warnings_def Some hd hl)
qed

lemma execution_environment_step_additions:
  assumes "execution_environment_step r a = Inr b"
  shows "\<exists>d. r = YDict d
     \<and> b = apply_additions (execution_environment_additions (environment a) d) a"
proof (cases r)
  case (YDict d)
  with assms have "execution_environment_step (YDict d) a = Inr b" by simp
  then obtain dd where dd: "set_add (dict_get d ''name'' (YStr ''unnamed'')) (defined_ees a) = Inr dd"
    and f: "check_image d (dict_get d ''name'' (YStr ''unnamed''))
          (guarded (\<not> dict_has d ''name'')
             (add_error ''Execution Environment missing 'name' field'')
             (a\<lparr>defined_ees := dd\<rparr>)) = Inr b"
    by (simp only: execution_environment_step.simps Let_def and_then_Inr) blast
  from dd have dd': "dd = add_all [record_name d] (defined_ees a)"
    by (simp add: set_add_Inr record_name_def)
  from f have f': "check_image d (record_name d)
          (guarded (\<not> dict_has d ''name'')
             (add_error ''Execution Environment missing 'name' field'')
             (a\<lparr>defined_ees := dd\<rparr>)) = Inr b"
    by (simp only: record_name_def)
  have "b = apply_additions (execution_environment_additions (environment a) d) a"
    unfolding check_image_additions [OF f'] dd'
    by (simp add: guarded_add_error_eq apply_additions_def no_additions_def required_errors_def
          execution_environment_additions_def
          execution_environment_errors_def execution_environment_required_def)
  with YDict show ?thesis by simp
qed (use assms in simp_all)

lemma reference_project_credential_additions:
  "reference_project_credential p a = Inr b
     \<Longrightarrow> b = a\<lparr>referenced_credentials :=
                   add_all (field_values p ''credential'') (referenced_credentials a)\<rparr>"
  by (auto simp: reference_project_credential_def and_then_Inr set_add_Inr dict_has_def
        field_values_def split: if_splits option.splits)

lemma reference_default_environment_additions:
  "reference_default_environment p a = Inr b
     \<Longrightarrow> b = a\<lparr>referenced_ees :=
                   add_all (field_values p ''default_environment'') (referenced_ees a)\<rparr>"
  by (auto simp: reference_default_environment_def and_then_Inr set_add_Inr dict_has_def
        field_values_def split: if_splits option.splits)

lemma project_head_additions:
  "guarded (\<not> dict_has d ''scm_branch'')
     (add_warning (''Project '' @ quoted (py_str (dict_get d ''name'' (YStr ''unnamed'')))
        @ '' not specifying branch - will use repository default''))
   (guarded (\<not> dict_has d ''scm_url'')
     (add_error (''Project '' @ quoted (py_str (dict_get d ''name'' (YStr ''unnamed'')))
        @ '' missing scm_url''))
   (if \<not> dict_has d ''scm_type''
    then add_error (''Project '' @ quoted (py_str (dict_get d ''name'' (YStr ''unnamed'')))
           @ '' missing scm_type'')
          (guarded (\<not> dict_has d ''name'') (add_error ''Project missing 'name' field'') t)
    else guarded (dict_get d ''scm_type'' YNone \<noteq> YStr ''git'')
           (add_warning (''Project '' @ quoted (py_str (dict_get d ''name'' (YStr ''unnamed'')))
              @ '' not using Git SCM (Constitutional Article I: GitOps First)''))
          (guarded (\<not> dict_has d ''name'') (add_error ''Project missing 'name' field'') t)))
   = t\<lparr>errors := errors t @ project_errors d, warnings := warnings t @ project_warnings d\<rparr>"
  by (cases "map_of d ''scm_type''")
     (simp_all add: guarded_add_error_eq guarded_add_warning_eq add_error_def
        required_errors_def record_name_def project_required_def
        project_errors_def project_warnings_def dict_has_def dict_get_def)

lemma project_step_additions:
  assumes "project_step r a = Inr b"
  shows "\<exists>d. r = YDict d \<and> b = apply_additions (project_additions (environment a) d) a"
proof (cases r)
  case (YDict d)
  with assms have "project_step (YDict d) a = Inr b" by simp
  then obtain dd u where dd: "set_add (dict_get d ''name'' (YStr ''unnamed'')) (defined_projects a) = Inr dd"
    and u: "reference_project_credential d
      (guarded (\<not> dict_has d ''scm_branch'')
     (add_warning (''Project '' @ quoted (py_str (dict_get d ''name'' (YStr ''unnamed'')))
        @ '' not specifying branch - will use repository default''))
   (guarded (\<not> dict_has d ''scm_url'')
     (add_error (''Project '' @ quoted (py_str (dict_get d ''name'' (YStr ''unnamed'')))
        @ '' missing scm_url''))
   (if \<not> dict_has d ''scm_type''
    then add_error (''Project '' @ quoted (py_str (dict_get d ''name'' (YStr ''unnamed'')))
           @ '' missing scm_type'')
          (guarded (\<not> dict_has d ''name'') (add_error ''Project missing 'name' field'')
             (a\<lparr>defined_projects := dd\<rparr>))
    else guarded (dict_get d ''scm_type'' YNone \<noteq> YStr ''git'')
           (add_warning (''Project '' @ quoted (py_str (dict_get d ''name'' (YStr ''unnamed'')))
              @ '' not using Git SCM (Constitutional Article I: GitOps First)''))
          (guarded (\<not> dict_has d ''name'') (add_error ''Project missing 'name' field'')
             (a\<lparr>defined_projects := dd\<rparr>))))) = Inr u"
    and b: "reference_default_environment d u = Inr b"
    by (simp only: project_step.simps Let_def and_then_Inr) blast
  from dd have dd': "dd = add_all [record_name d] (defined_projects a)"
    by (simp add: set_add_Inr record_name_def)
  have "b = apply_additions (project_additions (environment a) d) a"
    unfolding reference_default_environment_additions [OF b]
      reference_project_credential_additions [OF u [unfolded project_head_additions]] dd'
    by (simp add: apply_additions_def no_additions_def project_additions_def)
  with YDict show ?thesis by simp
qed (use assms in simp_all)

lemma reference_project_additions:
  "reference_project t n a = Inr b
     \<Longrightarrow> b = a\<lparr>errors := errors a
                   @ (if dict_has t ''project'' then [] else [missing_project_msg n]),
                 referenced_projects :=
                   add_all (field_values t ''project'') (referenced_projects a)\<rparr>"
  by (auto simp: reference_project_def and_then_Inr set_add_Inr dict_has_def add_error_def
        field_values_def split: if_splits option.splits)

lemma reference_inventory_additions:
  "reference_inventory t n a = Inr b
     \<Longrightarrow> b = a\<lparr>errors := errors a
                   @ (if dict_has t ''inventory'' then [] else [missing_inventory_msg n]),
                 referenced_inventories :=
                   add_all (field_values t ''inventory'') (referenced_inventories a)\<rparr>"
  by (auto simp: reference_inventory_def and_then_Inr set_add_Inr dict_has_def add_error_def
        field_values_def split: if_splits option.splits)

lemma template_credential_step_additions:
  "template_credential_step c a = Inr b
     \<Longrightarrow> b = a\<lparr>referenced_credentials :=
                   add_all (credential_reference c) (referenced_credentials a)\<rparr>"
  by (cases c)
     (auto simp: and_then_Inr set_add_Inr dict_has_def field_values_def
        split: if_splits option.splits)

lemma template_credentials_additions:
  "for_each template_credential_step cs a = Inr b
     \<Longrightarrow> b = a\<lparr>referenced_credentials :=
                   add_all (concat (map credential_reference cs)) (referenced_credentials a)\<rparr>"
proof (induction cs arbitrary: a)
  case Nil
  then show ?case by simp
next
  case (Cons c cs)
  from Cons.prems obtain t where t: "template_credential_step c a = Inr t"
    and rest: "for_each template_credential_step cs t = Inr b"
    by (auto simp del: for_each.simps simp: for_each_Cons_Inr)
  from Cons.IH [OF rest] template_credential_step_additions [OF t] show ?case
    by (simp add: add_all_append)
qed

lemma reference_credentials_additions:
  "reference_credentials t a = Inr b
     \<Longrightarrow> b = a\<lparr>referenced_credentials :=
                   add_all (template_credentials t) (referenced_credentials a)\<rparr>"
  by (auto simp: reference_credentials_def and_then_Inr dict_has_def template_credentials_def
        split: if_splits option.splits dest: template_credentials_additions)

lemma reference_execution_environment_additions:
  "reference_execution_environment t a = Inr b
     \<Longrightarrow> b = a\<lparr>referenced_ees :=
                   add_all (field_values t ''execution_environment'') (referenced_ees a)\<rparr>"
  by (auto simp: reference_execution_environment_def and_then_Inr set_add_Inr dict_has_def
        field_values_def split: if_splits option.splits)

lemma production_checks_additions:
  "production_checks t (record_name t) a
     = a\<lparr>warnings := warnings a @ job_template_warnings (environment a) t\<rparr>"
  by (simp add: production_checks_def job_template_warnings_def Let_def
        guarded_add_warning_eq)

lemma job_template_step_additions:
  assumes "job_template_step r a = Inr b"
  shows "\<exists>d. r = YDict d \<and> b = apply_additions (job_template_additions (environment a) d) a"
proof (cases r)
  case (YDict d)
  with assms have "job_template_step (YDict d) a = Inr b" by simp
  then obtain s2 s3 s5 s6 where
    c1: "reference_project d (dict_get d ''name'' (YStr ''unnamed''))
       (guarded (\<not> dict_has d ''name'') (add_error ''Job Template missing 'name' field'') a)
     = Inr s2"
    and c2: "reference_inventory d (dict_get d ''name'' (YStr ''unnamed'')) s2 = Inr s3"
    and c3: "reference_credentials d
       (guarded (\<not> dict_has d ''playbook'')
          (add_error (''Job Template '' @ quoted (py_str (dict_get d ''name'' (YStr ''unnamed'')))
             @ '' missing playbook'')) s3)
     = Inr s5"
    and c4: "reference_execution_environment d s5 = Inr s6"
    and c5: "b = production_checks d (dict_get d ''name'' (YStr ''unnamed'')) s6"
    by (rule job_template_step_chain)
  have s2: "s2 = a\<lparr>errors := errors a
        @ (if dict_has d ''name'' then [] else [''Job Template missing 'name' field''])
        @ (if dict_has d ''project'' then [] else [missing_project_msg (record_name d)]),
      referenced_projects := add_all (field_values d ''project'') (referenced_projects a)\<rparr>"
    using reference_project_additions [OF c1]
    by (simp add: guarded_add_error_eq record_name_def)
  have s3: "s3 = s2\<lparr>errors := errors s2
        @ (if dict_has d ''inventory'' then [] else [missing_inventory_msg (record_name d)]),
      referenced_inventories := add_all (field_values d ''inventory'') (referenced_inventories s2)\<rparr>"
    using reference_inventory_additions [OF c2] by (simp add: record_name_def)
  have s5: "s5 = s3\<lparr>errors := errors s3
        @ (if dict_has d ''playbook'' then []
           else [''Job Template '' @ quoted (py_str (record_name d)) @ '' missing playbook'']),
      referenced_credentials := add_all (template_credentials d) (referenced_credentials s3)\<rparr>"
    using reference_credentials_additions [OF c3]
    by (simp add: guarded_add_error_eq record_name_def)
  have s6: "s6 = s5\<lparr>referenced_ees :=
      add_all (field_values d ''execution_environment'') (referenced_ees s5)\<rparr>"
    using reference_execution_environment_additions [OF c4] .
  have b: "b = s6\<lparr>warnings := warnings s6 @ job_template_warnings (environment s6) d\<rparr>"
    using c5 production_checks_additions [of d s6] by (simp add: record_name_def)
  have "b = apply_additions (job_template_additions (environment a) d) a"
    unfolding b s6 s5 s3 s2
    by (simp add: additions_defs job_template_additions_def
          job_template_errors_def job_template_required_def)
  with YDict show ?thesis by simp
qed (use assms in simp_all)

subsection \<open>One document\<close>

lemma and_then_Inr_left: "and_then (Inr v) f = f v"
  by (simp add: and_then_def)

lemma add_info_additions:
  "add_info m t = apply_additions (no_additions\<lparr>new_info := [m]\<rparr>) t"
  by (simp add: add_info_def apply_additions_def no_additions_def)

lemma add_warning_additions:
  "add_warning m t = apply_additions (no_additions\<lparr>new_warnings := [m]\<rparr>) t"
  by (simp add: add_warning_def apply_additions_def no_additions_def)


lemma records_run_additions:
  assumes step: "\<And>r a b. step r a = Inr b
      \<Longrightarrow> \<exists>d. r = YDict d \<and> b = apply_additions (X (environment a) d) a"
    and run: "and_then (py_iter v) (\<lambda>recs. and_then (for_each step recs s)
        (\<lambda>t. Inr (add_info (msg (length recs)) t))) = Inr s'"
    and msg: "\<And>n. msg n = found_msg n what"
  shows "\<exists>recs. py_iter v = Inr recs
     \<and> s' = apply_additions (records_additions (X (environment s)) what recs) s"
proof -
  from run obtain recs t where recs: "py_iter v = Inr recs"
    and t: "for_each step recs s = Inr t" and s': "s' = add_info (msg (length recs)) t"
    by (auto simp: and_then_Inr)
  have "t = apply_additions
      (concat_additions (map ((\<lambda>env. record_additions (X env)) (environment s)) recs)) s"
  proof (rule for_each_additions [where f = step and X = "\<lambda>env. record_additions (X env)"])
    fix r a b
    assume "step r a = Inr b"
    from step [OF this]
    show "b = apply_additions (record_additions (X (environment a)) r) a"
      by (auto simp: record_additions_def)
  next
    show "for_each step recs s = Inr t" by (rule t)
  qed
  with s' have "s' = apply_additions (records_additions (X (environment s)) what recs) s"
    by (simp add: records_additions_def apply_append_additions add_info_additions msg)
  with recs show ?thesis by blast
qed

lemma validate_organizations_records:
  assumes "validate_organizations config s = Inr s'"
  shows "\<exists>c. config = YDict c
     \<and> (if py_truthy (dict_get c ''controller_organizations'' (YList []))
        then \<exists>recs. py_iter (dict_get c ''controller_organizations'' (YList [])) = Inr recs
          \<and> s' = apply_additions
              (records_additions (organization_additions (environment s)) ''organization(s)'' recs) s
        else s' = add_warning ''No organizations defined'' s)"
proof -
  from assms obtain c where c: "config = YDict c"
    by (cases config) (simp_all add: validate_organizations_def and_then_def)
  show ?thesis
  proof (cases "py_truthy (dict_get c ''controller_organizations'' (YList []))")
    case False
    with assms c show ?thesis
      by (simp add: validate_organizations_def and_then_Inr_left)
  next
    case True
    with assms c have run: "and_then (py_iter (dict_get c ''controller_organizations'' (YList [])))
        (\<lambda>recs. and_then (for_each organization_step recs s)
          (\<lambda>t. Inr (add_info ((\<lambda>n. ''Found '' @ str_nat n @ '' organization(s)'') (length recs)) t)))
        = Inr s'"
      by (simp add: validate_organizations_def and_then_Inr_left)
    from records_run_additions [where what = "''organization(s)''" and X = organization_additions
        and msg = "\<lambda>n. ''Found '' @ str_nat n @ '' organization(s)''", OF organization_step_additions run]
    have "\<exists>recs. py_iter (dict_get c ''controller_organizations'' (YList [])) = Inr recs
       \<and> s' = apply_additions
           (records_additions (organization_additions (environment s)) ''organization(s)'' recs) s"
      by (simp add: found_msg_def)
    with c True show ?thesis by simp
  qed
qed

lemma validate_organizations_document:
  assumes "validate_organizations config s = Inr s'"
  shows "s' = apply_additions (organizations_document (environment s) config) s"
proof -
  from validate_organizations_records [OF assms] obtain c where c: "config = YDict c"
    and r: "if py_truthy (dict_get c ''controller_organizations'' (YList []))
        then \<exists>recs. py_iter (dict_get c ''controller_organizations'' (YList [])) = Inr recs
          \<and> s' = apply_additions
              (records_additions (organization_additions (environment s)) ''organization(s)'' recs) s
        else s' = add_warning ''No organizations defined'' s"
    by blast
  show ?thesis
  proof (cases "py_truthy (dict_get c ''controller_organizations'' (YList []))")
    case False
    with r c show ?thesis
      by (simp add: organizations_document_def key_value_def add_warning_additions)
  next
    case True
    with r obtain recs where "py_iter (dict_get c ''controller_organizations'' (YList [])) = Inr recs"
      and "s' = apply_additions
              (records_additions (organization_additions (environment s)) ''organization(s)'' recs) s"
      by auto
    with True c show ?thesis
      by (simp add: organizations_document_def records_of_def key_value_def)
  qed
qed

lemma validate_teams_records:
  assumes "validate_teams config s = Inr s'"
  shows "\<exists>c. config = YDict c
     \<and> (if py_truthy (dict_get c ''controller_teams'' (YList []))
        then \<exists>recs. py_iter (dict_get c ''controller_teams'' (YList [])) = Inr recs
          \<and> s' = apply_additions
              (records_additions (team_additions (environment s)) ''team(s)'' recs) s
        else s' = add_warning ''No teams defined - consider RBAC best practices'' s)"
proof -
  from assms obtain c where c: "config = YDict c"
    by (cases config) (simp_all add: validate_teams_def and_then_def)
  show ?thesis
  proof (cases "py_truthy (dict_get c ''controller_teams'' (YList []))")
    case False
    with assms c show ?thesis
      by (simp add: validate_teams_def and_then_Inr_left)
  next
    case True
    with assms c have run: "and_then (py_iter (dict_get c ''controller_teams'' (YList [])))
        (\<lambda>recs. and_then (for_each team_step recs s)
          (\<lambda>t. Inr (add_info ((\<lambda>n. ''Found '' @ str_nat n @ '' team(s)'') (length recs)) t)))
        = Inr s'"
      by (simp add: validate_teams_def and_then_Inr_left)
    from records_run_additions [where what = "''team(s)''" and X = team_additions
        and msg = "\<lambda>n. ''Found '' @ str_nat n @ '' team(s)''", OF team_step_additions run]
    have "\<exists>recs. py_iter (dict_get c ''controller_teams'' (YList [])) = Inr recs
       \<and> s' = apply_additions
           (records_additions (team_additions (environment s)) ''team(s)'' recs) s"
      by (simp add: found_msg_def)
    with c True show ?thesis by simp
  qed
qed

lemma validate_teams_document:
  assumes "validate_teams config s = Inr s'"
  shows "s' = apply_additions (teams_document (environment s) config) s"
proof -
  from validate_teams_records [OF assms] obtain c where c: "config = YDict c"
    and r: "if py_truthy (dict_get c ''controller_teams'' (YList []))
        then \<exists>recs. py_iter (dict_get c ''controller_teams'' (YList [])) = Inr recs
          \<and> s' = apply_additions
              (records_additions (team_additions (environment s)) ''team(s)'' recs) s
        else s' = add_warning ''No teams defined - consider RBAC best practices'' s"
    by blast
  show ?thesis
  proof (cases "py_truthy (dict_get c ''controller_teams'' (YList []))")
    case False
    with r c show ?thesis
      by (simp add: teams_document_def key_value_def add_warning_additions)
  next
    case True
    with r obtain recs where "py_iter (dict_get c ''controller_teams'' (YList [])) = Inr recs"
      and "s' = apply_additions
              (records_additions (team_additions (environment s)) ''team(s)'' recs) s"
      by auto
    with True c show ?thesis
      by (simp add: teams_document_def records_of_def key_value_def)
  qed
qed

lemma validate_credentials_records:
  assumes "validate_credentials config s = Inr s'"
  shows "\<exists>c recs. config = YDict c
     \<and> py_iter (dict_get c ''controller_credentials'' (YList [])) = Inr recs
     \<and> s' = apply_additions
         (records_additions (credential_additions (environment s)) ''credential(s)'' recs) s"
proof -
  from assms obtain c where c: "config = YDict c"
    by (cases config) (simp_all add: validate_credentials_def and_then_def)
  with assms have run: "and_then (py_iter (dict_get c ''controller_credentials'' (YList [])))
      (\<lambda>recs. and_then (for_each credential_step recs s)
        (\<lambda>t. Inr (add_info ((\<lambda>n. ''Found '' @ str_nat n @ '' credential(s)'') (length recs)) t)))
      = Inr s'"
    by (simp add: validate_credentials_def and_then_Inr_left)
  from records_run_additions [where what = "''credential(s)''" and X = credential_additions
      and msg = "\<lambda>n. ''Found '' @ str_nat n @ '' credential(s)''", OF credential_step_additions run]
  have "\<exists>recs. py_iter (dict_get c ''controller_credentials'' (YList [])) = Inr recs
     \<and> s' = apply_additions
         (records_additions (credential_additions (environment s)) ''credential(s)'' recs) s"
    by (simp add: found_msg_def)
  with c show ?thesis by blast
qed

lemma validate_credentials_document:
  assumes "validate_credentials config s = Inr s'"
  shows "s' = apply_additions (credentials_document (environment s) config) s"
proof -
  from validate_credentials_records [OF assms] obtain c recs where "config = YDict c"
    and "py_iter (dict_get c ''controller_credentials'' (YList [])) = Inr recs"
    and "s' = apply_additions
         (records_additions (credential_additions (environment s)) ''credential(s)'' recs) s"
    by blast
  then show ?thesis
    by (simp add: credentials_document_def records_of_def key_value_def)
qed

lemma validate_execution_environments_records:
  assumes "validate_execution_environments config s = Inr s'"
  shows "\<exists>c recs. config = YDict c
     \<and> py_iter (dict_get c ''controller_execution_environments'' (YList [])) = Inr recs
     \<and> s' = apply_additions
         (records_additions (execution_environment_additions (environment s)) ''execution environment(s)'' recs) s"
proof -
  from assms obtain c where c: "config = YDict c"
    by (cases config) (simp_all add: validate_execution_environments_def and_then_def)
  with assms have run: "and_then (py_iter (dict_get c ''controller_execution_environments'' (YList [])))
      (\<lambda>recs. and_then (for_each execution_environment_step recs s)
        (\<lambda>t. Inr (add_info ((\<lambda>n. ''Found '' @ str_nat n @ '' execution environment(s)'') (length recs)) t)))
      = Inr s'"
    by (simp add: validate_execution_environments_def and_then_Inr_left)
  from records_run_additions [where what = "''execution environment(s)''" and X = execution_environment_additions
      and msg = "\<lambda>n. ''Found '' @ str_nat n @ '' execution environment(s)''", OF execution_environment_step_additions run]
  have "\<exists>recs. py_iter (dict_get c ''controller_execution_environments'' (YList [])) = Inr recs
     \<and> s' = apply_additions
         (records_additions (execution_environment_additions (environment s)) ''execution environment(s)'' recs) s"
    by (simp add: found_msg_def)
  with c show ?thesis by blast
qed

lemma validate_execution_environments_document:
  assumes "validate_execution_environments config s = Inr s'"
  shows "s' = apply_additions (execution_environments_document (environment s) config) s"
proof -
  from validate_execution_environments_records [OF assms] obtain c recs where "config = YDict c"
    and "py_iter (dict_get c ''controller_execution_environments'' (YList [])) = Inr recs"
    and "s' = apply_additions
         (records_additions (execution_environment_additions (environment s)) ''execution environment(s)'' recs) s"
    by blast
  then show ?thesis
    by (simp add: execution_environments_document_def records_of_def key_value_def)
qed

lemma validate_projects_records:
  assumes "validate_projects config s = Inr s'"
  shows "\<exists>c recs. config = YDict c
     \<and> py_iter (dict_get c ''controller_projects'' (YList [])) = Inr recs
     \<and> s' = apply_additions
         (records_additions (project_additions (environment s)) ''project(s)'' recs) s"
proof -
  from assms obtain c where c: "config = YDict c"
    by (cases config) (simp_all add: validate_projects_def and_then_def)
  with assms have run: "and_then (py_iter (dict_get c ''controller_projects'' (YList [])))
      (\<lambda>recs. and_then (for_each project_step recs s)
        (\<lambda>t. Inr (add_info ((\<lambda>n. ''Found '' @ str_nat n @ '' project(s)'') (length recs)) t)))
      = Inr s'"
    by (simp add: validate_projects_def and_then_Inr_left)
  from records_run_additions [where what = "''project(s)''" and X = project_additions
      and msg = "\<lambda>n. ''Found '' @ str_nat n @ '' project(s)''", OF project_step_additions run]
  have "\<exists>recs. py_iter (dict_get c ''controller_projects'' (YList [])) = Inr recs
     \<and> s' = apply_additions
         (records_additions (project_additions (environment s)) ''project(s)'' recs) s"
    by (simp add: found_msg_def)
  with c show ?thesis by blast
qed

lemma validate_projects_document:
  assumes "validate_projects config s = Inr s'"
  shows "s' = apply_additions (projects_document (environment s) config) s"
proof -
  from validate_projects_records [OF assms] obtain c recs where "config = YDict c"
    and "py_iter (dict_get c ''controller_projects'' (YList [])) = Inr recs"
    and "s' = apply_additions
         (records_additions (project_additions (environment s)) ''project(s)'' recs) s"
    by blast
  then show ?thesis
    by (simp add: projects_document_def records_of_def key_value_def)
qed

lemma validate_inventories_records:
  assumes "validate_inventories config s = Inr s'"
  shows "\<exists>c recs. config = YDict c
     \<and> py_iter (dict_get c ''controller_inventories'' (YList [])) = Inr recs
     \<and> s' = apply_additions
         (records_additions (inventory_additions (environment s)) ''inventor(y|ies)'' recs) s"
proof -
  from assms obtain c where c: "config = YDict c"
    by (cases config) (simp_all add: validate_inventories_def and_then_def)
  with assms have run: "and_then (py_iter (dict_get c ''controller_inventories'' (YList [])))
      (\<lambda>recs. and_then (for_each inventory_step recs s)
        (\<lambda>t. Inr (add_info ((\<lambda>n. ''Found '' @ str_nat n @ '' inventor(y|ies)'') (length recs)) t)))
      = Inr s'"
    by (simp add: validate_inventories_def and_then_Inr_left)
  from records_run_additions [where what = "''inventor(y|ies)''" and X = inventory_additions
      and msg = "\<lambda>n. ''Found '' @ str_nat n @ '' inventor(y|ies)''", OF inventory_step_additions run]
  have "\<exists>recs. py_iter (dict_get c ''controller_inventories'' (YList [])) = Inr recs
     \<and> s' = apply_additions
         (records_additions (inventory_additions (environment s)) ''inventor(y|ies)'' recs) s"
    by (simp add: found_msg_def)
  with c show ?thesis by blast
qed

lemma validate_inventories_document:
  assumes "validate_inventories config s = Inr s'"
  shows "s' = apply_additions (inventories_document (environment s) config) s"
proof -
  from validate_inventories_records [OF assms] obtain c recs where "config = YDict c"
    and "py_iter (dict_get c ''controller_inventories'' (YList [])) = Inr recs"
    and "s' = apply_additions
         (records_additions (inventory_additions (environment s)) ''inventor(y|ies)'' recs) s"
    by blast
  then show ?thesis
    by (simp add: inventories_document_def records_of_def key_value_def)
qed

lemma validate_job_templates_records:
  assumes "validate_job_templates config s = Inr s'"
  shows "\<exists>c recs. config = YDict c
     \<and> py_iter (dict_get c ''controller_templates'' (YList [])) = Inr recs
     \<and> s' = apply_additions
         (records_additions (job_template_additions (environment s)) ''job template(s)'' recs) s"
proof -
  from assms obtain c where c: "config = YDict c"
    by (cases config) (simp_all add: validate_job_templates_def and_then_def)
  with assms have run: "and_then (py_iter (dict_get c ''controller_templates'' (YList [])))
      (\<lambda>recs. and_then (for_each job_template_step recs s)
        (\<lambda>t. Inr (add_info ((\<lambda>n. ''Found '' @ str_nat n @ '' job template(s)'') (length recs)) t)))
      = Inr s'"
    by (simp add: validate_job_templates_def and_then_Inr_left)
  from records_run_additions [where what = "''job template(s)''" and X = job_template_additions
      and msg = "\<lambda>n. ''Found '' @ str_nat n @ '' job template(s)''", OF job_template_step_additions run]
  have "\<exists>recs. py_iter (dict_get c ''controller_templates'' (YList [])) = Inr recs
     \<and> s' = apply_additions
         (records_additions (job_template_additions (environment s)) ''job template(s)'' recs) s"
    by (simp add: found_msg_def)
  with c show ?thesis by blast
qed

lemma validate_job_templates_document:
  assumes "validate_job_templates config s = Inr s'"
  shows "s' = apply_additions (job_templates_document (environment s) config) s"
proof -
  from validate_job_templates_records [OF assms] obtain c recs where "config = YDict c"
    and "py_iter (dict_get c ''controller_templates'' (YList [])) = Inr recs"
    and "s' = apply_additions
         (records_additions (job_template_additions (environment s)) ''job template(s)'' recs) s"
    by blast
  then show ?thesis
    by (simp add: job_templates_document_def records_of_def key_value_def)
qed

lemma validate_workflow_templates_records:
  assumes "validate_workflow_templates config s = Inr s'"
  shows "\<exists>c recs. config = YDict c
     \<and> py_iter (dict_get c ''controller_workflows'' (YList [])) = Inr recs
     \<and> s' = apply_additions
         (records_additions (workflow_additions (environment s)) ''workflow template(s)'' recs) s"
proof -
  from assms obtain c where c: "config = YDict c"
    by (cases config) (simp_all add: validate_workflow_templates_def and_then_def)
  with assms have run: "and_then (py_iter (dict_get c ''controller_workflows'' (YList [])))
      (\<lambda>recs. and_then (for_each workflow_step recs s)
        (\<lambda>t. Inr (add_info ((\<lambda>n. ''Found '' @ str_nat n @ '' workflow template(s)'') (length recs)) t)))
      = Inr s'"
    by (simp add: validate_workflow_templates_def and_then_Inr_left)
  from records_run_additions [where what = "''workflow template(s)''" and X = workflow_additions
      and msg = "\<lambda>n. ''Found '' @ str_nat n @ '' workflow template(s)''", OF workflow_step_additions run]
  have "\<exists>recs. py_iter (dict_get c ''controller_workflows'' (YList [])) = Inr recs
     \<and> s' = apply_additions
         (records_additions (workflow_additions (environment s)) ''workflow template(s)'' recs) s"
    by (simp add: found_msg_def)
  with c show ?thesis by blast
qed

lemma validate_workflow_templates_document:
  assumes "validate_workflow_templates config s = Inr s'"
  shows "s' = apply_additions (workflow_templates_document (environment s) config) s"
proof -
  from validate_workflow_templates_records [OF assms] obtain c recs where "config = YDict c"
    and "py_iter (dict_get c ''controller_workflows'' (YList [])) = Inr recs"
    and "s' = apply_additions
         (records_additions (workflow_additions (environment s)) ''workflow template(s)'' recs) s"
    by blast
  then show ?thesis
    by (simp add: workflow_templates_document_def records_of_def key_value_def)
qed

lemma validate_schedules_records:
  assumes "validate_schedules config s = Inr s'"
  shows "\<exists>c recs. config = YDict c
     \<and> py_iter (dict_get c ''controller_schedules'' (YList [])) = Inr recs
     \<and> s' = apply_additions
         (records_additions (schedule_additions (environment s)) ''schedule(s)'' recs) s"
proof -
  from assms obtain c where c: "config = YDict c"
    by (cases config) (simp_all add: validate_schedules_def and_then_def)
  with assms have run: "and_then (py_iter (dict_get c ''controller_schedules'' (YList [])))
      (\<lambda>recs. and_then (for_each schedule_step recs s)
        (\<lambda>t. Inr (add_info ((\<lambda>n. ''Found '' @ str_nat n @ '' schedule(s)'') (length recs)) t)))
      = Inr s'"
    by (simp add: validate_schedules_def and_then_Inr_left)
  from records_run_additions [where what = "''schedule(s)''" and X = schedule_additions
      and msg = "\<lambda>n. ''Found '' @ str_nat n @ '' schedule(s)''", OF schedule_step_additions run]
  have "\<exists>recs. py_iter (dict_get c ''controller_schedules'' (YList [])) = Inr recs
     \<and> s' = apply_additions
         (records_additions (schedule_additions (environment s)) ''schedule(s)'' recs) s"
    by (simp add: found_msg_def)
  with c show ?thesis by blast
qed

lemma validate_schedules_document:
  assumes "validate_schedules config s = Inr s'"
  shows "s' = apply_additions (schedules_document (environment s) config) s"
proof -
  from validate_schedules_records [OF assms] obtain c recs where "config = YDict c"
    and "py_iter (dict_get c ''controller_schedules'' (YList [])) = Inr recs"
    and "s' = apply_additions
         (records_additions (schedule_additions (environment s)) ''schedule(s)'' recs) s"
    by blast
  then show ?thesis
    by (simp add: schedules_document_def records_of_def key_value_def)
qed

subsection \<open>The files of one environment\<close>





subsection \<open>Sets of names\<close>

lemma set_member_Nil [simp]: "\<not> set_member n []"
  by (simp add: set_member_def)

lemma add_all_Cons:
  "add_all (v # vs) s = add_all vs (if set_member v s then s else s @ [v])"
  by (simp add: add_all_def)

lemma keys_add_all: "py_key ` set (add_all vs s) = py_key ` set s \<union> py_key ` set vs"
proof (induction vs arbitrary: s)
  case Nil
  then show ?case by simp
next
  case (Cons v vs)
  show ?case
  proof (cases "set_member v s")
    case True
    then have "py_key v \<in> py_key ` set s" by (simp add: set_member_def)
    with True show ?thesis by (auto simp: add_all_Cons Cons.IH)
  next
    case False
    then show ?thesis by (auto simp: add_all_Cons Cons.IH)
  qed
qed






lemma concat_additions_fields:
  "new_errors (concat_additions xs) = concat (map new_errors xs)"
  "new_warnings (concat_additions xs) = concat (map new_warnings xs)"
  "new_info (concat_additions xs) = concat (map new_info xs)"
  "new_defined_credentials (concat_additions xs) = concat (map new_defined_credentials xs)"
  "new_defined_projects (concat_additions xs) = concat (map new_defined_projects xs)"
  "new_defined_inventories (concat_additions xs) = concat (map new_defined_inventories xs)"
  "new_defined_ees (concat_additions xs) = concat (map new_defined_ees xs)"
  "new_defined_organizations (concat_additions xs) = concat (map new_defined_organizations xs)"
  "new_defined_teams (concat_additions xs) = concat (map new_defined_teams xs)"
  "new_referenced_credentials (concat_additions xs) = concat (map new_referenced_credentials xs)"
  "new_referenced_projects (concat_additions xs) = concat (map new_referenced_projects xs)"
  "new_referenced_inventories (concat_additions xs) = concat (map new_referenced_inventories xs)"
  "new_referenced_ees (concat_additions xs) = concat (map new_referenced_ees xs)"
  by (induction xs)
     (simp_all add: concat_additions_def append_additions_def no_additions_def)

subsection \<open>What a document adds to each list and set\<close>

lemma apply_additions_fields:
  "base_path (apply_additions x s) = base_path s"
  "errors (apply_additions x s) = errors s @ new_errors x"
  "warnings (apply_additions x s) = warnings s @ new_warnings x"
  "info (apply_additions x s) = info s @ new_info x"
  "defined_credentials (apply_additions x s) = add_all (new_defined_credentials x) (defined_credentials s)"
  "defined_projects (apply_additions x s) = add_all (new_defined_projects x) (defined_projects s)"
  "defined_inventories (apply_additions x s) = add_all (new_defined_inventories x) (defined_inventories s)"
  "defined_ees (apply_additions x s) = add_all (new_defined_ees x) (defined_ees s)"
  "defined_organizations (apply_additions x s) = add_all (new_defined_organizations x) (defined_organizations s)"
  "defined_teams (apply_additions x s) = add_all (new_defined_teams x) (defined_teams s)"
  "referenced_credentials (apply_additions x s) = add_all (new_referenced_credentials x) (referenced_credentials s)"
  "referenced_projects (apply_additions x s) = add_all (new_referenced_projects x) (referenced_projects s)"
  "referenced_inventories (apply_additions x s) = add_all (new_referenced_inventories x) (referenced_inventories s)"
  "referenced_ees (apply_additions x s) = add_all (new_referenced_ees x) (referenced_ees s)"
  by (simp_all add: apply_additions_def)

lemma on_record_Nil [simp]: "on_record (\<lambda>d. []) r = []"
  by (cases r) (simp_all add: on_record_def)

lemma record_additions_fields:
  "new_errors (record_additions f r) = on_record (\<lambda>d. new_errors (f d)) r"
  "new_warnings (record_additions f r) = on_record (\<lambda>d. new_warnings (f d)) r"
  "new_info (record_additions f r) = on_record (\<lambda>d. new_info (f d)) r"
  "new_defined_credentials (record_additions f r) = on_record (\<lambda>d. new_defined_credentials (f d)) r"
  "new_defined_projects (record_additions f r) = on_record (\<lambda>d. new_defined_projects (f d)) r"
  "new_defined_inventories (record_additions f r) = on_record (\<lambda>d. new_defined_inventories (f d)) r"
  "new_defined_ees (record_additions f r) = on_record (\<lambda>d. new_defined_ees (f d)) r"
  "new_defined_organizations (record_additions f r) = on_record (\<lambda>d. new_defined_organizations (f d)) r"
  "new_defined_teams (record_additions f r) = on_record (\<lambda>d. new_defined_teams (f d)) r"
  "new_referenced_credentials (record_additions f r) = on_record (\<lambda>d. new_referenced_credentials (f d)) r"
  "new_referenced_projects (record_additions f r) = on_record (\<lambda>d. new_referenced_projects (f d)) r"
  "new_referenced_inventories (record_additions f r) = on_record (\<lambda>d. new_referenced_inventories (f d)) r"
  "new_referenced_ees (record_additions f r) = on_record (\<lambda>d. new_referenced_ees (f d)) r"
  by (cases r; simp add: record_additions_def on_record_def no_additions_def)+

lemma records_additions_fields:
  "new_errors (records_additions f what recs)
     = concat (map (on_record (\<lambda>d. new_errors (f d))) recs)"
  "new_warnings (records_additions f what recs)
     = concat (map (on_record (\<lambda>d. new_warnings (f d))) recs)"
  "new_info (records_additions f what recs)
     = concat (map (on_record (\<lambda>d. new_info (f d))) recs) @ [found_msg (length recs) what]"
  "new_defined_credentials (records_additions f what recs)
     = concat (map (on_record (\<lambda>d. new_defined_credentials (f d))) recs)"
  "new_defined_projects (records_additions f what recs)
     = concat (map (on_record (\<lambda>d. new_defined_projects (f d))) recs)"
  "new_defined_inventories (records_additions f what recs)
     = concat (map (on_record (\<lambda>d. new_defined_inventories (f d))) recs)"
  "new_defined_ees (records_additions f what recs)
     = concat (map (on_record (\<lambda>d. new_defined_ees (f d))) recs)"
  "new_defined_organizations (records_additions f what recs)
     = concat (map (on_record (\<lambda>d. new_defined_organizations (f d))) recs)"
  "new_defined_teams (records_additions f what recs)
     = concat (map (on_record (\<lambda>d. new_defined_teams (f d))) recs)"
  "new_referenced_credentials (records_additions f what recs)
     = concat (map (on_record (\<lambda>d. new_referenced_credentials (f d))) recs)"
  "new_referenced_projects (records_additions f what recs)
     = concat (map (on_record (\<lambda>d. new_referenced_projects (f d))) recs)"
  "new_referenced_inventories (records_additions f what recs)
     = concat (map (on_record (\<lambda>d. new_referenced_inventories (f d))) recs)"
  "new_referenced_ees (records_additions f what recs)
     = concat (map (on_record (\<lambda>d. new_referenced_ees (f d))) recs)"
  by (simp_all add: records_additions_def append_additions_def concat_additions_fields
        no_additions_def comp_def record_additions_fields)

lemma falsy_records: "\<not> py_truthy (key_value config key) \<Longrightarrow> records_of config key = []"
  by (cases "key_value config key") (simp_all add: records_of_def)

lemma member_of_record:
  "YDict d \<in> set recs \<Longrightarrow> v \<in> set (f d) \<Longrightarrow> v \<in> set (concat (map (on_record f) recs))"
  by (auto simp: on_record_def intro!: bexI [where x = "YDict d"])

lemma set_member_added: "v \<in> set vs \<Longrightarrow> set_member v (add_all vs xs)"
  by (simp add: set_member_def keys_add_all)

lemma required_errors_member:
  "(k, m) \<in> set table \<Longrightarrow> \<not> dict_has d k \<Longrightarrow> m \<in> set (required_errors table d)"
  by (force simp: required_errors_def)

lemma validate_organizations_errors:
  "validate_organizations config s = Inr s'
     \<Longrightarrow> errors s' = errors s @ concat (map (on_record organization_errors) (records_of config ''controller_organizations''))"
  by (drule validate_organizations_document, cases "py_truthy (key_value config ''controller_organizations'')")
     (simp_all add: apply_additions_fields organizations_document_def records_additions_fields
        organization_additions_def no_additions_def falsy_records)

lemma validate_organizations_defined:
  "validate_organizations config s = Inr s'
     \<Longrightarrow> defined_organizations s' = add_all (concat (map (on_record (\<lambda>d. [record_name d]))
           (records_of config ''controller_organizations''))) (defined_organizations s)"
  by (drule validate_organizations_document, cases "py_truthy (key_value config ''controller_organizations'')")
     (simp_all add: apply_additions_fields organizations_document_def records_additions_fields
        organization_additions_def no_additions_def falsy_records)

lemma validate_teams_errors:
  "validate_teams config s = Inr s'
     \<Longrightarrow> errors s' = errors s @ concat (map (on_record team_errors) (records_of config ''controller_teams''))"
  by (drule validate_teams_document, cases "py_truthy (key_value config ''controller_teams'')")
     (simp_all add: apply_additions_fields teams_document_def records_additions_fields
        team_additions_def no_additions_def falsy_records)

lemma validate_teams_defined:
  "validate_teams config s = Inr s'
     \<Longrightarrow> defined_teams s' = add_all (concat (map (on_record (\<lambda>d. [record_name d]))
           (records_of config ''controller_teams''))) (defined_teams s)"
  by (drule validate_teams_document, cases "py_truthy (key_value config ''controller_teams'')")
     (simp_all add: apply_additions_fields teams_document_def records_additions_fields
        team_additions_def no_additions_def falsy_records)

lemma validate_credentials_errors:
  "validate_credentials config s = Inr s'
     \<Longrightarrow> errors s' = errors s @ concat (map (on_record credential_errors) (records_of config ''controller_credentials''))"
  by (drule validate_credentials_document)
     (simp add: apply_additions_fields credentials_document_def records_additions_fields
        credential_additions_def no_additions_def)

lemma validate_credentials_defined:
  "validate_credentials config s = Inr s'
     \<Longrightarrow> defined_credentials s' = add_all (concat (map (on_record (\<lambda>d. [record_name d]))
           (records_of config ''controller_credentials''))) (defined_credentials s)"
  by (drule validate_credentials_document)
     (simp add: apply_additions_fields credentials_document_def records_additions_fields
        credential_additions_def no_additions_def)

lemma validate_execution_environments_errors:
  "validate_execution_environments config s = Inr s'
     \<Longrightarrow> errors s' = errors s @ concat (map (on_record execution_environment_errors) (records_of config ''controller_execution_environments''))"
  by (drule validate_execution_environments_document)
     (simp add: apply_additions_fields execution_environments_document_def records_additions_fields
        execution_environment_additions_def no_additions_def)

lemma validate_execution_environments_warnings:
  "validate_execution_environments config s = Inr s'
     \<Longrightarrow> warnings s' = warnings s
           @ concat (map (on_record (execution_environment_warnings (environment s))) (records_of config ''controller_execution_environments''))"
  by (drule validate_execution_environments_document)
     (simp add: apply_additions_fields execution_environments_document_def records_additions_fields
        execution_environment_additions_def no_additions_def)

lemma validate_execution_environments_defined:
  "validate_execution_environments config s = Inr s'
     \<Longrightarrow> defined_ees s' = add_all (concat (map (on_record (\<lambda>d. [record_name d]))
           (records_of config ''controller_execution_environments''))) (defined_ees s)"
  by (drule validate_execution_environments_document)
     (simp add: apply_additions_fields execution_environments_document_def records_additions_fields
        execution_environment_additions_def no_additions_def)

lemma validate_projects_errors:
  "validate_projects config s = Inr s'
     \<Longrightarrow> errors s' = errors s @ concat (map (on_record project_errors) (records_of config ''controller_projects''))"
  by (drule validate_projects_document)
     (simp add: apply_additions_fields projects_document_def records_additions_fields
        project_additions_def no_additions_def)

lemma validate_projects_defined:
  "validate_projects config s = Inr s'
     \<Longrightarrow> defined_projects s' = add_all (concat (map (on_record (\<lambda>d. [record_name d]))
           (records_of config ''controller_projects''))) (defined_projects s)"
  by (drule validate_projects_document)
     (simp add: apply_additions_fields projects_document_def records_additions_fields
        project_additions_def no_additions_def)

lemma validate_inventories_errors:
  "validate_inventories config s = Inr s'
     \<Longrightarrow> errors s' = errors s @ concat (map (on_record inventory_errors) (records_of config ''controller_inventories''))"
  by (drule validate_inventories_document)
     (simp add: apply_additions_fields inventories_document_def records_additions_fields
        inventory_additions_def no_additions_def)

lemma validate_inventories_defined:
  "validate_inventories config s = Inr s'
     \<Longrightarrow> defined_inventories s' = add_all (concat (map (on_record (\<lambda>d. [record_name d]))
           (records_of config ''controller_inventories''))) (defined_inventories s)"
  by (drule validate_inventories_document)
     (simp add: apply_additions_fields inventories_document_def records_additions_fields
        inventory_additions_def no_additions_def)

lemma validate_job_templates_errors:
  "validate_job_templates config s = Inr s'
     \<Longrightarrow> errors s' = errors s @ concat (map (on_record job_template_errors) (records_of config ''controller_templates''))"
  by (drule validate_job_templates_document)
     (simp add: apply_additions_fields job_templates_document_def records_additions_fields
        job_template_additions_def no_additions_def)

lemma validate_workflow_templates_errors:
  "validate_workflow_templates config s = Inr s'
     \<Longrightarrow> errors s' = errors s @ concat (map (on_record workflow_errors) (records_of config ''controller_workflows''))"
  by (drule validate_workflow_templates_document)
     (simp add: apply_additions_fields workflow_templates_document_def records_additions_fields
        workflow_additions_def no_additions_def)

lemma validate_schedules_errors:
  "validate_schedules config s = Inr s'
     \<Longrightarrow> errors s' = errors s @ concat (map (on_record schedule_errors) (records_of config ''controller_schedules''))"
  by (drule validate_schedules_document)
     (simp add: apply_additions_fields schedules_document_def records_additions_fields
        schedule_additions_def no_additions_def)

lemma validate_job_templates_referenced:
  assumes "validate_job_templates config s = Inr s'"
  shows "referenced_projects s' = add_all (concat (map (on_record (\<lambda>d. field_values d ''project''))
           (records_of config ''controller_templates''))) (referenced_projects s)"
    and "referenced_inventories s' = add_all (concat (map (on_record (\<lambda>d. field_values d ''inventory''))
           (records_of config ''controller_templates''))) (referenced_inventories s)"
  using validate_job_templates_document [OF assms]
  by (simp_all add: apply_additions_fields job_templates_document_def records_additions_fields
        job_template_additions_def no_additions_def)

lemma records_of_dict:
  "py_iter (dict_get c key (YList [])) = Inr recs \<Longrightarrow> records_of (YDict c) key = recs"
  by (simp add: records_of_def key_value_def)

subsection \<open>The findings of one record\<close>

lemma credential_errors_count:
  assumes "dict_get d ''inputs'' (YDict []) = YDict inputs"
    and "field \<in> set sensitive_fields"
    and "map_of inputs field = Some v"
  shows "count_list (credential_errors d) (unencrypted_msg (record_name d) field)
     = (if \<not> prefix ''{{ '' (py_str v) \<and> \<not> prefix ''!vault'' (py_str v) then 1 else 0)"
proof -
  let ?n = "record_name d"
  define c where "c f = (case map_of inputs f of None \<Rightarrow> False
      | Some v \<Rightarrow> \<not> prefix ''{{ '' (py_str v) \<and> \<not> prefix ''!vault'' (py_str v))" for f
  have se: "secret_errors ?n (YDict inputs) g = (if c g then [unencrypted_msg ?n g] else [])" for g
    by (simp add: secret_errors_def c_def plaintext_def split: option.splits)
  have req: "count_list (required_errors (credential_required ?n) d) (unencrypted_msg ?n field) = 0"
    by (simp add: required_errors_def credential_required_def unencrypted_msg_def quoted_def)
  have cf: "c field = (\<not> prefix ''{{ '' (py_str v) \<and> \<not> prefix ''!vault'' (py_str v))"
    by (simp add: c_def assms(3))
  have "count_list (concat (map (secret_errors ?n (YDict inputs)) sensitive_fields))
      (unencrypted_msg ?n field) = (if c field then 1 else 0)"
    using assms(2) unfolding sensitive_fields_def se
    by (auto simp only: list.map concat.simps append_Nil2 count_list_append
          count_list_if_single unencrypted_msg_inj set_simps insert_iff empty_iff)
       (simp_all add: unencrypted_msg_def quoted_def)
  with req cf show ?thesis
    by (simp add: credential_errors_def assms(1))
qed

lemma execution_environment_findings:
  assumes "map_of d ''image'' = Some (YStr img)"
  shows "count_list (execution_environment_errors d) (latest_msg (record_name d))
       = (if sublist '':latest'' img then 1 else 0)"
    and "execution_environment_warnings env d
       = (if \<not> sublist ''@sha256:'' img \<and> env = Some ''prod''
          then [digest_msg (record_name d)] else [])"
  using assms
  by (simp_all add: execution_environment_errors_def execution_environment_warnings_def
        required_errors_def execution_environment_required_def dict_has_def
        latest_msg_def quoted_def)

lemma job_template_errors_count:
  "count_list (job_template_errors d) (missing_project_msg (record_name d))
     = (if dict_has d ''project'' then 0 else 1)"
  "count_list (job_template_errors d) (missing_inventory_msg (record_name d))
     = (if dict_has d ''inventory'' then 0 else 1)"
  by (simp_all add: job_template_errors_def required_errors_def job_template_required_def
        missing_project_msg_def missing_inventory_msg_def quoted_def)

subsection \<open>Records without a name\<close>

lemma organization_errors_unnamed:
  "\<not> dict_has d ''name''
     \<Longrightarrow> organization_errors d = ''Organization missing 'name' field'' # organization_errors ((''name'', YStr ''unnamed'') # d)"
  by (simp add: organization_errors_def required_errors_def organization_required_def record_name_def
        dict_has_def dict_get_def)

lemma team_errors_unnamed:
  "\<not> dict_has d ''name''
     \<Longrightarrow> team_errors d = ''Team missing 'name' field'' # team_errors ((''name'', YStr ''unnamed'') # d)"
  by (simp add: team_errors_def required_errors_def team_required_def record_name_def
        dict_has_def dict_get_def)

lemma credential_errors_unnamed:
  "\<not> dict_has d ''name''
     \<Longrightarrow> credential_errors d = ''Credential missing 'name' field'' # credential_errors ((''name'', YStr ''unnamed'') # d)"
  by (simp add: credential_errors_def required_errors_def credential_required_def record_name_def
        dict_has_def dict_get_def)

lemma execution_environment_errors_unnamed:
  "\<not> dict_has d ''name''
     \<Longrightarrow> execution_environment_errors d = ''Execution Environment missing 'name' field'' # execution_environment_errors ((''name'', YStr ''unnamed'') # d)"
  by (simp add: execution_environment_errors_def required_errors_def
        execution_environment_required_def record_name_def dict_has_def dict_get_def
        split: option.splits)

lemma project_errors_unnamed:
  "\<not> dict_has d ''name''
     \<Longrightarrow> project_errors d = ''Project missing 'name' field'' # project_errors ((''name'', YStr ''unnamed'') # d)"
  by (simp add: project_errors_def required_errors_def project_required_def record_name_def
        dict_has_def dict_get_def)

lemma inventory_errors_unnamed:
  "\<not> dict_has d ''name''
     \<Longrightarrow> inventory_errors d = ''Inventory missing 'name' field'' # inventory_errors ((''name'', YStr ''unnamed'') # d)"
  by (simp add: inventory_errors_def required_errors_def inventory_required_def record_name_def
        dict_has_def dict_get_def)

lemma job_template_errors_unnamed:
  "\<not> dict_has d ''name''
     \<Longrightarrow> job_template_errors d = ''Job Template missing 'name' field'' # job_template_errors ((''name'', YStr ''unnamed'') # d)"
  by (simp add: job_template_errors_def required_errors_def job_template_required_def record_name_def
        dict_has_def dict_get_def)

lemma workflow_errors_unnamed:
  "\<not> dict_has d ''name''
     \<Longrightarrow> workflow_errors d = ''Workflow Template missing 'name' field'' # workflow_errors ((''name'', YStr ''unnamed'') # d)"
  by (simp add: workflow_errors_def required_errors_def workflow_required_def record_name_def
        dict_has_def dict_get_def)

lemma schedule_errors_unnamed:
  "\<not> dict_has d ''name''
     \<Longrightarrow> schedule_errors d = ''Schedule missing 'name' field'' # schedule_errors ((''name'', YStr ''unnamed'') # d)"
  by (simp add: schedule_errors_def required_errors_def schedule_required_def record_name_def
        dict_has_def dict_get_def)

lemma record_name_unnamed: "\<not> dict_has d ''name'' \<Longrightarrow> record_name d = YStr ''unnamed''"
  by (simp add: record_name_def dict_get_absent)

lemma unnamed_messages:
  assumes "\<not> dict_has d ''name''"
  shows "\<not> dict_has d ''description''
      \<Longrightarrow> ''Organization 'unnamed' missing description'' \<in> set (organization_warnings d)"
    and "\<not> dict_has d ''organization''
      \<Longrightarrow> ''Team 'unnamed' missing organization reference'' \<in> set (team_errors d)"
    and "\<not> dict_has d ''credential_type''
      \<Longrightarrow> ''Credential 'unnamed' missing credential_type'' \<in> set (credential_errors d)"
    and "\<not> dict_has d ''image''
      \<Longrightarrow> ''Execution Environment 'unnamed' missing image''
          \<in> set (execution_environment_errors d)"
    and "\<not> dict_has d ''scm_url''
      \<Longrightarrow> ''Project 'unnamed' missing scm_url'' \<in> set (project_errors d)"
    and "\<not> dict_has d ''organization''
      \<Longrightarrow> ''Inventory 'unnamed' missing organization'' \<in> set (inventory_errors d)"
    and "\<not> dict_has d ''playbook''
      \<Longrightarrow> ''Job Template 'unnamed' missing playbook'' \<in> set (job_template_errors d)"
    and "\<not> dict_has d ''simplified_workflow_nodes'' \<and> \<not> dict_has d ''workflow_nodes''
      \<Longrightarrow> ''Workflow Template 'unnamed' has no workflow nodes defined''
          \<in> set (workflow_warnings d)"
    and "\<not> dict_has d ''rrule''
      \<Longrightarrow> ''Schedule 'unnamed' missing rrule'' \<in> set (schedule_errors d)"
  using assms
  by (simp_all add: record_name_unnamed quoted_def required_errors_def
        organization_warnings_def team_errors_def team_required_def
        credential_errors_def credential_required_def
        execution_environment_errors_def execution_environment_required_def
        project_errors_def project_required_def inventory_errors_def inventory_required_def
        job_template_errors_def job_template_required_def workflow_warnings_def
        schedule_errors_def schedule_required_def)

subsection \<open>A record without a name against the same record named \<open>unnamed\<close>\<close>

lemma organization_additions_unnamed:
  assumes "\<not> dict_has d ''name''"
  shows "organization_additions env d
     = (organization_additions env ((''name'', YStr ''unnamed'') # d))
         \<lparr>new_errors := ''Organization missing 'name' field'' # organization_errors ((''name'', YStr ''unnamed'') # d)\<rparr>"
proof -
  have n: "record_name ((''name'', YStr ''unnamed'') # d) = record_name d"
    using assms by (simp add: record_name_def dict_get_def dict_has_def)
  have h: "dict_has ((''name'', YStr ''unnamed'') # d) k = dict_has d k" if "k \<noteq> ''name''" for k
    using that by (simp add: dict_has_def)
  have m: "map_of ((''name'', YStr ''unnamed'') # d) k = map_of d k" if "k \<noteq> ''name''" for k
    using that by simp
  have g: "dict_get ((''name'', YStr ''unnamed'') # d) k v = dict_get d k v" if "k \<noteq> ''name''" for k v
    using that by (simp add: dict_get_def)
  show ?thesis
    unfolding organization_additions_def organization_errors_unnamed [OF assms] organization_warnings_def field_values_def n
    by (simp add: h m g del: map_of.simps)
qed

lemma validate_organizations_unnamed_defined:
  assumes "validate_organizations config s = Inr s'" and "YDict d \<in> set (records_of config ''controller_organizations'')"
    and "\<not> dict_has d ''name''"
  shows "set_member (YStr ''unnamed'') (defined_organizations s')"
proof -
  have "record_name d \<in> set [record_name d]" by simp
  from member_of_record [OF assms(2), of "record_name d" "\<lambda>d. [record_name d]", OF this]
  have "set_member (record_name d) (defined_organizations s')"
    unfolding validate_organizations_defined [OF assms(1)] by (rule set_member_added)
  with assms(3) show ?thesis by (simp add: record_name_unnamed)
qed

lemma team_additions_unnamed:
  assumes "\<not> dict_has d ''name''"
  shows "team_additions env d
     = (team_additions env ((''name'', YStr ''unnamed'') # d))
         \<lparr>new_errors := ''Team missing 'name' field'' # team_errors ((''name'', YStr ''unnamed'') # d)\<rparr>"
proof -
  have n: "record_name ((''name'', YStr ''unnamed'') # d) = record_name d"
    using assms by (simp add: record_name_def dict_get_def dict_has_def)
  have h: "dict_has ((''name'', YStr ''unnamed'') # d) k = dict_has d k" if "k \<noteq> ''name''" for k
    using that by (simp add: dict_has_def)
  have m: "map_of ((''name'', YStr ''unnamed'') # d) k = map_of d k" if "k \<noteq> ''name''" for k
    using that by simp
  have g: "dict_get ((''name'', YStr ''unnamed'') # d) k v = dict_get d k v" if "k \<noteq> ''name''" for k v
    using that by (simp add: dict_get_def)
  show ?thesis
    unfolding team_additions_def team_errors_unnamed [OF assms] team_warnings_def field_values_def n
    by (simp add: h m g del: map_of.simps)
qed

lemma validate_teams_unnamed_defined:
  assumes "validate_teams config s = Inr s'" and "YDict d \<in> set (records_of config ''controller_teams'')"
    and "\<not> dict_has d ''name''"
  shows "set_member (YStr ''unnamed'') (defined_teams s')"
proof -
  have "record_name d \<in> set [record_name d]" by simp
  from member_of_record [OF assms(2), of "record_name d" "\<lambda>d. [record_name d]", OF this]
  have "set_member (record_name d) (defined_teams s')"
    unfolding validate_teams_defined [OF assms(1)] by (rule set_member_added)
  with assms(3) show ?thesis by (simp add: record_name_unnamed)
qed

lemma credential_additions_unnamed:
  assumes "\<not> dict_has d ''name''"
  shows "credential_additions env d
     = (credential_additions env ((''name'', YStr ''unnamed'') # d))
         \<lparr>new_errors := ''Credential missing 'name' field'' # credential_errors ((''name'', YStr ''unnamed'') # d)\<rparr>"
proof -
  have n: "record_name ((''name'', YStr ''unnamed'') # d) = record_name d"
    using assms by (simp add: record_name_def dict_get_def dict_has_def)
  have h: "dict_has ((''name'', YStr ''unnamed'') # d) k = dict_has d k" if "k \<noteq> ''name''" for k
    using that by (simp add: dict_has_def)
  have m: "map_of ((''name'', YStr ''unnamed'') # d) k = map_of d k" if "k \<noteq> ''name''" for k
    using that by simp
  have g: "dict_get ((''name'', YStr ''unnamed'') # d) k v = dict_get d k v" if "k \<noteq> ''name''" for k v
    using that by (simp add: dict_get_def)
  show ?thesis
    unfolding credential_additions_def credential_errors_unnamed [OF assms]  field_values_def n
    by (simp add: h m g del: map_of.simps)
qed

lemma validate_credentials_unnamed_defined:
  assumes "validate_credentials config s = Inr s'" and "YDict d \<in> set (records_of config ''controller_credentials'')"
    and "\<not> dict_has d ''name''"
  shows "set_member (YStr ''unnamed'') (defined_credentials s')"
proof -
  have "record_name d \<in> set [record_name d]" by simp
  from member_of_record [OF assms(2), of "record_name d" "\<lambda>d. [record_name d]", OF this]
  have "set_member (record_name d) (defined_credentials s')"
    unfolding validate_credentials_defined [OF assms(1)] by (rule set_member_added)
  with assms(3) show ?thesis by (simp add: record_name_unnamed)
qed

lemma execution_environment_additions_unnamed:
  assumes "\<not> dict_has d ''name''"
  shows "execution_environment_additions env d
     = (execution_environment_additions env ((''name'', YStr ''unnamed'') # d))
         \<lparr>new_errors := ''Execution Environment missing 'name' field'' # execution_environment_errors ((''name'', YStr ''unnamed'') # d)\<rparr>"
proof -
  have n: "record_name ((''name'', YStr ''unnamed'') # d) = record_name d"
    using assms by (simp add: record_name_def dict_get_def dict_has_def)
  have h: "dict_has ((''name'', YStr ''unnamed'') # d) k = dict_has d k" if "k \<noteq> ''name''" for k
    using that by (simp add: dict_has_def)
  have m: "map_of ((''name'', YStr ''unnamed'') # d) k = map_of d k" if "k \<noteq> ''name''" for k
    using that by simp
  have g: "dict_get ((''name'', YStr ''unnamed'') # d) k v = dict_get d k v" if "k \<noteq> ''name''" for k v
    using that by (simp add: dict_get_def)
  show ?thesis
    unfolding execution_environment_additions_def execution_environment_errors_unnamed [OF assms] execution_environment_warnings_def field_values_def n
    by (simp add: h m g del: map_of.simps)
qed

lemma validate_execution_environments_unnamed_defined:
  assumes "validate_execution_environments config s = Inr s'" and "YDict d \<in> set (records_of config ''controller_execution_environments'')"
    and "\<not> dict_has d ''name''"
  shows "set_member (YStr ''unnamed'') (defined_ees s')"
proof -
  have "record_name d \<in> set [record_name d]" by simp
  from member_of_record [OF assms(2), of "record_name d" "\<lambda>d. [record_name d]", OF this]
  have "set_member (record_name d) (defined_ees s')"
    unfolding validate_execution_environments_defined [OF assms(1)] by (rule set_member_added)
  with assms(3) show ?thesis by (simp add: record_name_unnamed)
qed

lemma project_additions_unnamed:
  assumes "\<not> dict_has d ''name''"
  shows "project_additions env d
     = (project_additions env ((''name'', YStr ''unnamed'') # d))
         \<lparr>new_errors := ''Project missing 'name' field'' # project_errors ((''name'', YStr ''unnamed'') # d)\<rparr>"
proof -
  have n: "record_name ((''name'', YStr ''unnamed'') # d) = record_name d"
    using assms by (simp add: record_name_def dict_get_def dict_has_def)
  have h: "dict_has ((''name'', YStr ''unnamed'') # d) k = dict_has d k" if "k \<noteq> ''name''" for k
    using that by (simp add: dict_has_def)
  have m: "map_of ((''name'', YStr ''unnamed'') # d) k = map_of d k" if "k \<noteq> ''name''" for k
    using that by simp
  have g: "dict_get ((''name'', YStr ''unnamed'') # d) k v = dict_get d k v" if "k \<noteq> ''name''" for k v
    using that by (simp add: dict_get_def)
  show ?thesis
    unfolding project_additions_def project_errors_unnamed [OF assms] project_warnings_def field_values_def n
    by (simp add: h m g del: map_of.simps)
qed

lemma validate_projects_unnamed_defined:
  assumes "validate_projects config s = Inr s'" and "YDict d \<in> set (records_of config ''controller_projects'')"
    and "\<not> dict_has d ''name''"
  shows "set_member (YStr ''unnamed'') (defined_projects s')"
proof -
  have "record_name d \<in> set [record_name d]" by simp
  from member_of_record [OF assms(2), of "record_name d" "\<lambda>d. [record_name d]", OF this]
  have "set_member (record_name d) (defined_projects s')"
    unfolding validate_projects_defined [OF assms(1)] by (rule set_member_added)
  with assms(3) show ?thesis by (simp add: record_name_unnamed)
qed

lemma inventory_additions_unnamed:
  assumes "\<not> dict_has d ''name''"
  shows "inventory_additions env d
     = (inventory_additions env ((''name'', YStr ''unnamed'') # d))
         \<lparr>new_errors := ''Inventory missing 'name' field'' # inventory_errors ((''name'', YStr ''unnamed'') # d)\<rparr>"
proof -
  have n: "record_name ((''name'', YStr ''unnamed'') # d) = record_name d"
    using assms by (simp add: record_name_def dict_get_def dict_has_def)
  have h: "dict_has ((''name'', YStr ''unnamed'') # d) k = dict_has d k" if "k \<noteq> ''name''" for k
    using that by (simp add: dict_has_def)
  have m: "map_of ((''name'', YStr ''unnamed'') # d) k = map_of d k" if "k \<noteq> ''name''" for k
    using that by simp
  have g: "dict_get ((''name'', YStr ''unnamed'') # d) k v = dict_get d k v" if "k \<noteq> ''name''" for k v
    using that by (simp add: dict_get_def)
  show ?thesis
    unfolding inventory_additions_def inventory_errors_unnamed [OF assms]  field_values_def n
    by (simp add: h m g del: map_of.simps)
qed

lemma validate_inventories_unnamed_defined:
  assumes "validate_inventories config s = Inr s'" and "YDict d \<in> set (records_of config ''controller_inventories'')"
    and "\<not> dict_has d ''name''"
  shows "set_member (YStr ''unnamed'') (defined_inventories s')"
proof -
  have "record_name d \<in> set [record_name d]" by simp
  from member_of_record [OF assms(2), of "record_name d" "\<lambda>d. [record_name d]", OF this]
  have "set_member (record_name d) (defined_inventories s')"
    unfolding validate_inventories_defined [OF assms(1)] by (rule set_member_added)
  with assms(3) show ?thesis by (simp add: record_name_unnamed)
qed

lemma job_template_additions_unnamed:
  assumes "\<not> dict_has d ''name''"
  shows "job_template_additions env d
     = (job_template_additions env ((''name'', YStr ''unnamed'') # d))
         \<lparr>new_errors := ''Job Template missing 'name' field'' # job_template_errors ((''name'', YStr ''unnamed'') # d)\<rparr>"
proof -
  have n: "record_name ((''name'', YStr ''unnamed'') # d) = record_name d"
    using assms by (simp add: record_name_def dict_get_def dict_has_def)
  have h: "dict_has ((''name'', YStr ''unnamed'') # d) k = dict_has d k" if "k \<noteq> ''name''" for k
    using that by (simp add: dict_has_def)
  have m: "map_of ((''name'', YStr ''unnamed'') # d) k = map_of d k" if "k \<noteq> ''name''" for k
    using that by simp
  have g: "dict_get ((''name'', YStr ''unnamed'') # d) k v = dict_get d k v" if "k \<noteq> ''name''" for k v
    using that by (simp add: dict_get_def)
  show ?thesis
    unfolding job_template_additions_def job_template_errors_unnamed [OF assms] job_template_warnings_def template_credentials_def field_values_def n
    by (simp add: h m g del: map_of.simps)
qed

lemma workflow_additions_unnamed:
  assumes "\<not> dict_has d ''name''"
  shows "workflow_additions env d
     = (workflow_additions env ((''name'', YStr ''unnamed'') # d))
         \<lparr>new_errors := ''Workflow Template missing 'name' field'' # workflow_errors ((''name'', YStr ''unnamed'') # d)\<rparr>"
proof -
  have n: "record_name ((''name'', YStr ''unnamed'') # d) = record_name d"
    using assms by (simp add: record_name_def dict_get_def dict_has_def)
  have h: "dict_has ((''name'', YStr ''unnamed'') # d) k = dict_has d k" if "k \<noteq> ''name''" for k
    using that by (simp add: dict_has_def)
  have m: "map_of ((''name'', YStr ''unnamed'') # d) k = map_of d k" if "k \<noteq> ''name''" for k
    using that by simp
  have g: "dict_get ((''name'', YStr ''unnamed'') # d) k v = dict_get d k v" if "k \<noteq> ''name''" for k v
    using that by (simp add: dict_get_def)
  show ?thesis
    unfolding workflow_additions_def workflow_errors_unnamed [OF assms] workflow_warnings_def field_values_def n
    by (simp add: h m g del: map_of.simps)
qed

lemma schedule_additions_unnamed:
  assumes "\<not> dict_has d ''name''"
  shows "schedule_additions env d
     = (schedule_additions env ((''name'', YStr ''unnamed'') # d))
         \<lparr>new_errors := ''Schedule missing 'name' field'' # schedule_errors ((''name'', YStr ''unnamed'') # d)\<rparr>"
proof -
  have n: "record_name ((''name'', YStr ''unnamed'') # d) = record_name d"
    using assms by (simp add: record_name_def dict_get_def dict_has_def)
  have h: "dict_has ((''name'', YStr ''unnamed'') # d) k = dict_has d k" if "k \<noteq> ''name''" for k
    using that by (simp add: dict_has_def)
  have m: "map_of ((''name'', YStr ''unnamed'') # d) k = map_of d k" if "k \<noteq> ''name''" for k
    using that by simp
  have g: "dict_get ((''name'', YStr ''unnamed'') # d) k v = dict_get d k v" if "k \<noteq> ''name''" for k v
    using that by (simp add: dict_get_def)
  show ?thesis
    unfolding schedule_additions_def schedule_errors_unnamed [OF assms] schedule_info_def field_values_def n
    by (simp add: h m g del: map_of.simps)
qed

subsection \<open>Missing required fields\<close>

lemma validate_organizations_missing_field:
  assumes "validate_organizations config s = Inr s'" and "YDict d \<in> set (records_of config ''controller_organizations'')"
    and "(k, m) \<in> set (organization_required (record_name d))" and "\<not> dict_has d k"
  shows "m \<in> set (errors s')"
proof -
  from required_errors_member [OF assms(3) assms(4)] have "m \<in> set (organization_errors d)"
    by (simp add: organization_errors_def)
  from member_of_record [OF assms(2), of m organization_errors, OF this] show ?thesis
    by (simp add: validate_organizations_errors [OF assms(1)])
qed

lemma validate_organizations_falsy:
  "falsy_key ''controller_organizations'' config \<Longrightarrow> \<exists>s'. validate_organizations config s = Inr s'"
  by (cases config) (simp_all add: falsy_key_def validate_organizations_def and_then_def)

lemma validate_teams_missing_field:
  assumes "validate_teams config s = Inr s'" and "YDict d \<in> set (records_of config ''controller_teams'')"
    and "(k, m) \<in> set (team_required (record_name d))" and "\<not> dict_has d k"
  shows "m \<in> set (errors s')"
proof -
  from required_errors_member [OF assms(3) assms(4)] have "m \<in> set (team_errors d)"
    by (simp add: team_errors_def)
  from member_of_record [OF assms(2), of m team_errors, OF this] show ?thesis
    by (simp add: validate_teams_errors [OF assms(1)])
qed

lemma validate_teams_falsy:
  "falsy_key ''controller_teams'' config \<Longrightarrow> \<exists>s'. validate_teams config s = Inr s'"
  by (cases config) (simp_all add: falsy_key_def validate_teams_def and_then_def)

lemma validate_credentials_missing_field:
  assumes "validate_credentials config s = Inr s'" and "YDict d \<in> set (records_of config ''controller_credentials'')"
    and "(k, m) \<in> set (credential_required (record_name d))" and "\<not> dict_has d k"
  shows "m \<in> set (errors s')"
proof -
  from required_errors_member [OF assms(3) assms(4)] have "m \<in> set (credential_errors d)"
    by (simp add: credential_errors_def)
  from member_of_record [OF assms(2), of m credential_errors, OF this] show ?thesis
    by (simp add: validate_credentials_errors [OF assms(1)])
qed

lemma validate_execution_environments_missing_field:
  assumes "validate_execution_environments config s = Inr s'" and "YDict d \<in> set (records_of config ''controller_execution_environments'')"
    and "(k, m) \<in> set (execution_environment_required (record_name d))" and "\<not> dict_has d k"
  shows "m \<in> set (errors s')"
proof -
  from required_errors_member [OF assms(3) assms(4)] have "m \<in> set (execution_environment_errors d)"
    by (simp add: execution_environment_errors_def)
  from member_of_record [OF assms(2), of m execution_environment_errors, OF this] show ?thesis
    by (simp add: validate_execution_environments_errors [OF assms(1)])
qed

lemma validate_projects_missing_field:
  assumes "validate_projects config s = Inr s'" and "YDict d \<in> set (records_of config ''controller_projects'')"
    and "(k, m) \<in> set (project_required (record_name d))" and "\<not> dict_has d k"
  shows "m \<in> set (errors s')"
proof -
  from required_errors_member [OF assms(3) assms(4)] have "m \<in> set (project_errors d)"
    by (simp add: project_errors_def)
  from member_of_record [OF assms(2), of m project_errors, OF this] show ?thesis
    by (simp add: validate_projects_errors [OF assms(1)])
qed

lemma validate_inventories_missing_field:
  assumes "validate_inventories config s = Inr s'" and "YDict d \<in> set (records_of config ''controller_inventories'')"
    and "(k, m) \<in> set (inventory_required (record_name d))" and "\<not> dict_has d k"
  shows "m \<in> set (errors s')"
proof -
  from required_errors_member [OF assms(3) assms(4)] have "m \<in> set (inventory_errors d)"
    by (simp add: inventory_errors_def)
  from member_of_record [OF assms(2), of m inventory_errors, OF this] show ?thesis
    by (simp add: validate_inventories_errors [OF assms(1)])
qed

lemma validate_job_templates_missing_field:
  assumes "validate_job_templates config s = Inr s'" and "YDict d \<in> set (records_of config ''controller_templates'')"
    and "(k, m) \<in> set (job_template_required (record_name d))" and "\<not> dict_has d k"
  shows "m \<in> set (errors s')"
proof -
  from required_errors_member [OF assms(3) assms(4)] have "m \<in> set (job_template_errors d)"
    by (simp add: job_template_errors_def)
  from member_of_record [OF assms(2), of m job_template_errors, OF this] show ?thesis
    by (simp add: validate_job_templates_errors [OF assms(1)])
qed

lemma validate_workflow_templates_missing_field:
  assumes "validate_workflow_templates config s = Inr s'" and "YDict d \<in> set (records_of config ''controller_workflows'')"
    and "(k, m) \<in> set (workflow_required (record_name d))" and "\<not> dict_has d k"
  shows "m \<in> set (errors s')"
proof -
  from required_errors_member [OF assms(3) assms(4)] have "m \<in> set (workflow_errors d)"
    by (simp add: workflow_errors_def)
  from member_of_record [OF assms(2), of m workflow_errors, OF this] show ?thesis
    by (simp add: validate_workflow_templates_errors [OF assms(1)])
qed

lemma validate_schedules_missing_field:
  assumes "validate_schedules config s = Inr s'" and "YDict d \<in> set (records_of config ''controller_schedules'')"
    and "(k, m) \<in> set (schedule_required (record_name d))" and "\<not> dict_has d k"
  shows "m \<in> set (errors s')"
proof -
  from required_errors_member [OF assms(3) assms(4)] have "m \<in> set (schedule_errors d)"
    by (simp add: schedule_errors_def)
  from member_of_record [OF assms(2), of m schedule_errors, OF this] show ?thesis
    by (simp add: validate_schedules_errors [OF assms(1)])
qed

subsection \<open>The names that an environment defines and references\<close>



lemma names_of_no_records [simp]:
  "defined_names [] = []" "referenced_values k [] = []" "referenced_template_credentials [] = []"
  by (simp_all add: defined_names_def referenced_values_def referenced_template_credentials_def)


















subsection \<open>The warnings of the reconciliation\<close>


section \<open>The overall result\<close>

text \<open>
  Claim C2. The result \<open>passed\<close> of a run, the value \<^verbatim>\<open>print_results\<close> returns, is
  false exactly when the list of errors is not empty; the warnings and the informational
  notes have no influence on it.
\<close>

theorem print_results_passed:
  "(print_results s = False) = (errors s \<noteq> [])
   \<and> print_results (s\<lparr>warnings := w, info := i\<rparr>) = print_results s"
  by (simp add: print_results_def)

section \<open>Plaintext secrets in credentials\<close>

text \<open>
  Claim C1, as the code has it. The claim speaks of every credential record. The name of a
  record is put into the set of defined credentials before its secrets are looked at, and a
  name that is a sequence or a mapping cannot be put into a set: the validator raises
  \<^verbatim>\<open>TypeError\<close>, the plaintext password of the record gets no finding, and no later
  record is read.
\<close>

theorem unhashable_name_hides_secret_counterexample:
  "validate_credentials
     (YDict [(''controller_credentials'',
        YList [YDict [(''name'', YList [YStr ''a'']),
                      (''inputs'', YDict [(''password'', YStr ''hunter2'')])]])])
     example_start
   = Inl TypeError"
  by code_simp

text \<open>
  Claim C1, amended. Whenever \<^verbatim>\<open>validate_credentials\<close> returns, the document is a
  mapping, the value under \<^verbatim>\<open>controller_credentials\<close> was iterated over, and the errors
  appended are the errors of its records, record by record in their order. For every record
  among them and every sensitive field name present under the record's \<open>inputs\<close> mapping,
  the errors of the record hold the finding for that field once when the stringified value
  starts neither with \<^verbatim>\<open>{{ \<close> nor with \<^verbatim>\<open>!vault\<close>, and do not hold it when the value
  starts with either marker.
\<close>

theorem credential_secrets_reported:
  assumes "validate_credentials config s = Inr s'"
  shows "\<exists>c recs. config = YDict c
     \<and> py_iter (dict_get c ''controller_credentials'' (YList [])) = Inr recs
     \<and> errors s' = errors s @ concat (map (on_record credential_errors) recs)
     \<and> (\<forall>d inputs field v.
           YDict d \<in> set recs \<and> dict_get d ''inputs'' (YDict []) = YDict inputs
           \<and> field \<in> set sensitive_fields \<and> map_of inputs field = Some v
           \<longrightarrow> count_list (credential_errors d) (unencrypted_msg (record_name d) field)
               = (if \<not> prefix ''{{ '' (py_str v) \<and> \<not> prefix ''!vault'' (py_str v)
                  then 1 else 0))"
proof -
  from validate_credentials_records [OF assms] obtain c recs where c: "config = YDict c"
    and recs: "py_iter (dict_get c ''controller_credentials'' (YList [])) = Inr recs"
    by blast
  from validate_credentials_errors [OF assms] c
  have e: "errors s' = errors s @ concat (map (on_record credential_errors) recs)"
    by (simp add: records_of_dict [OF recs])
  have "\<forall>d inputs field v.
           YDict d \<in> set recs \<and> dict_get d ''inputs'' (YDict []) = YDict inputs
           \<and> field \<in> set sensitive_fields \<and> map_of inputs field = Some v
           \<longrightarrow> count_list (credential_errors d) (unencrypted_msg (record_name d) field)
               = (if \<not> prefix ''{{ '' (py_str v) \<and> \<not> prefix ''!vault'' (py_str v)
                  then 1 else 0)"
    by (intro allI impI) (elim conjE, rule credential_errors_count)
  with c recs e show ?thesis by blast
qed

theorem credential_secrets_reported_witness:
  "validate_credentials example_credentials_document example_start
     = Inr example_credentials_result
   \<and> errors example_credentials_result
       = errors example_start @ credential_errors example_credential
   \<and> count_list (credential_errors example_credential)
       (unencrypted_msg (YStr ''db'') ''password'') = 1
   \<and> count_list (credential_errors example_credential)
       (unencrypted_msg (YStr ''db'') ''token'') = 0"
proof -
  have run: "validate_credentials example_credentials_document example_start
     = Inr example_credentials_result"
    by code_simp
  from credential_secrets_reported [OF run] obtain c recs where
    c: "example_credentials_document = YDict c"
    and recs: "py_iter (dict_get c ''controller_credentials'' (YList [])) = Inr recs"
    and e: "errors example_credentials_result
       = errors example_start @ concat (map (on_record credential_errors) recs)"
    and n: "\<forall>d inputs field v.
           YDict d \<in> set recs \<and> dict_get d ''inputs'' (YDict []) = YDict inputs
           \<and> field \<in> set sensitive_fields \<and> map_of inputs field = Some v
           \<longrightarrow> count_list (credential_errors d) (unencrypted_msg (record_name d) field)
               = (if \<not> prefix ''{{ '' (py_str v) \<and> \<not> prefix ''!vault'' (py_str v)
                  then 1 else 0)"
    by blast
  from c recs have r: "recs = [YDict example_credential]"
    by (auto simp: example_credentials_document_def dict_get_def)
  have i: "dict_get example_credential ''inputs'' (YDict [])
       = YDict [(''password'', YStr ''hunter2''), (''token'', YStr ''{{ vault_token }}'')]"
    by (simp add: dict_get_def example_credential_def)
  have nm: "record_name example_credential = YStr ''db''"
    by (simp add: record_name_def dict_get_def example_credential_def)
  from n [rule_format, of example_credential _ "''password''" "YStr ''hunter2''"] r i
  have p: "count_list (credential_errors example_credential)
       (unencrypted_msg (YStr ''db'') ''password'') = 1"
    by (simp add: nm sensitive_fields_def)
  from n [rule_format, of example_credential _ "''token''" "YStr ''{{ vault_token }}''"] r i
  have t: "count_list (credential_errors example_credential)
       (unencrypted_msg (YStr ''db'') ''token'') = 0"
    by (simp add: nm sensitive_fields_def)
  from e r have "errors example_credentials_result
       = errors example_start @ credential_errors example_credential"
    by (simp add: on_record_def)
  with run p t show ?thesis by blast
qed

section \<open>The validator state only grows\<close>

text \<open>
  Claim C10. Loading a file, each of the nine validators, the reconciliation of references
  and the validation of a whole environment leave, when they return, a state in which every
  list of findings and every set of names has its former content as an unchanged initial
  part: findings and names are only added at the end, never removed, reordered or changed.
\<close>

theorem state_only_grows:
  "result_extends s (map_sum id snd (load_yaml_file fs p s))
   \<and> result_extends s (validate_organizations config s)
   \<and> result_extends s (validate_teams config s)
   \<and> result_extends s (validate_credentials config s)
   \<and> result_extends s (validate_execution_environments config s)
   \<and> result_extends s (validate_projects config s)
   \<and> result_extends s (validate_inventories config s)
   \<and> result_extends s (validate_job_templates config s)
   \<and> result_extends s (validate_workflow_templates config s)
   \<and> result_extends s (validate_schedules config s)
   \<and> extends s (validate_references iter s)
   \<and> result_extends s (map_sum id snd (validate_environment iter fs env s))"
proof (intro conjI)
  show "result_extends s (map_sum id snd (load_yaml_file fs p s))"
    by (cases "load_yaml_file fs p s")
       (auto simp: result_extends_def dest: load_yaml_file_extends)
  show "result_extends s (map_sum id snd (validate_environment iter fs env s))"
    by (cases "validate_environment iter fs env s")
       (auto simp: result_extends_def dest: validate_environment_extends)
  show "extends s (validate_references iter s)"
    by (rule validate_references_extends)
  show "result_extends s (validate_organizations config s)"
    by (rule result_extendsI) (erule validate_organizations_extends)
  show "result_extends s (validate_teams config s)"
    by (rule result_extendsI) (erule validate_teams_extends)
  show "result_extends s (validate_credentials config s)"
    by (rule result_extendsI) (erule validate_credentials_extends)
  show "result_extends s (validate_execution_environments config s)"
    by (rule result_extendsI) (erule validate_execution_environments_extends)
  show "result_extends s (validate_projects config s)"
    by (rule result_extendsI) (erule validate_projects_extends)
  show "result_extends s (validate_inventories config s)"
    by (rule result_extendsI) (erule validate_inventories_extends)
  show "result_extends s (validate_job_templates config s)"
    by (rule result_extendsI) (erule validate_job_templates_extends)
  show "result_extends s (validate_workflow_templates config s)"
    by (rule result_extendsI) (erule validate_workflow_templates_extends)
  show "result_extends s (validate_schedules config s)"
    by (rule result_extendsI) (erule validate_schedules_extends)
qed

theorem state_only_grows_witness:
  "validate_environment rev example_fs ''prod'' example_start = Inr (True, example_report)
   \<and> extends example_start example_report"
  using state_only_grows [where s = example_start and fs = example_fs and iter = rev
      and env = "''prod''"]
  by (simp add: example_environment_run result_extends_def)

section \<open>Images of execution environments\<close>

text \<open>
  Claim C4, as the code has it. The claim speaks of every execution-environment record. The
  name of a record is put into the set of defined execution environments before the image is
  looked at, and a name that is a sequence or a mapping cannot be put into a set: the
  validator raises \<^verbatim>\<open>TypeError\<close> and the image \<^verbatim>\<open>x:latest\<close> of the record gets no
  finding.
\<close>

theorem unhashable_name_hides_image_counterexample:
  "validate_execution_environments
     (YDict [(''controller_execution_environments'',
        YList [YDict [(''name'', YList []), (''image'', YStr ''x:latest'')]])])
     example_start
   = Inl TypeError"
  by code_simp

text \<open>
  Claim C4, amended. Whenever \<^verbatim>\<open>validate_execution_environments\<close> returns, the document
  is a mapping, the value under \<^verbatim>\<open>controller_execution_environments\<close> was iterated over,
  and the errors and the warnings appended are those of its records, record by record in
  their order. For every record among them whose \<open>image\<close> is a str: the errors of the record
  hold the Error about the \<^verbatim>\<open>latest\<close> tag once when the image contains \<^verbatim>\<open>:latest\<close>,
  whatever the environment, and do not hold it otherwise; the warnings of the record are the
  one Warning about the digest when the image lacks \<^verbatim>\<open>@sha256:\<close> and the environment is
  \<^verbatim>\<open>prod\<close>, and none otherwise. Neither check looks at the outcome of the other.
\<close>

theorem images_reported:
  assumes "validate_execution_environments config s = Inr s'"
  shows "\<exists>c recs. config = YDict c
     \<and> py_iter (dict_get c ''controller_execution_environments'' (YList [])) = Inr recs
     \<and> errors s' = errors s @ concat (map (on_record execution_environment_errors) recs)
     \<and> warnings s' = warnings s
         @ concat (map (on_record (execution_environment_warnings (environment s))) recs)
     \<and> (\<forall>d img. YDict d \<in> set recs \<and> map_of d ''image'' = Some (YStr img)
           \<longrightarrow> count_list (execution_environment_errors d) (latest_msg (record_name d))
                 = (if sublist '':latest'' img then 1 else 0)
               \<and> execution_environment_warnings (environment s) d
                 = (if \<not> sublist ''@sha256:'' img \<and> environment s = Some ''prod''
                    then [digest_msg (record_name d)] else []))"
proof -
  from validate_execution_environments_records [OF assms] obtain c recs where
    c: "config = YDict c"
    and recs: "py_iter (dict_get c ''controller_execution_environments'' (YList [])) = Inr recs"
    by blast
  from validate_execution_environments_errors [OF assms] c
  have e: "errors s' = errors s @ concat (map (on_record execution_environment_errors) recs)"
    by (simp add: records_of_dict [OF recs])
  from validate_execution_environments_warnings [OF assms] c
  have w: "warnings s' = warnings s
         @ concat (map (on_record (execution_environment_warnings (environment s))) recs)"
    by (simp add: records_of_dict [OF recs])
  have "\<forall>d img. YDict d \<in> set recs \<and> map_of d ''image'' = Some (YStr img)
           \<longrightarrow> count_list (execution_environment_errors d) (latest_msg (record_name d))
                 = (if sublist '':latest'' img then 1 else 0)
               \<and> execution_environment_warnings (environment s) d
                 = (if \<not> sublist ''@sha256:'' img \<and> environment s = Some ''prod''
                    then [digest_msg (record_name d)] else [])"
    by (intro allI impI conjI; elim conjE; erule execution_environment_findings)
  with c recs e w show ?thesis by blast
qed

theorem images_reported_witness:
  "validate_execution_environments example_ees_document example_start = Inr example_ees_result
   \<and> errors example_ees_result = errors example_start @ execution_environment_errors example_ee
   \<and> warnings example_ees_result
       = warnings example_start @ execution_environment_warnings (Some ''prod'') example_ee
   \<and> count_list (execution_environment_errors example_ee) (latest_msg (YStr ''ee1'')) = 1
   \<and> execution_environment_warnings (Some ''prod'') example_ee = [digest_msg (YStr ''ee1'')]"
proof -
  have run: "validate_execution_environments example_ees_document example_start
     = Inr example_ees_result"
    by code_simp
  from images_reported [OF run] obtain c recs where
    c: "example_ees_document = YDict c"
    and recs: "py_iter (dict_get c ''controller_execution_environments'' (YList [])) = Inr recs"
    and e: "errors example_ees_result
       = errors example_start @ concat (map (on_record execution_environment_errors) recs)"
    and w: "warnings example_ees_result = warnings example_start
         @ concat (map (on_record (execution_environment_warnings (environment example_start)))
             recs)"
    and n: "\<forall>d img. YDict d \<in> set recs \<and> map_of d ''image'' = Some (YStr img)
           \<longrightarrow> count_list (execution_environment_errors d) (latest_msg (record_name d))
                 = (if sublist '':latest'' img then 1 else 0)
               \<and> execution_environment_warnings (environment example_start) d
                 = (if \<not> sublist ''@sha256:'' img \<and> environment example_start = Some ''prod''
                    then [digest_msg (record_name d)] else [])"
    by blast
  from c recs have r: "recs = [YDict example_ee]"
    by (auto simp: example_ees_document_def dict_get_def)
  have env: "environment example_start = Some ''prod''"
    by (simp add: example_start_def init_def)
  have nm: "record_name example_ee = YStr ''ee1''"
    by (simp add: record_name_def dict_get_def example_ee_def)
  have img: "map_of example_ee ''image'' = Some (YStr ''quay.io/acme/ee:latest'')"
    by (simp add: example_ee_def)
  have l: "sublist '':latest'' ''quay.io/acme/ee:latest''"
    by code_simp
  have g: "\<not> sublist ''@sha256:'' ''quay.io/acme/ee:latest''"
    by code_simp
  from n [rule_format, of example_ee "''quay.io/acme/ee:latest''"] r img
  have "count_list (execution_environment_errors example_ee) (latest_msg (YStr ''ee1'')) = 1
     \<and> execution_environment_warnings (Some ''prod'') example_ee = [digest_msg (YStr ''ee1'')]"
    by (simp only: nm env l g list.set_intros simp_thms if_True)
  moreover from e r have "errors example_ees_result
       = errors example_start @ execution_environment_errors example_ee"
    by (simp add: on_record_def)
  moreover from w r have "warnings example_ees_result
       = warnings example_start @ execution_environment_warnings (Some ''prod'') example_ee"
    by (simp add: on_record_def env)
  ultimately show ?thesis using run by blast
qed

section \<open>References of job templates\<close>

text \<open>
  Claim C8, as the code has it. The claim says that a value that is present is added to the
  set of referenced names. A value that is a sequence or a mapping cannot be put into a set:
  with \<^verbatim>\<open>inventory: []\<close> the validator raises \<^verbatim>\<open>TypeError\<close> and nothing is added.
\<close>

theorem unhashable_reference_counterexample:
  "validate_job_templates
     (YDict [(''controller_templates'',
        YList [YDict [(''name'', YStr ''deploy''), (''project'', YStr ''app''),
                      (''inventory'', YList [])]])])
     example_start
   = Inl TypeError"
  by code_simp

text \<open>
  Claim C8, amended. Whenever \<^verbatim>\<open>validate_job_templates\<close> returns, the document is a
  mapping, the value under \<^verbatim>\<open>controller_templates\<close> was iterated over, the errors
  appended are those of its records, record by record in their order, and the sets of
  referenced projects and of referenced inventories are the former sets with the values of
  the \<open>project\<close> fields, respectively of the \<open>inventory\<close> fields, of the records added in
  that order. For every record among them: when \<open>project\<close> is absent the errors of the
  record hold the Error naming the template once and the record has no value to add; when
  \<open>project\<close> is present the errors of the record do not hold that Error, the value is the
  one value the record adds, and it is in the set of referenced projects afterwards. The
  same holds for \<open>inventory\<close> and the set of referenced inventories.
\<close>

theorem template_references_reported:
  assumes "validate_job_templates config s = Inr s'"
  shows "\<exists>c recs. config = YDict c
     \<and> py_iter (dict_get c ''controller_templates'' (YList [])) = Inr recs
     \<and> errors s' = errors s @ concat (map (on_record job_template_errors) recs)
     \<and> referenced_projects s'
         = add_all (concat (map (on_record (\<lambda>d. field_values d ''project'')) recs))
             (referenced_projects s)
     \<and> referenced_inventories s'
         = add_all (concat (map (on_record (\<lambda>d. field_values d ''inventory'')) recs))
             (referenced_inventories s)
     \<and> (\<forall>d. YDict d \<in> set recs \<longrightarrow>
          (case map_of d ''project'' of
             None \<Rightarrow>
               count_list (job_template_errors d) (missing_project_msg (record_name d)) = 1
               \<and> field_values d ''project'' = []
           | Some p \<Rightarrow>
               count_list (job_template_errors d) (missing_project_msg (record_name d)) = 0
               \<and> field_values d ''project'' = [p]
               \<and> set_member p (referenced_projects s'))
          \<and> (case map_of d ''inventory'' of
             None \<Rightarrow>
               count_list (job_template_errors d) (missing_inventory_msg (record_name d)) = 1
               \<and> field_values d ''inventory'' = []
           | Some i \<Rightarrow>
               count_list (job_template_errors d) (missing_inventory_msg (record_name d)) = 0
               \<and> field_values d ''inventory'' = [i]
               \<and> set_member i (referenced_inventories s')))"
proof -
  from validate_job_templates_records [OF assms] obtain c recs where c: "config = YDict c"
    and recs: "py_iter (dict_get c ''controller_templates'' (YList [])) = Inr recs"
    by blast
  from validate_job_templates_errors [OF assms] c
  have e: "errors s' = errors s @ concat (map (on_record job_template_errors) recs)"
    by (simp add: records_of_dict [OF recs])
  from validate_job_templates_referenced(1) [OF assms] c
  have p: "referenced_projects s'
         = add_all (concat (map (on_record (\<lambda>d. field_values d ''project'')) recs))
             (referenced_projects s)"
    by (simp add: records_of_dict [OF recs])
  from validate_job_templates_referenced(2) [OF assms] c
  have i: "referenced_inventories s'
         = add_all (concat (map (on_record (\<lambda>d. field_values d ''inventory'')) recs))
             (referenced_inventories s)"
    by (simp add: records_of_dict [OF recs])
  have r: "(case map_of d ''project'' of
             None \<Rightarrow>
               count_list (job_template_errors d) (missing_project_msg (record_name d)) = 1
               \<and> field_values d ''project'' = []
           | Some p \<Rightarrow>
               count_list (job_template_errors d) (missing_project_msg (record_name d)) = 0
               \<and> field_values d ''project'' = [p]
               \<and> set_member p (referenced_projects s'))
          \<and> (case map_of d ''inventory'' of
             None \<Rightarrow>
               count_list (job_template_errors d) (missing_inventory_msg (record_name d)) = 1
               \<and> field_values d ''inventory'' = []
           | Some i \<Rightarrow>
               count_list (job_template_errors d) (missing_inventory_msg (record_name d)) = 0
               \<and> field_values d ''inventory'' = [i]
               \<and> set_member i (referenced_inventories s'))"
    if d: "YDict d \<in> set recs" for d
  proof (rule conjI)
    show "case map_of d ''project'' of
             None \<Rightarrow>
               count_list (job_template_errors d) (missing_project_msg (record_name d)) = 1
               \<and> field_values d ''project'' = []
           | Some p \<Rightarrow>
               count_list (job_template_errors d) (missing_project_msg (record_name d)) = 0
               \<and> field_values d ''project'' = [p]
               \<and> set_member p (referenced_projects s')"
    proof (cases "map_of d ''project''")
      case None
      then show ?thesis
        by (simp add: job_template_errors_count dict_has_def field_values_def)
    next
      case (Some v)
      then have "v \<in> set (field_values d ''project'')" by (simp add: field_values_def)
      from member_of_record [OF d, of v "\<lambda>d. field_values d ''project''", OF this]
      have "set_member v (referenced_projects s')"
        unfolding p by (rule set_member_added)
      with Some show ?thesis
        by (simp add: job_template_errors_count dict_has_def field_values_def)
    qed
    show "case map_of d ''inventory'' of
             None \<Rightarrow>
               count_list (job_template_errors d) (missing_inventory_msg (record_name d)) = 1
               \<and> field_values d ''inventory'' = []
           | Some i \<Rightarrow>
               count_list (job_template_errors d) (missing_inventory_msg (record_name d)) = 0
               \<and> field_values d ''inventory'' = [i]
               \<and> set_member i (referenced_inventories s')"
    proof (cases "map_of d ''inventory''")
      case None
      then show ?thesis
        by (simp add: job_template_errors_count dict_has_def field_values_def)
    next
      case (Some v)
      then have "v \<in> set (field_values d ''inventory'')" by (simp add: field_values_def)
      from member_of_record [OF d, of v "\<lambda>d. field_values d ''inventory''", OF this]
      have "set_member v (referenced_inventories s')"
        unfolding i by (rule set_member_added)
      with Some show ?thesis
        by (simp add: job_template_errors_count dict_has_def field_values_def)
    qed
  qed
  from c recs e p i r show ?thesis by blast
qed

theorem template_references_reported_witness:
  "validate_job_templates example_templates_document example_start
     = Inr example_templates_result
   \<and> errors example_templates_result = errors example_start @ job_template_errors example_template
   \<and> referenced_projects example_templates_result = add_all [YStr ''app''] []
   \<and> referenced_inventories example_templates_result = add_all [] []
   \<and> count_list (job_template_errors example_template) (missing_project_msg (YStr ''deploy'')) = 0
   \<and> set_member (YStr ''app'') (referenced_projects example_templates_result)
   \<and> count_list (job_template_errors example_template) (missing_inventory_msg (YStr ''deploy'')) = 1
   \<and> field_values example_template ''inventory'' = []"
proof -
  have run: "validate_job_templates example_templates_document example_start
     = Inr example_templates_result"
    by code_simp
  from template_references_reported [OF run] obtain c recs where
    c: "example_templates_document = YDict c"
    and recs: "py_iter (dict_get c ''controller_templates'' (YList [])) = Inr recs"
    and e: "errors example_templates_result
       = errors example_start @ concat (map (on_record job_template_errors) recs)"
    and p: "referenced_projects example_templates_result
         = add_all (concat (map (on_record (\<lambda>d. field_values d ''project'')) recs))
             (referenced_projects example_start)"
    and i: "referenced_inventories example_templates_result
         = add_all (concat (map (on_record (\<lambda>d. field_values d ''inventory'')) recs))
             (referenced_inventories example_start)"
    and n: "\<forall>d. YDict d \<in> set recs \<longrightarrow>
          (case map_of d ''project'' of
             None \<Rightarrow>
               count_list (job_template_errors d) (missing_project_msg (record_name d)) = 1
               \<and> field_values d ''project'' = []
           | Some p \<Rightarrow>
               count_list (job_template_errors d) (missing_project_msg (record_name d)) = 0
               \<and> field_values d ''project'' = [p]
               \<and> set_member p (referenced_projects example_templates_result))
          \<and> (case map_of d ''inventory'' of
             None \<Rightarrow>
               count_list (job_template_errors d) (missing_inventory_msg (record_name d)) = 1
               \<and> field_values d ''inventory'' = []
           | Some i \<Rightarrow>
               count_list (job_template_errors d) (missing_inventory_msg (record_name d)) = 0
               \<and> field_values d ''inventory'' = [i]
               \<and> set_member i (referenced_inventories example_templates_result))"
    by blast
  from c recs have r: "recs = [YDict example_template]"
    by (auto simp: example_templates_document_def dict_get_def)
  have nm: "record_name example_template = YStr ''deploy''"
    by (simp add: record_name_def dict_get_def example_template_def)
  have mp: "map_of example_template ''project'' = Some (YStr ''app'')"
    and mi: "map_of example_template ''inventory'' = None"
    by (simp_all add: example_template_def)
  from n [rule_format, of example_template] r
  have "count_list (job_template_errors example_template) (missing_project_msg (YStr ''deploy'')) = 0
     \<and> set_member (YStr ''app'') (referenced_projects example_templates_result)
     \<and> count_list (job_template_errors example_template) (missing_inventory_msg (YStr ''deploy'')) = 1
     \<and> field_values example_template ''inventory'' = []"
    by (simp add: nm mp mi)
  moreover from e r have "errors example_templates_result
       = errors example_start @ job_template_errors example_template"
    by (simp add: on_record_def)
  moreover from p r have "referenced_projects example_templates_result = add_all [YStr ''app''] []"
    by (simp add: on_record_def field_values_def mp example_start_def init_def)
  moreover from i r have "referenced_inventories example_templates_result = add_all [] []"
    by (simp add: on_record_def field_values_def mi example_start_def init_def)
  ultimately show ?thesis using run by blast
qed

section \<open>Records without a name\<close>

text \<open>
  Claim C6, as the code has it. The claim says that the placeholder \<^verbatim>\<open>unnamed\<close> is not
  added to the set of defined names. The code adds whatever \<^verbatim>\<open>get('name', 'unnamed')\<close>
  returns before it checks that the field is there: an organization without a name leaves
  \<^verbatim>\<open>unnamed\<close> in the set of defined organizations.
\<close>

theorem unnamed_not_defined_counterexample:
  "organization_step (YDict example_unnamed_organization) example_start
   = Inr example_unnamed_result"
  by code_simp

text \<open>
  Claim C6, amended. Let a record lack the field \<open>name\<close>. The name under which it is
  reported is \<^verbatim>\<open>unnamed\<close>. For each of the nine kinds: whenever the validator returns,
  the state it leaves is the state it started from with the contributions of the records of
  the document, in their order; in particular the errors appended are the errors of the
  records, record by record. What the record contributes is what the same record with the
  name \<^verbatim>\<open>unnamed\<close> contributes, with the Error for the missing \<open>name\<close> field put in
  front of its errors: the placeholder stands for the name in the text of the findings (one
  finding of each kind is written out). In the six kinds that keep a set of defined names
  (organizations, teams, credentials, execution environments, projects, inventories) the
  placeholder is also added to that set: it is a member of the set when the validator
  returns.
\<close>

theorem unnamed_placeholder_is_defined:
  assumes "\<not> dict_has d ''name''"
  shows "record_name d = YStr ''unnamed''
   \<and> (\<forall>config s s'. validate_organizations config s = Inr s' \<longrightarrow>
        s' = apply_additions (organizations_document (environment s) config) s
        \<and> errors s' = errors s
            @ concat (map (on_record organization_errors) (records_of config ''controller_organizations''))
        \<and> (YDict d \<in> set (records_of config ''controller_organizations'')
             \<longrightarrow> set_member (YStr ''unnamed'') (defined_organizations s')))
   \<and> organization_additions env d
       = (organization_additions env ((''name'', YStr ''unnamed'') # d))
           \<lparr>new_errors := ''Organization missing 'name' field'' # organization_errors ((''name'', YStr ''unnamed'') # d)\<rparr>
   \<and> (\<not> dict_has d ''description''
        \<longrightarrow> ''Organization 'unnamed' missing description'' \<in> set (organization_warnings d))
   \<and> (\<forall>config s s'. validate_teams config s = Inr s' \<longrightarrow>
        s' = apply_additions (teams_document (environment s) config) s
        \<and> errors s' = errors s
            @ concat (map (on_record team_errors) (records_of config ''controller_teams''))
        \<and> (YDict d \<in> set (records_of config ''controller_teams'')
             \<longrightarrow> set_member (YStr ''unnamed'') (defined_teams s')))
   \<and> team_additions env d
       = (team_additions env ((''name'', YStr ''unnamed'') # d))
           \<lparr>new_errors := ''Team missing 'name' field'' # team_errors ((''name'', YStr ''unnamed'') # d)\<rparr>
   \<and> (\<not> dict_has d ''organization''
        \<longrightarrow> ''Team 'unnamed' missing organization reference'' \<in> set (team_errors d))
   \<and> (\<forall>config s s'. validate_credentials config s = Inr s' \<longrightarrow>
        s' = apply_additions (credentials_document (environment s) config) s
        \<and> errors s' = errors s
            @ concat (map (on_record credential_errors) (records_of config ''controller_credentials''))
        \<and> (YDict d \<in> set (records_of config ''controller_credentials'')
             \<longrightarrow> set_member (YStr ''unnamed'') (defined_credentials s')))
   \<and> credential_additions env d
       = (credential_additions env ((''name'', YStr ''unnamed'') # d))
           \<lparr>new_errors := ''Credential missing 'name' field'' # credential_errors ((''name'', YStr ''unnamed'') # d)\<rparr>
   \<and> (\<not> dict_has d ''credential_type''
        \<longrightarrow> ''Credential 'unnamed' missing credential_type'' \<in> set (credential_errors d))
   \<and> (\<forall>config s s'. validate_execution_environments config s = Inr s' \<longrightarrow>
        s' = apply_additions (execution_environments_document (environment s) config) s
        \<and> errors s' = errors s
            @ concat (map (on_record execution_environment_errors) (records_of config ''controller_execution_environments''))
        \<and> (YDict d \<in> set (records_of config ''controller_execution_environments'')
             \<longrightarrow> set_member (YStr ''unnamed'') (defined_ees s')))
   \<and> execution_environment_additions env d
       = (execution_environment_additions env ((''name'', YStr ''unnamed'') # d))
           \<lparr>new_errors := ''Execution Environment missing 'name' field'' # execution_environment_errors ((''name'', YStr ''unnamed'') # d)\<rparr>
   \<and> (\<not> dict_has d ''image''
        \<longrightarrow> ''Execution Environment 'unnamed' missing image'' \<in> set (execution_environment_errors d))
   \<and> (\<forall>config s s'. validate_projects config s = Inr s' \<longrightarrow>
        s' = apply_additions (projects_document (environment s) config) s
        \<and> errors s' = errors s
            @ concat (map (on_record project_errors) (records_of config ''controller_projects''))
        \<and> (YDict d \<in> set (records_of config ''controller_projects'')
             \<longrightarrow> set_member (YStr ''unnamed'') (defined_projects s')))
   \<and> project_additions env d
       = (project_additions env ((''name'', YStr ''unnamed'') # d))
           \<lparr>new_errors := ''Project missing 'name' field'' # project_errors ((''name'', YStr ''unnamed'') # d)\<rparr>
   \<and> (\<not> dict_has d ''scm_url''
        \<longrightarrow> ''Project 'unnamed' missing scm_url'' \<in> set (project_errors d))
   \<and> (\<forall>config s s'. validate_inventories config s = Inr s' \<longrightarrow>
        s' = apply_additions (inventories_document (environment s) config) s
        \<and> errors s' = errors s
            @ concat (map (on_record inventory_errors) (records_of config ''controller_inventories''))
        \<and> (YDict d \<in> set (records_of config ''controller_inventories'')
             \<longrightarrow> set_member (YStr ''unnamed'') (defined_inventories s')))
   \<and> inventory_additions env d
       = (inventory_additions env ((''name'', YStr ''unnamed'') # d))
           \<lparr>new_errors := ''Inventory missing 'name' field'' # inventory_errors ((''name'', YStr ''unnamed'') # d)\<rparr>
   \<and> (\<not> dict_has d ''organization''
        \<longrightarrow> ''Inventory 'unnamed' missing organization'' \<in> set (inventory_errors d))
   \<and> (\<forall>config s s'. validate_job_templates config s = Inr s' \<longrightarrow>
        s' = apply_additions (job_templates_document (environment s) config) s
        \<and> errors s' = errors s
            @ concat (map (on_record job_template_errors) (records_of config ''controller_templates'')))
   \<and> job_template_additions env d
       = (job_template_additions env ((''name'', YStr ''unnamed'') # d))
           \<lparr>new_errors := ''Job Template missing 'name' field'' # job_template_errors ((''name'', YStr ''unnamed'') # d)\<rparr>
   \<and> (\<not> dict_has d ''playbook''
        \<longrightarrow> ''Job Template 'unnamed' missing playbook'' \<in> set (job_template_errors d))
   \<and> (\<forall>config s s'. validate_workflow_templates config s = Inr s' \<longrightarrow>
        s' = apply_additions (workflow_templates_document (environment s) config) s
        \<and> errors s' = errors s
            @ concat (map (on_record workflow_errors) (records_of config ''controller_workflows'')))
   \<and> workflow_additions env d
       = (workflow_additions env ((''name'', YStr ''unnamed'') # d))
           \<lparr>new_errors := ''Workflow Template missing 'name' field'' # workflow_errors ((''name'', YStr ''unnamed'') # d)\<rparr>
   \<and> (\<not> dict_has d ''simplified_workflow_nodes'' \<and> \<not> dict_has d ''workflow_nodes''
        \<longrightarrow> ''Workflow Template 'unnamed' has no workflow nodes defined'' \<in> set (workflow_warnings d))
   \<and> (\<forall>config s s'. validate_schedules config s = Inr s' \<longrightarrow>
        s' = apply_additions (schedules_document (environment s) config) s
        \<and> errors s' = errors s
            @ concat (map (on_record schedule_errors) (records_of config ''controller_schedules'')))
   \<and> schedule_additions env d
       = (schedule_additions env ((''name'', YStr ''unnamed'') # d))
           \<lparr>new_errors := ''Schedule missing 'name' field'' # schedule_errors ((''name'', YStr ''unnamed'') # d)\<rparr>
   \<and> (\<not> dict_has d ''rrule''
        \<longrightarrow> ''Schedule 'unnamed' missing rrule'' \<in> set (schedule_errors d))"
proof -
  have v1: "\<forall>config s s'. validate_organizations config s = Inr s' \<longrightarrow>
        s' = apply_additions (organizations_document (environment s) config) s
        \<and> errors s' = errors s
            @ concat (map (on_record organization_errors) (records_of config ''controller_organizations''))
        \<and> (YDict d \<in> set (records_of config ''controller_organizations'')
             \<longrightarrow> set_member (YStr ''unnamed'') (defined_organizations s'))"
    using validate_organizations_document validate_organizations_errors validate_organizations_unnamed_defined [OF _ _ assms]
    by blast
  note a1 = organization_additions_unnamed [OF assms, of env]
  have v2: "\<forall>config s s'. validate_teams config s = Inr s' \<longrightarrow>
        s' = apply_additions (teams_document (environment s) config) s
        \<and> errors s' = errors s
            @ concat (map (on_record team_errors) (records_of config ''controller_teams''))
        \<and> (YDict d \<in> set (records_of config ''controller_teams'')
             \<longrightarrow> set_member (YStr ''unnamed'') (defined_teams s'))"
    using validate_teams_document validate_teams_errors validate_teams_unnamed_defined [OF _ _ assms]
    by blast
  note a2 = team_additions_unnamed [OF assms, of env]
  have v3: "\<forall>config s s'. validate_credentials config s = Inr s' \<longrightarrow>
        s' = apply_additions (credentials_document (environment s) config) s
        \<and> errors s' = errors s
            @ concat (map (on_record credential_errors) (records_of config ''controller_credentials''))
        \<and> (YDict d \<in> set (records_of config ''controller_credentials'')
             \<longrightarrow> set_member (YStr ''unnamed'') (defined_credentials s'))"
    using validate_credentials_document validate_credentials_errors validate_credentials_unnamed_defined [OF _ _ assms]
    by blast
  note a3 = credential_additions_unnamed [OF assms, of env]
  have v4: "\<forall>config s s'. validate_execution_environments config s = Inr s' \<longrightarrow>
        s' = apply_additions (execution_environments_document (environment s) config) s
        \<and> errors s' = errors s
            @ concat (map (on_record execution_environment_errors) (records_of config ''controller_execution_environments''))
        \<and> (YDict d \<in> set (records_of config ''controller_execution_environments'')
             \<longrightarrow> set_member (YStr ''unnamed'') (defined_ees s'))"
    using validate_execution_environments_document validate_execution_environments_errors validate_execution_environments_unnamed_defined [OF _ _ assms]
    by blast
  note a4 = execution_environment_additions_unnamed [OF assms, of env]
  have v5: "\<forall>config s s'. validate_projects config s = Inr s' \<longrightarrow>
        s' = apply_additions (projects_document (environment s) config) s
        \<and> errors s' = errors s
            @ concat (map (on_record project_errors) (records_of config ''controller_projects''))
        \<and> (YDict d \<in> set (records_of config ''controller_projects'')
             \<longrightarrow> set_member (YStr ''unnamed'') (defined_projects s'))"
    using validate_projects_document validate_projects_errors validate_projects_unnamed_defined [OF _ _ assms]
    by blast
  note a5 = project_additions_unnamed [OF assms, of env]
  have v6: "\<forall>config s s'. validate_inventories config s = Inr s' \<longrightarrow>
        s' = apply_additions (inventories_document (environment s) config) s
        \<and> errors s' = errors s
            @ concat (map (on_record inventory_errors) (records_of config ''controller_inventories''))
        \<and> (YDict d \<in> set (records_of config ''controller_inventories'')
             \<longrightarrow> set_member (YStr ''unnamed'') (defined_inventories s'))"
    using validate_inventories_document validate_inventories_errors validate_inventories_unnamed_defined [OF _ _ assms]
    by blast
  note a6 = inventory_additions_unnamed [OF assms, of env]
  have v7: "\<forall>config s s'. validate_job_templates config s = Inr s' \<longrightarrow>
        s' = apply_additions (job_templates_document (environment s) config) s
        \<and> errors s' = errors s
            @ concat (map (on_record job_template_errors) (records_of config ''controller_templates''))"
    using validate_job_templates_document validate_job_templates_errors by blast
  note a7 = job_template_additions_unnamed [OF assms, of env]
  have v8: "\<forall>config s s'. validate_workflow_templates config s = Inr s' \<longrightarrow>
        s' = apply_additions (workflow_templates_document (environment s) config) s
        \<and> errors s' = errors s
            @ concat (map (on_record workflow_errors) (records_of config ''controller_workflows''))"
    using validate_workflow_templates_document validate_workflow_templates_errors by blast
  note a8 = workflow_additions_unnamed [OF assms, of env]
  have v9: "\<forall>config s s'. validate_schedules config s = Inr s' \<longrightarrow>
        s' = apply_additions (schedules_document (environment s) config) s
        \<and> errors s' = errors s
            @ concat (map (on_record schedule_errors) (records_of config ''controller_schedules''))"
    using validate_schedules_document validate_schedules_errors by blast
  note a9 = schedule_additions_unnamed [OF assms, of env]
  note m = unnamed_messages [OF assms]
  from record_name_unnamed [OF assms]
    v1 a1 v2 a2 v3 a3 v4 a4 v5 a5 v6 a6 v7 a7 v8 a8 v9 a9
    m(1) m(2) m(3) m(4) m(5) m(6) m(7) m(8) m(9)
  show ?thesis
    by (intro conjI impI) assumption+
qed

theorem unnamed_placeholder_is_defined_witness:
  "\<not> dict_has [] ''name''
   \<and> validate_teams example_teams_document example_start = Inr example_teams_result
   \<and> records_of example_teams_document ''controller_teams'' = [YDict [], YDict []]
   \<and> errors example_teams_result = errors example_start @ team_errors [] @ team_errors []
   \<and> team_errors [] = ''Team missing 'name' field'' # team_errors [(''name'', YStr ''unnamed'')]
   \<and> ''Team 'unnamed' missing organization reference'' \<in> set (team_errors [])
   \<and> set_member (YStr ''unnamed'') (defined_teams example_teams_result)"
proof -
  have h: "\<not> dict_has [] ''name''"
    by (simp add: dict_has_def)
  have run: "validate_teams example_teams_document example_start = Inr example_teams_result"
    by code_simp
  have r: "records_of example_teams_document ''controller_teams'' = [YDict [], YDict []]"
    by (simp add: records_of_def key_value_def example_teams_document_def dict_get_def)
  have o: "\<not> dict_has [] ''organization''"
    by (simp add: dict_has_def)
  note t = unnamed_placeholder_is_defined [OF h, of None]
  from t run r have "errors example_teams_result = errors example_start @ team_errors [] @ team_errors []
     \<and> set_member (YStr ''unnamed'') (defined_teams example_teams_result)"
    by (simp add: on_record_def)
  moreover from t have "new_errors (team_additions None [])
     = new_errors ((team_additions None [(''name'', YStr ''unnamed'')])
         \<lparr>new_errors := ''Team missing 'name' field'' # team_errors [(''name'', YStr ''unnamed'')]\<rparr>)"
    by simp
  then have "team_errors [] = ''Team missing 'name' field'' # team_errors [(''name'', YStr ''unnamed'')]"
    by (simp add: team_additions_def)
  moreover from t o have "''Team 'unnamed' missing organization reference'' \<in> set (team_errors [])"
    by blast
  ultimately show ?thesis using h run r by blast
qed

section \<open>Missing files, empty documents, and keys without records\<close>

text \<open>
  Claim C7, as the code has it. The claim says that every validator reports a count of zero
  as an informational note when its key holds no record. \<^verbatim>\<open>validate_organizations\<close>
  and \<^verbatim>\<open>validate_teams\<close> return early in that case, with a warning and without the
  note: a file \<^verbatim>\<open>organizations.yml\<close> whose key holds an empty sequence gives the warning
  \<^verbatim>\<open>No organizations defined\<close> and nothing else.
\<close>

theorem zero_organizations_counterexample:
  "validate_file example_fs ''/repo/inventory/group_vars/aap_prod''
     (''organizations.yml'', validate_organizations) example_start
   = Inr (example_start\<lparr>warnings := [''No organizations defined'']\<rparr>)"
  by code_simp

text \<open>
  Claim C7, amended. For a file that exists and decodes to a non-empty mapping in which the
  recognized key holds no record (or is absent): the validators of credentials, execution
  environments, projects, inventories, job templates, workflow templates and schedules add the
  informational note \<^verbatim>\<open>Found 0 ...\<close> and nothing else; the validators of organizations
  and teams add one warning and no note. A file that is missing, and a file that decodes to
  an empty or falsy document, leave the state as it was: no finding at all.
\<close>

theorem zero_records_asymmetry:
  "(fs (path_div p fn) = Some (Document (YDict c)) \<and> c \<noteq> [] \<longrightarrow>
       (py_iter (dict_get c ''controller_credentials'' (YList [])) = Inr [] \<longrightarrow>
           validate_file fs p (fn, validate_credentials) s = Inr (add_info ''Found 0 credential(s)'' s))
       \<and> (py_iter (dict_get c ''controller_execution_environments'' (YList [])) = Inr [] \<longrightarrow>
           validate_file fs p (fn, validate_execution_environments) s = Inr (add_info ''Found 0 execution environment(s)'' s))
       \<and> (py_iter (dict_get c ''controller_projects'' (YList [])) = Inr [] \<longrightarrow>
           validate_file fs p (fn, validate_projects) s = Inr (add_info ''Found 0 project(s)'' s))
       \<and> (py_iter (dict_get c ''controller_inventories'' (YList [])) = Inr [] \<longrightarrow>
           validate_file fs p (fn, validate_inventories) s = Inr (add_info ''Found 0 inventor(y|ies)'' s))
       \<and> (py_iter (dict_get c ''controller_templates'' (YList [])) = Inr [] \<longrightarrow>
           validate_file fs p (fn, validate_job_templates) s = Inr (add_info ''Found 0 job template(s)'' s))
       \<and> (py_iter (dict_get c ''controller_workflows'' (YList [])) = Inr [] \<longrightarrow>
           validate_file fs p (fn, validate_workflow_templates) s = Inr (add_info ''Found 0 workflow template(s)'' s))
       \<and> (py_iter (dict_get c ''controller_schedules'' (YList [])) = Inr [] \<longrightarrow>
           validate_file fs p (fn, validate_schedules) s = Inr (add_info ''Found 0 schedule(s)'' s))
       \<and> (py_iter (dict_get c ''controller_organizations'' (YList [])) = Inr [] \<longrightarrow>
           validate_file fs p (fn, validate_organizations) s
           = Inr (add_warning ''No organizations defined'' s))
       \<and> (py_iter (dict_get c ''controller_teams'' (YList [])) = Inr [] \<longrightarrow>
           validate_file fs p (fn, validate_teams) s
           = Inr (add_warning ''No teams defined - consider RBAC best practices'' s)))
   \<and> (fs (path_div p fn) = None
        \<or> (\<exists>cfg. fs (path_div p fn) = Some (Document cfg) \<and> \<not> py_truthy cfg) \<longrightarrow>
       validate_file fs p (fn, v) s = Inr s)"
proof (intro conjI impI)
  assume "fs (path_div p fn) = None
        \<or> (\<exists>cfg. fs (path_div p fn) = Some (Document cfg) \<and> \<not> py_truthy cfg)"
  then show "validate_file fs p (fn, v) s = Inr s"
    by (rule validate_file_skipped)
qed (simp_all add: validate_file_present zero_organizations zero_teams zero_credentials
       zero_execution_environments zero_projects zero_inventories zero_job_templates
       zero_workflow_templates zero_schedules)

theorem zero_records_asymmetry_witness:
  "validate_file example_fs ''/repo/inventory/group_vars/aap_prod''
     (''inventories.yml'', validate_inventories) example_start
   = Inr (add_info ''Found 0 inventor(y|ies)'' example_start)
   \<and> validate_file example_fs ''/repo/inventory/group_vars/aap_prod''
     (''organizations.yml'', validate_organizations) example_start
   = Inr (add_warning ''No organizations defined'' example_start)
   \<and> validate_file example_fs ''/repo/inventory/group_vars/aap_prod''
     (''teams.yml'', validate_teams) example_start
   = Inr example_start
   \<and> validate_file example_fs ''/repo/inventory/group_vars/aap_prod''
     (''schedules.yml'', validate_schedules) example_start
   = Inr example_start"
proof -
  let ?p = "''/repo/inventory/group_vars/aap_prod''"
  have a: "validate_file example_fs ?p (''inventories.yml'', validate_inventories) example_start
      = Inr (add_info ''Found 0 inventor(y|ies)'' example_start)"
    using zero_records_asymmetry [of example_fs ?p "''inventories.yml''"
        "[(''controller_inventories'', YList [])]" example_start]
    by (simp add: example_fs_def path_div_def dict_get_def)
  have b: "validate_file example_fs ?p (''organizations.yml'', validate_organizations) example_start
      = Inr (add_warning ''No organizations defined'' example_start)"
    using zero_records_asymmetry [of example_fs ?p "''organizations.yml''"
        "[(''controller_organizations'', YList [])]" example_start]
    by (simp add: example_fs_def path_div_def dict_get_def)
  have c: "validate_file example_fs ?p (''teams.yml'', validate_teams) example_start
      = Inr example_start"
    using zero_records_asymmetry [of example_fs ?p "''teams.yml''" _ example_start validate_teams]
    by (simp add: example_fs_def path_div_def)
  have d: "validate_file example_fs ?p (''schedules.yml'', validate_schedules) example_start
      = Inr example_start"
    using zero_records_asymmetry [of example_fs ?p "''schedules.yml''" _ example_start
        validate_schedules]
    by (simp add: example_fs_def path_div_def)
  from a b c d show ?thesis by blast
qed

section \<open>Exceptions\<close>

text \<open>
  Claim C5, as the code has it. The claim says that no input makes a validator raise. The
  validators have no exception handler and do not test the shape of what they read: a
  recognized key that holds null cannot be iterated over (\<^verbatim>\<open>TypeError\<close>), and a record
  that is a str has no \<^verbatim>\<open>get\<close> (\<^verbatim>\<open>AttributeError\<close>).
\<close>

theorem malformed_input_raises_counterexample:
  "validate_credentials (YDict [(''controller_credentials'', YNone)]) example_start
     = Inl TypeError
   \<and> validate_credentials (YDict [(''controller_credentials'', YList [YStr ''db''])]) example_start
     = Inl AttributeError"
  by code_simp

text \<open>
  Claim C5, amended. No exception leaves a validator when the document is a mapping whose
  recognized key, when present, holds a sequence of mappings in which every value that goes
  into a set of names (a name, a referenced credential, project, inventory or execution
  environment) is a scalar, a credential's \<open>inputs\<close> is a mapping, and an \<open>image\<close>
  and a template's \<open>credentials\<close> support \<^verbatim>\<open>in\<close> and iteration. For organizations and
  teams the recognized key may also hold null or another value that counts as false: their
  validators test for it and give a Warning. On all these documents the validator returns,
  the errors it appends are those of the records, and every required field that a record
  lacks has its Error among them.
\<close>

theorem shaped_documents_report_missing_fields:
  "((shaped_document ''controller_organizations'' shaped_named config
       \<or> falsy_key ''controller_organizations'' config) \<longrightarrow>
      (\<exists>s'. validate_organizations config s = Inr s'
         \<and> errors s' = errors s
             @ concat (map (on_record organization_errors) (records_of config ''controller_organizations''))
         \<and> (\<forall>d k m. YDict d \<in> set (records_of config ''controller_organizations'')
                \<and> (k, m) \<in> set (organization_required (record_name d)) \<and> \<not> dict_has d k
              \<longrightarrow> m \<in> set (errors s'))))
   \<and> ((shaped_document ''controller_teams'' shaped_named config
       \<or> falsy_key ''controller_teams'' config) \<longrightarrow>
      (\<exists>s'. validate_teams config s = Inr s'
         \<and> errors s' = errors s
             @ concat (map (on_record team_errors) (records_of config ''controller_teams''))
         \<and> (\<forall>d k m. YDict d \<in> set (records_of config ''controller_teams'')
                \<and> (k, m) \<in> set (team_required (record_name d)) \<and> \<not> dict_has d k
              \<longrightarrow> m \<in> set (errors s'))))
   \<and> (shaped_document ''controller_credentials'' shaped_credential config \<longrightarrow>
      (\<exists>s'. validate_credentials config s = Inr s'
         \<and> errors s' = errors s
             @ concat (map (on_record credential_errors) (records_of config ''controller_credentials''))
         \<and> (\<forall>d k m. YDict d \<in> set (records_of config ''controller_credentials'')
                \<and> (k, m) \<in> set (credential_required (record_name d)) \<and> \<not> dict_has d k
              \<longrightarrow> m \<in> set (errors s'))))
   \<and> (shaped_document ''controller_execution_environments'' shaped_execution_environment config \<longrightarrow>
      (\<exists>s'. validate_execution_environments config s = Inr s'
         \<and> errors s' = errors s
             @ concat (map (on_record execution_environment_errors) (records_of config ''controller_execution_environments''))
         \<and> (\<forall>d k m. YDict d \<in> set (records_of config ''controller_execution_environments'')
                \<and> (k, m) \<in> set (execution_environment_required (record_name d)) \<and> \<not> dict_has d k
              \<longrightarrow> m \<in> set (errors s'))))
   \<and> (shaped_document ''controller_projects'' shaped_project config \<longrightarrow>
      (\<exists>s'. validate_projects config s = Inr s'
         \<and> errors s' = errors s
             @ concat (map (on_record project_errors) (records_of config ''controller_projects''))
         \<and> (\<forall>d k m. YDict d \<in> set (records_of config ''controller_projects'')
                \<and> (k, m) \<in> set (project_required (record_name d)) \<and> \<not> dict_has d k
              \<longrightarrow> m \<in> set (errors s'))))
   \<and> (shaped_document ''controller_inventories'' shaped_named config \<longrightarrow>
      (\<exists>s'. validate_inventories config s = Inr s'
         \<and> errors s' = errors s
             @ concat (map (on_record inventory_errors) (records_of config ''controller_inventories''))
         \<and> (\<forall>d k m. YDict d \<in> set (records_of config ''controller_inventories'')
                \<and> (k, m) \<in> set (inventory_required (record_name d)) \<and> \<not> dict_has d k
              \<longrightarrow> m \<in> set (errors s'))))
   \<and> (shaped_document ''controller_templates'' shaped_job_template config \<longrightarrow>
      (\<exists>s'. validate_job_templates config s = Inr s'
         \<and> errors s' = errors s
             @ concat (map (on_record job_template_errors) (records_of config ''controller_templates''))
         \<and> (\<forall>d k m. YDict d \<in> set (records_of config ''controller_templates'')
                \<and> (k, m) \<in> set (job_template_required (record_name d)) \<and> \<not> dict_has d k
              \<longrightarrow> m \<in> set (errors s'))))
   \<and> (shaped_document ''controller_workflows'' shaped_mapping config \<longrightarrow>
      (\<exists>s'. validate_workflow_templates config s = Inr s'
         \<and> errors s' = errors s
             @ concat (map (on_record workflow_errors) (records_of config ''controller_workflows''))
         \<and> (\<forall>d k m. YDict d \<in> set (records_of config ''controller_workflows'')
                \<and> (k, m) \<in> set (workflow_required (record_name d)) \<and> \<not> dict_has d k
              \<longrightarrow> m \<in> set (errors s'))))
   \<and> (shaped_document ''controller_schedules'' shaped_mapping config \<longrightarrow>
      (\<exists>s'. validate_schedules config s = Inr s'
         \<and> errors s' = errors s
             @ concat (map (on_record schedule_errors) (records_of config ''controller_schedules''))
         \<and> (\<forall>d k m. YDict d \<in> set (records_of config ''controller_schedules'')
                \<and> (k, m) \<in> set (schedule_required (record_name d)) \<and> \<not> dict_has d k
              \<longrightarrow> m \<in> set (errors s'))))"
proof -
  have c1: "(\<exists>s'. validate_organizations config s = Inr s'
         \<and> errors s' = errors s
             @ concat (map (on_record organization_errors) (records_of config ''controller_organizations''))
         \<and> (\<forall>d k m. YDict d \<in> set (records_of config ''controller_organizations'')
                \<and> (k, m) \<in> set (organization_required (record_name d)) \<and> \<not> dict_has d k
              \<longrightarrow> m \<in> set (errors s')))"
    if "(shaped_document ''controller_organizations'' shaped_named config
       \<or> falsy_key ''controller_organizations'' config)"
  proof -
    from that obtain s' where r: "validate_organizations config s = Inr s'"
      using validate_organizations_total validate_organizations_falsy by blast
    from validate_organizations_errors [OF r] validate_organizations_missing_field [OF r] r show ?thesis
      by blast
  qed
  have c2: "(\<exists>s'. validate_teams config s = Inr s'
         \<and> errors s' = errors s
             @ concat (map (on_record team_errors) (records_of config ''controller_teams''))
         \<and> (\<forall>d k m. YDict d \<in> set (records_of config ''controller_teams'')
                \<and> (k, m) \<in> set (team_required (record_name d)) \<and> \<not> dict_has d k
              \<longrightarrow> m \<in> set (errors s')))"
    if "(shaped_document ''controller_teams'' shaped_named config
       \<or> falsy_key ''controller_teams'' config)"
  proof -
    from that obtain s' where r: "validate_teams config s = Inr s'"
      using validate_teams_total validate_teams_falsy by blast
    from validate_teams_errors [OF r] validate_teams_missing_field [OF r] r show ?thesis
      by blast
  qed
  have c3: "(\<exists>s'. validate_credentials config s = Inr s'
         \<and> errors s' = errors s
             @ concat (map (on_record credential_errors) (records_of config ''controller_credentials''))
         \<and> (\<forall>d k m. YDict d \<in> set (records_of config ''controller_credentials'')
                \<and> (k, m) \<in> set (credential_required (record_name d)) \<and> \<not> dict_has d k
              \<longrightarrow> m \<in> set (errors s')))"
    if "shaped_document ''controller_credentials'' shaped_credential config"
  proof -
    from validate_credentials_total [OF that] obtain s' where r: "validate_credentials config s = Inr s'"
      by blast
    from validate_credentials_errors [OF r] validate_credentials_missing_field [OF r] r show ?thesis
      by blast
  qed
  have c4: "(\<exists>s'. validate_execution_environments config s = Inr s'
         \<and> errors s' = errors s
             @ concat (map (on_record execution_environment_errors) (records_of config ''controller_execution_environments''))
         \<and> (\<forall>d k m. YDict d \<in> set (records_of config ''controller_execution_environments'')
                \<and> (k, m) \<in> set (execution_environment_required (record_name d)) \<and> \<not> dict_has d k
              \<longrightarrow> m \<in> set (errors s')))"
    if "shaped_document ''controller_execution_environments'' shaped_execution_environment config"
  proof -
    from validate_execution_environments_total [OF that] obtain s' where r: "validate_execution_environments config s = Inr s'"
      by blast
    from validate_execution_environments_errors [OF r] validate_execution_environments_missing_field [OF r] r show ?thesis
      by blast
  qed
  have c5: "(\<exists>s'. validate_projects config s = Inr s'
         \<and> errors s' = errors s
             @ concat (map (on_record project_errors) (records_of config ''controller_projects''))
         \<and> (\<forall>d k m. YDict d \<in> set (records_of config ''controller_projects'')
                \<and> (k, m) \<in> set (project_required (record_name d)) \<and> \<not> dict_has d k
              \<longrightarrow> m \<in> set (errors s')))"
    if "shaped_document ''controller_projects'' shaped_project config"
  proof -
    from validate_projects_total [OF that] obtain s' where r: "validate_projects config s = Inr s'"
      by blast
    from validate_projects_errors [OF r] validate_projects_missing_field [OF r] r show ?thesis
      by blast
  qed
  have c6: "(\<exists>s'. validate_inventories config s = Inr s'
         \<and> errors s' = errors s
             @ concat (map (on_record inventory_errors) (records_of config ''controller_inventories''))
         \<and> (\<forall>d k m. YDict d \<in> set (records_of config ''controller_inventories'')
                \<and> (k, m) \<in> set (inventory_required (record_name d)) \<and> \<not> dict_has d k
              \<longrightarrow> m \<in> set (errors s')))"
    if "shaped_document ''controller_inventories'' shaped_named config"
  proof -
    from validate_inventories_total [OF that] obtain s' where r: "validate_inventories config s = Inr s'"
      by blast
    from validate_inventories_errors [OF r] validate_inventories_missing_field [OF r] r show ?thesis
      by blast
  qed
  have c7: "(\<exists>s'. validate_job_templates config s = Inr s'
         \<and> errors s' = errors s
             @ concat (map (on_record job_template_errors) (records_of config ''controller_templates''))
         \<and> (\<forall>d k m. YDict d \<in> set (records_of config ''controller_templates'')
                \<and> (k, m) \<in> set (job_template_required (record_name d)) \<and> \<not> dict_has d k
              \<longrightarrow> m \<in> set (errors s')))"
    if "shaped_document ''controller_templates'' shaped_job_template config"
  proof -
    from validate_job_templates_total [OF that] obtain s' where r: "validate_job_templates config s = Inr s'"
      by blast
    from validate_job_templates_errors [OF r] validate_job_templates_missing_field [OF r] r show ?thesis
      by blast
  qed
  have c8: "(\<exists>s'. validate_workflow_templates config s = Inr s'
         \<and> errors s' = errors s
             @ concat (map (on_record workflow_errors) (records_of config ''controller_workflows''))
         \<and> (\<forall>d k m. YDict d \<in> set (records_of config ''controller_workflows'')
                \<and> (k, m) \<in> set (workflow_required (record_name d)) \<and> \<not> dict_has d k
              \<longrightarrow> m \<in> set (errors s')))"
    if "shaped_document ''controller_workflows'' shaped_mapping config"
  proof -
    from validate_workflow_templates_total [OF that] obtain s' where r: "validate_workflow_templates config s = Inr s'"
      by blast
    from validate_workflow_templates_errors [OF r] validate_workflow_templates_missing_field [OF r] r show ?thesis
      by blast
  qed
  have c9: "(\<exists>s'. validate_schedules config s = Inr s'
         \<and> errors s' = errors s
             @ concat (map (on_record schedule_errors) (records_of config ''controller_schedules''))
         \<and> (\<forall>d k m. YDict d \<in> set (records_of config ''controller_schedules'')
                \<and> (k, m) \<in> set (schedule_required (record_name d)) \<and> \<not> dict_has d k
              \<longrightarrow> m \<in> set (errors s')))"
    if "shaped_document ''controller_schedules'' shaped_mapping config"
  proof -
    from validate_schedules_total [OF that] obtain s' where r: "validate_schedules config s = Inr s'"
      by blast
    from validate_schedules_errors [OF r] validate_schedules_missing_field [OF r] r show ?thesis
      by blast
  qed
  from c1 c2 c3 c4 c5 c6 c7 c8 c9 show ?thesis
    by (intro conjI impI)
qed

theorem shaped_documents_report_missing_fields_witness:
  "shaped_document ''controller_credentials'' shaped_credential example_credentials_document
   \<and> (''credential_type'', ''Credential 'db' missing credential_type'')
       \<in> set (credential_required (YStr ''db''))
   \<and> \<not> dict_has example_credential ''credential_type''
   \<and> (\<exists>s'. validate_credentials example_credentials_document example_start = Inr s'
         \<and> ''Credential 'db' missing credential_type'' \<in> set (errors s'))"
proof -
  have h: "shaped_document ''controller_credentials'' shaped_credential
      example_credentials_document"
    by (simp add: example_credentials_document_def dict_get_def example_credential_def)
  have r: "YDict example_credential
      \<in> set (records_of example_credentials_document ''controller_credentials'')"
    by (simp add: records_of_def key_value_def example_credentials_document_def dict_get_def)
  have n: "record_name example_credential = YStr ''db''"
    by (simp add: record_name_def dict_get_def example_credential_def)
  have k: "(''credential_type'', ''Credential 'db' missing credential_type'')
       \<in> set (credential_required (YStr ''db''))"
    by (simp add: credential_required_def quoted_def)
  have m: "\<not> dict_has example_credential ''credential_type''"
    by (simp add: dict_has_def example_credential_def)
  from shaped_documents_report_missing_fields
    [of example_credentials_document example_start, THEN conjunct2, THEN conjunct2,
     THEN conjunct1, THEN mp, OF h]
  obtain s' where s: "validate_credentials example_credentials_document example_start = Inr s'"
    and a: "\<forall>d k m. YDict d
                  \<in> set (records_of example_credentials_document ''controller_credentials'')
                \<and> (k, m) \<in> set (credential_required (record_name d)) \<and> \<not> dict_has d k
              \<longrightarrow> m \<in> set (errors s')"
    by blast
  from a [rule_format, of example_credential "''credential_type''"
      "''Credential 'db' missing credential_type''"] r k m
  have "''Credential 'db' missing credential_type'' \<in> set (errors s')"
    by (simp add: n)
  with h k m s show ?thesis by blast
qed

section \<open>Dangling references\<close>



section \<open>Runs do not influence each other\<close>

text \<open>
  Claim C9. \<^verbatim>\<open>main\<close> constructs a new validator for every environment, with empty
  lists of findings and empty sets of names. When the loop over the environments runs to its
  end, the report printed for each environment is the report of that environment validated
  on its own, whatever was validated before it; in particular the same environment validated
  twice gives the same report twice. Two runs that differ in the order in which sets are
  iterated give the same errors and notes and the same warnings up to their order.
\<close>

theorem runs_are_independent:
  assumes "\<And>xs. mset (iter xs) = mset xs" and "\<And>xs. mset (iter' xs) = mset xs"
  shows "(run_environments iter fs bp envs all_passed = (printed, Inr r) \<longrightarrow>
           map Inr printed = map (environment_report iter fs bp) envs)
       \<and> (environment_report iter fs bp env = Inr v \<longrightarrow>
           (\<exists>v'. environment_report iter' fs bp env = Inr v' \<and> errors v' = errors v
              \<and> info v' = info v \<and> mset (warnings v') = mset (warnings v)))
       \<and> errors (init bp e) = [] \<and> warnings (init bp e) = [] \<and> info (init bp e) = []
       \<and> defined_credentials (init bp e) = []
       \<and> defined_projects (init bp e) = []
       \<and> defined_inventories (init bp e) = []
       \<and> defined_ees (init bp e) = []
       \<and> defined_organizations (init bp e) = []
       \<and> defined_teams (init bp e) = []
       \<and> referenced_credentials (init bp e) = []
       \<and> referenced_projects (init bp e) = []
       \<and> referenced_inventories (init bp e) = []
       \<and> referenced_ees (init bp e) = []"
proof (intro conjI)
  show "run_environments iter fs bp envs all_passed = (printed, Inr r) \<longrightarrow>
           map Inr printed = map (environment_report iter fs bp) envs"
    by (rule impI) (erule run_environments_reports)
  show "environment_report iter fs bp env = Inr v \<longrightarrow>
           (\<exists>v'. environment_report iter' fs bp env = Inr v' \<and> errors v' = errors v
              \<and> info v' = info v \<and> mset (warnings v') = mset (warnings v))"
    by (rule impI) (erule environment_report_order [OF assms])
qed (simp_all add: init_def)

theorem runs_are_independent_witness:
  "(\<forall>xs::yaml list. mset (rev xs) = mset xs) \<and> (\<forall>xs::yaml list. mset (id xs) = mset xs)
   \<and> run_environments rev example_fs ''/repo'' [''prod'', ''prod''] True
       = ([example_report, example_report], Inr False)
   \<and> map Inr [example_report, example_report]
       = map (environment_report rev example_fs ''/repo'') [''prod'', ''prod'']
   \<and> environment_report rev example_fs ''/repo'' ''prod'' = Inr example_report
   \<and> (\<exists>v'. environment_report id example_fs ''/repo'' ''prod'' = Inr v'
         \<and> errors v' = errors example_report \<and> info v' = info example_report
         \<and> mset (warnings v') = mset (warnings example_report))"
proof -
  have h1: "\<And>xs::yaml list. mset (rev xs) = mset xs" by simp
  have h2: "\<And>xs::yaml list. mset (id xs) = mset xs" by simp
  have r: "run_environments rev example_fs ''/repo'' [''prod'', ''prod''] True
       = ([example_report, example_report], Inr False)"
    by code_simp
  have e: "environment_report rev example_fs ''/repo'' ''prod'' = Inr example_report"
    by code_simp
  note t = runs_are_independent [of rev id example_fs "''/repo''" "[''prod'', ''prod'']" True
      "[example_report, example_report]" False "''prod''" example_report, OF h1 h2]
  from t r
  have a: "map Inr [example_report, example_report]
       = map (environment_report rev example_fs ''/repo'') [''prod'', ''prod'']"
    by blast
  from t e
  have b: "\<exists>v'. environment_report id example_fs ''/repo'' ''prod'' = Inr v'
         \<and> errors v' = errors example_report \<and> info v' = info example_report
         \<and> mset (warnings v') = mset (warnings example_report)"
    by blast
  from h1 h2 r a e b show ?thesis by blast
qed

end
